theory Spec2Isabelle
  imports Main "HOL-Library.Word"
begin

section \<open>JavaScript values and objects\<close>

text \<open>
  The bulk import routes of \<^verbatim>\<open>server/routes/productRoutes.js\<close> work on loosely typed
  rows: a cell may be a string, a number, a boolean or missing, and every check of the
  routes is a truthiness test. The values are modelled as they are in the source.
  A number is an integer from \<^verbatim>\<open>-2^53\<close> to \<^verbatim>\<open>2^53 - 1\<close>, kept as a 54-bit word that is read
  as a signed integer: each of them is a JavaScript number, and \<^verbatim>\<open>String\<close> prints it in
  plain decimal digits. Fractions, \<^verbatim>\<open>NaN\<close> and the infinities are not values of the
  type. A string is a list of code units below 256 (the Latin-1 range), and an
  \<^verbatim>\<open>ObjectId\<close> of the document store is a natural number.
\<close>

datatype jsval =
    Undefined
  | Null
  | Bool bool
  | Num "54 word"
  | Str string
  | ObjectId nat
  | Arr "jsval list"
  | Obj "(string \<times> jsval) list"

text \<open>An object is the list of its own properties in insertion order.\<close>

type_synonym obj = "(string \<times> jsval) list"

text \<open>\<^verbatim>\<open>!v\<close> is \<open>\<not> truthy v\<close>; \<^verbatim>\<open>Boolean(v)\<close> is \<open>truthy v\<close>.\<close>

fun truthy :: "jsval \<Rightarrow> bool" where
  "truthy Undefined = False"
| "truthy Null = False"
| "truthy (Bool b) = b"
| "truthy (Num n) = (n \<noteq> 0)"
| "truthy (Str s) = (s \<noteq> [])"
| "truthy (ObjectId i) = True"
| "truthy (Arr xs) = True"
| "truthy (Obj kvs) = True"

text \<open>\<^verbatim>\<open>a || b\<close>\<close>

definition js_or :: "jsval \<Rightarrow> jsval \<Rightarrow> jsval" where
  "js_or a b = (if truthy a then a else b)"

text \<open>\<^verbatim>\<open>o.k\<close> and \<^verbatim>\<open>o[k]\<close>: a property that is not there reads as \<^verbatim>\<open>undefined\<close>.\<close>

definition get :: "obj \<Rightarrow> string \<Rightarrow> jsval" where
  "get ob k = (case map_of ob k of None \<Rightarrow> Undefined | Some v \<Rightarrow> v)"

text \<open>\<^verbatim>\<open>o[k] = v\<close>: an existing property keeps its place, a new one goes last.\<close>

fun put :: "obj \<Rightarrow> string \<Rightarrow> jsval \<Rightarrow> obj" where
  "put [] k v = [(k, v)]"
| "put ((k', v') # rest) k v = (if k' = k then (k, v) # rest else (k', v') # put rest k v)"

text \<open>\<^verbatim>\<open>Object.values(o)\<close>\<close>

definition js_values :: "obj \<Rightarrow> jsval list" where
  "js_values ob = map snd ob"

subsection \<open>Strings\<close>

text \<open>
  The white space and the line terminators of the language among the code units below
  256: tab, line feed, vertical tab, form feed, carriage return, space and the
  no-break space.
\<close>

definition is_space :: "char \<Rightarrow> bool" where
  "is_space c =
     (c \<in> set [CHR 0x20, CHR 0x09, CHR 0x0A, CHR 0x0B, CHR 0x0C, CHR 0x0D, CHR 0xA0])"

text \<open>\<^verbatim>\<open>s.trim()\<close>\<close>

definition trim :: "string \<Rightarrow> string" where
  "trim s = rev (dropWhile is_space (rev (dropWhile is_space s)))"

text \<open>
  The upper-case letters below 256 are \<^verbatim>\<open>A\<close> to \<^verbatim>\<open>Z\<close> (65 to 90) and the accented
  capitals 192 to 222 without the multiplication sign 215; the lower-case form of each
  is 32 code units above it.
\<close>

definition lower_char :: "char \<Rightarrow> char" where
  "lower_char c =
     (let n = (of_char c :: nat)
      in if (65 \<le> n \<and> n \<le> 90) \<or> (192 \<le> n \<and> n \<le> 222 \<and> n \<noteq> 215)
         then char_of (n + 32) else c)"

text \<open>\<^verbatim>\<open>s.toLowerCase()\<close>\<close>

definition toLowerCase :: "string \<Rightarrow> string" where
  "toLowerCase s = map lower_char s"

text \<open>\<^verbatim>\<open>s.replace(/\s+/g, "-")\<close>: every maximal run of white space becomes one hyphen.\<close>

fun replace_run :: "bool \<Rightarrow> string \<Rightarrow> string" where
  "replace_run in_run [] = []"
| "replace_run in_run (c # cs) =
     (if is_space c then (if in_run then replace_run True cs else CHR ''-'' # replace_run True cs)
      else c # replace_run False cs)"

definition replace_spaces :: "string \<Rightarrow> string" where
  "replace_spaces s = replace_run False s"

text \<open>\<^verbatim>\<open>s.split(",")\<close>: the empty string splits into one empty piece.\<close>

fun split_comma :: "string \<Rightarrow> string list" where
  "split_comma [] = [[]]"
| "split_comma (c # cs) =
     (if c = CHR '','' then [] # split_comma cs
      else (case split_comma cs of [] \<Rightarrow> [[c]] | p # ps \<Rightarrow> (c # p) # ps))"

fun join_comma :: "string list \<Rightarrow> string" where
  "join_comma [] = []"
| "join_comma [s] = s"
| "join_comma (s # t # ss) = s @ '','' @ join_comma (t # ss)"

fun nat_digits :: "nat \<Rightarrow> string" where
  "nat_digits n =
     (if n < 10 then [''0123456789'' ! n]
      else nat_digits (n div 10) @ [''0123456789'' ! (n mod 10)])"

declare nat_digits.simps [simp del]

definition int_digits :: "int \<Rightarrow> string" where
  "int_digits n = (if n < 0 then CHR ''-'' # nat_digits (nat (- n)) else nat_digits (nat n))"

text \<open>
  \<^verbatim>\<open>String(v)\<close>. An array joins its elements with commas, \<^verbatim>\<open>null\<close> and
  \<^verbatim>\<open>undefined\<close> elements as the empty string. The digits of an identifier stand for
  its hexadecimal form.
\<close>

fun js_String :: "jsval \<Rightarrow> string" where
  "js_String Undefined = ''undefined''"
| "js_String Null = ''null''"
| "js_String (Bool b) = (if b then ''true'' else ''false'')"
| "js_String (Num n) = int_digits (sint n)"
| "js_String (Str s) = s"
| "js_String (ObjectId i) = nat_digits i"
| "js_String (Arr xs) =
     join_comma (map (\<lambda>x. if x = Undefined \<or> x = Null then [] else js_String x) xs)"
| "js_String (Obj kvs) = ''[object Object]''"

section \<open>The row normalizer\<close>

text \<open>The own properties of the alias table \<^verbatim>\<open>excelToBackendKey\<close>.\<close>

definition excelToBackendKey :: "(string \<times> string) list" where
  "excelToBackendKey =
     [(''name'', ''name''),
      (''slug'', ''slug''),
      (''SKU'', ''sku''),
      (''sku'', ''sku''),
      (''category'', ''category''),
      (''parent_category'', ''parent_category''),
      (''barcode'', ''barcode''),
      (''buying_price'', ''buyingPrice''),
      (''selling_price'', ''price''),
      (''offer_price'', ''offerPrice''),
      (''tax'', ''tax''),
      (''brand'', ''brand''),
      (''status'', ''stockStatus''),
      (''show_stock_out'', ''showStockOut''),
      (''can_purchasable'', ''canPurchase''),
      (''refundable'', ''refundable''),
      (''max_purchase_quantity'', ''maxPurchaseQty''),
      (''low_stock_warning'', ''lowStockWarning''),
      (''unit'', ''unit''),
      (''weight'', ''weight''),
      (''tags'', ''tags''),
      (''description'', ''description''),
      (''discount'', ''discount''),
      (''specifications'', ''specifications''),
      (''details'', ''details''),
      (''short_description'', ''shortDescription''),
      (''subCategory'', ''subCategory''),
      (''warranty'', ''warranty''),
      (''size'', ''size''),
      (''volume'', ''volume'')]"

text \<open>
  The table is an object literal, so \<^verbatim>\<open>excelToBackendKey[k]\<close> also finds the members
  that every object inherits from \<^verbatim>\<open>Object.prototype\<close>. Eleven of them are functions
  and \<^verbatim>\<open>__proto__\<close> is the prototype object itself: all are truthy, and used as a
  property key each becomes the string below.
\<close>

definition object_prototype :: "(string \<times> string) list" where
  "object_prototype =
     [(''constructor'', ''function Object() { [native code] }''),
      (''__defineGetter__'', ''function __defineGetter__() { [native code] }''),
      (''__defineSetter__'', ''function __defineSetter__() { [native code] }''),
      (''hasOwnProperty'', ''function hasOwnProperty() { [native code] }''),
      (''__lookupGetter__'', ''function __lookupGetter__() { [native code] }''),
      (''__lookupSetter__'', ''function __lookupSetter__() { [native code] }''),
      (''isPrototypeOf'', ''function isPrototypeOf() { [native code] }''),
      (''propertyIsEnumerable'', ''function propertyIsEnumerable() { [native code] }''),
      (''toString'', ''function toString() { [native code] }''),
      (''valueOf'', ''function valueOf() { [native code] }''),
      (''__proto__'', ''[object Object]''),
      (''toLocaleString'', ''function toLocaleString() { [native code] }'')]"

text \<open>
  \<^verbatim>\<open>excelToBackendKey[k]\<close> as the property key it is used for, when there is such a
  member: an own entry first, an inherited member otherwise.
\<close>

definition backend_key :: "string \<Rightarrow> string option" where
  "backend_key k =
     (case map_of excelToBackendKey k of
        Some backendKey \<Rightarrow> Some backendKey
      | None \<Rightarrow> map_of object_prototype k)"

text \<open>
  The \<^verbatim>\<open>for (const key in row)\<close> loop of \<^verbatim>\<open>remapRow\<close>, with its two accumulators
  \<^verbatim>\<open>mapped\<close> and \<^verbatim>\<open>specifications\<close>.
\<close>

fun remap_loop :: "obj \<Rightarrow> obj \<times> jsval list \<Rightarrow> obj \<times> jsval list" where
  "remap_loop [] acc = acc"
| "remap_loop ((key, v) # rest) (mapped, specifications) =
     (case backend_key (trim key) of
        Some backendKey \<Rightarrow> remap_loop rest (put mapped backendKey v, specifications)
      | None \<Rightarrow>
          (if v \<noteq> Undefined \<and> v \<noteq> Str []
           then remap_loop rest
                  (mapped,
                   specifications @ [Obj [(''key'', Str (trim key)), (''value'', Str (js_String v))]])
           else remap_loop rest (mapped, specifications)))"

definition remapRow :: "obj \<Rightarrow> obj" where
  "remapRow row =
     (case remap_loop row ([], []) of
        (mapped, specifications) \<Rightarrow>
          (if specifications \<noteq> [] then put mapped ''specifications'' (Arr specifications)
           else mapped))"

text \<open>\<^verbatim>\<open>generateSlug\<close>, on a string.\<close>

definition generateSlug :: "string \<Rightarrow> string" where
  "generateSlug name = replace_spaces (toLowerCase (trim name))"

section \<open>The document store\<close>

text \<open>
  The store is an external collaborator: a document is an object with an \<^verbatim>\<open>_id\<close>,
  a collection is the list of its documents, and the store hands out identifiers from
  a counter. Queries compare values as they are (the casts of the object-document mapper
  are not modelled). Whether the store accepts a new document (schema validation, a
  unique index) is the parameter \<open>refuse\<close>: it gives the error message of a refused
  write.
\<close>

record db =
  next_id :: nat
  collections :: "string \<Rightarrow> obj list"

type_synonym refusal = "string \<Rightarrow> obj list \<Rightarrow> obj \<Rightarrow> string option"

text \<open>\<^verbatim>\<open>Model.create(doc)\<close> and \<^verbatim>\<open>new Model(doc).save()\<close>\<close>

definition db_create :: "refusal \<Rightarrow> db \<Rightarrow> string \<Rightarrow> obj \<Rightarrow> string + (obj \<times> db)" where
  "db_create refuse d coll doc =
     (case refuse coll (collections d coll) doc of
        Some msg \<Rightarrow> Inl msg
      | None \<Rightarrow>
          (let saved = (''_id'', ObjectId (next_id d)) # doc
           in Inr (saved,
                   d\<lparr>next_id := Suc (next_id d),
                     collections := (collections d)(coll := collections d coll @ [saved])\<rparr>)))"

text \<open>\<^verbatim>\<open>Model.find({ name: { $in: names } })\<close>\<close>

definition find_by_names :: "db \<Rightarrow> string \<Rightarrow> string list \<Rightarrow> obj list" where
  "find_by_names d coll names = filter (\<lambda>doc. get doc ''name'' \<in> Str ` set names) (collections d coll)"

text \<open>\<^verbatim>\<open>Model.findById(id)\<close>\<close>

definition findById :: "db \<Rightarrow> string \<Rightarrow> jsval \<Rightarrow> obj option" where
  "findById d coll ident = find (\<lambda>doc. get doc ''_id'' = ident) (collections d coll)"

text \<open>\<^verbatim>\<open>Product.find({ $or: [{ name: { $in: names } }, { slug: { $in: slugs } }] })\<close>\<close>

definition find_products :: "db \<Rightarrow> jsval list \<Rightarrow> jsval list \<Rightarrow> obj list" where
  "find_products d names slugs =
     filter (\<lambda>p. get p ''name'' \<in> set names \<or> get p ''slug'' \<in> set slugs)
       (collections d ''Product'')"

text \<open>
  \<^verbatim>\<open>Product.findOne({ $or: [{ name: n }, { slug: s }] })\<close>; a value that is
  \<^verbatim>\<open>undefined\<close> matches the documents that lack the field.
\<close>

definition findOne_name_or_slug :: "db \<Rightarrow> jsval \<Rightarrow> jsval \<Rightarrow> obj option" where
  "findOne_name_or_slug d n s =
     find (\<lambda>p. get p ''name'' = n \<or> get p ''slug'' = s) (collections d ''Product'')"

section \<open>The dimension resolver\<close>

text \<open>
  A \<^verbatim>\<open>Map\<close> from the trimmed, lower-cased name to the identifier; \<^verbatim>\<open>Map.get\<close>
  of a missing key is \<^verbatim>\<open>undefined\<close>.
\<close>

type_synonym idmap = "string \<Rightarrow> jsval option"

definition map_get :: "idmap \<Rightarrow> string \<Rightarrow> jsval" where
  "map_get m k = (case m k of None \<Rightarrow> Undefined | Some v \<Rightarrow> v)"

text \<open>\<^verbatim>\<open>String(v).trim().toLowerCase()\<close>\<close>

definition dim_key :: "jsval \<Rightarrow> string" where
  "dim_key v = toLowerCase (trim (js_String v))"

text \<open>\<^verbatim>\<open>row.f ? fMap.get(String(row.f).trim().toLowerCase()) : undefined\<close>\<close>

definition dim_lookup :: "idmap \<Rightarrow> jsval \<Rightarrow> jsval" where
  "dim_lookup m v = (if truthy v then map_get m (dim_key v) else Undefined)"

text \<open>
  The \<^verbatim>\<open>Set\<close> of names of one kind: \<^verbatim>\<open>if (row.f) names.add(String(row.f).trim())\<close>
  over the rows, in insertion order.
\<close>

definition set_add :: "string \<Rightarrow> string list \<Rightarrow> string list" where
  "set_add x xs = (if x \<in> set xs then xs else xs @ [x])"

fun unique_names :: "obj list \<Rightarrow> string \<Rightarrow> string list \<Rightarrow> string list" where
  "unique_names [] f names = names"
| "unique_names (r # rows) f names =
     (if truthy (get r f)
      then unique_names rows f (set_add (trim (js_String (get r f))) names)
      else unique_names rows f names)"

text \<open>
  \<^verbatim>\<open>found.forEach((e) => m.set(e.name.trim().toLowerCase(), e._id))\<close>; the name of
  a found document is a string, one of the names asked for.
\<close>

fun fill_map :: "obj list \<Rightarrow> idmap \<Rightarrow> idmap" where
  "fill_map [] m = m"
| "fill_map (e # es) m = fill_map es (m(dim_key (get e ''name'') \<mapsto> get e ''_id''))"

text \<open>
  The creation loop of one kind:
  \<^verbatim>\<open>for (const name of names) if (!m.has(key)) { const e = await Model.create(doc); m.set(key, e._id) }\<close>.
  A refused creation throws, and the route answers with that error alone.
\<close>

fun create_missing ::
  "refusal \<Rightarrow> string \<Rightarrow> (string \<Rightarrow> obj) \<Rightarrow> string list \<Rightarrow> db \<times> idmap \<Rightarrow> string + (db \<times> idmap)" where
  "create_missing refuse coll doc_of [] (d, m) = Inr (d, m)"
| "create_missing refuse coll doc_of (name # names) (d, m) =
     (if m (toLowerCase (trim name)) \<noteq> None then create_missing refuse coll doc_of names (d, m)
      else (case db_create refuse d coll (doc_of name) of
              Inl msg \<Rightarrow> Inl msg
            | Inr (e, d') \<Rightarrow>
                create_missing refuse coll doc_of names
                  (d', m(toLowerCase (trim name) \<mapsto> get e ''_id''))))"

text \<open>The documents the routes create for a missing name.\<close>

definition named_doc :: "jsval \<Rightarrow> string \<Rightarrow> obj" where
  "named_doc user name = [(''name'', Str (trim name)), (''createdBy'', user)]"

definition slugged_doc :: "jsval \<Rightarrow> string \<Rightarrow> obj" where
  "slugged_doc user name =
     [(''name'', Str (trim name)), (''slug'', Str (generateSlug name)), (''createdBy'', user)]"

definition unit_doc :: "jsval \<Rightarrow> string \<Rightarrow> obj" where
  "unit_doc user name =
     [(''name'', Str (trim name)),
      (''symbol'', Str (if length (trim name) \<le> 3 then trim name else take 1 (trim name))),
      (''type'', Str ''piece''),
      (''createdBy'', user)]"

definition tax_doc :: "jsval \<Rightarrow> string \<Rightarrow> obj" where
  "tax_doc user name = [(''name'', Str (trim name)), (''rate'', Num 5), (''createdBy'', user)]"

text \<open>
  A new subcategory takes the parent of the first row that pairs its name with a parent
  name: \<^verbatim>\<open>rows.find((r) => r[sub] && String(r[sub]).trim().toLowerCase() === key && r[parent])\<close>.
\<close>

definition subcategory_doc ::
  "jsval \<Rightarrow> obj list \<Rightarrow> string \<Rightarrow> string \<Rightarrow> idmap \<Rightarrow> string \<Rightarrow> obj" where
  "subcategory_doc user rows sub parent parentMap name =
     (let rowWithParent =
            find (\<lambda>r. truthy (get r sub) \<and> dim_key (get r sub) = toLowerCase (trim name)
                        \<and> truthy (get r parent)) rows;
          parentCategoryId =
            (case rowWithParent of
               None \<Rightarrow> Undefined
             | Some r \<Rightarrow> map_get parentMap (dim_key (get r parent)))
      in [(''name'', Str (trim name)), (''slug'', Str (generateSlug name)),
          (''category'', parentCategoryId), (''createdBy'', user)])"

section \<open>Validating and mapping the rows\<close>

text \<open>
  What the body of a row loop does with one row: it pushes a rejection and continues,
  it pushes a candidate, or it throws.
\<close>

datatype verdict = Reject string | Accept obj | Throw string

text \<open>An entry \<^verbatim>\<open>{ row, reason, data }\<close> of \<^verbatim>\<open>invalidRows\<close>.\<close>

record invalid_row =
  ir_row :: nat
  ir_reason :: string
  ir_data :: obj

text \<open>
  \<^verbatim>\<open>for (const [i, row] of rows.entries())\<close> of the two preview routes, with the
  accumulators \<^verbatim>\<open>previewProducts\<close> and \<^verbatim>\<open>invalidRows\<close>. An exception leaves the
  loop: the route's \<^verbatim>\<open>catch\<close> answers with the message and no report.
\<close>

fun preview_loop ::
  "(obj \<Rightarrow> verdict) \<Rightarrow> nat \<Rightarrow> obj list \<Rightarrow> obj list \<times> invalid_row list
     \<Rightarrow> string + (obj list \<times> invalid_row list)" where
  "preview_loop body i [] (previewProducts, invalidRows) = Inr (previewProducts, invalidRows)"
| "preview_loop body i (r # rows) (previewProducts, invalidRows) =
     (case body r of
        Reject why \<Rightarrow>
          preview_loop body (Suc i) rows
            (previewProducts, invalidRows @ [\<lparr>ir_row = i + 2, ir_reason = why, ir_data = r\<rparr>])
      | Accept product \<Rightarrow>
          preview_loop body (Suc i) rows (previewProducts @ [product], invalidRows)
      | Throw msg \<Rightarrow> Inl msg)"

text \<open>\<^verbatim>\<open>Object.values(row).every((v) => !v)\<close>\<close>

definition empty_row :: "obj \<Rightarrow> bool" where
  "empty_row r = list_all (\<lambda>v. \<not> truthy v) (js_values r)"

text \<open>
  \<^verbatim>\<open>(row.name && existingNames.has(row.name)) || (row.slug && existingSlugs.has(row.slug))\<close>
\<close>

definition duplicate_row :: "jsval list \<Rightarrow> jsval list \<Rightarrow> obj \<Rightarrow> bool" where
  "duplicate_row existingNames existingSlugs r =
     ((truthy (get r ''name'') \<and> get r ''name'' \<in> set existingNames)
      \<or> (truthy (get r ''slug'') \<and> get r ''slug'' \<in> set existingSlugs))"

definition allowedStockStatus :: "jsval list" where
  "allowedStockStatus = [Str ''Available Product'', Str ''Out of Stock'', Str ''PreOrder'']"

text \<open>
  \<^verbatim>\<open>let stockStatus = row.stockStatus || "Available Product"\<close>,
  \<^verbatim>\<open>if (!allowedStockStatus.includes(stockStatus)) stockStatus = "Available Product"\<close>
\<close>

definition canonStockStatus :: "jsval \<Rightarrow> jsval" where
  "canonStockStatus v =
     (let stockStatus = js_or v (Str ''Available Product'')
      in if stockStatus \<notin> set allowedStockStatus then Str ''Available Product'' else stockStatus)"

text \<open>\<^verbatim>\<open>v !== undefined ? Boolean(v) : d\<close>\<close>

definition boolean_or :: "jsval \<Rightarrow> bool \<Rightarrow> jsval" where
  "boolean_or v d = (if v \<noteq> Undefined then Bool (truthy v) else Bool d)"

text \<open>\<^verbatim>\<open>v === "true" || v === true\<close>\<close>

definition is_true :: "jsval \<Rightarrow> jsval" where
  "is_true v = Bool (v = Str ''true'' \<or> v = Bool True)"

text \<open>\<^verbatim>\<open>v ? String(v).split(",") : []\<close>\<close>

definition split_list :: "jsval \<Rightarrow> jsval" where
  "split_list v = (if truthy v then Arr (map Str (split_comma (js_String v))) else Arr [])"

text \<open>The name-to-identifier maps of a run.\<close>

record dimension_maps =
  parentCategoryMap :: idmap
  categoryMap :: idmap
  brandMap :: idmap
  subCategoryMap :: idmap
  taxMap :: idmap
  unitMap :: idmap
  colorMap :: idmap
  warrantyMap :: idmap
  sizeMap :: idmap
  volumeMap :: idmap

text \<open>
  The products of the store that a batch may collide with, and their names and slugs:
  \<^verbatim>\<open>names = rows.map((r) => r.name).filter(Boolean)\<close>, the same for the slugs, one
  query, and \<^verbatim>\<open>existingNames = new Set(existingProducts.map((p) => p.name))\<close>.
\<close>

definition existing_products :: "db \<Rightarrow> obj list \<Rightarrow> obj list" where
  "existing_products d rows =
     find_products d (filter truthy (map (\<lambda>r. get r ''name'') rows))
       (filter truthy (map (\<lambda>r. get r ''slug'') rows))"

definition existing_names :: "db \<Rightarrow> obj list \<Rightarrow> jsval list" where
  "existing_names d rows = map (\<lambda>p. get p ''name'') (existing_products d rows)"

definition existing_slugs :: "db \<Rightarrow> obj list \<Rightarrow> jsval list" where
  "existing_slugs d rows = map (\<lambda>p. get p ''slug'') (existing_products d rows)"

subsection \<open>The spreadsheet preview\<close>

text \<open>The loop body of \<^verbatim>\<open>POST /bulk-preview\<close>, on a remapped row.\<close>

definition preview_row :: "dimension_maps \<Rightarrow> jsval list \<Rightarrow> jsval list \<Rightarrow> obj \<Rightarrow> verdict" where
  "preview_row maps existingNames existingSlugs r =
     (if empty_row r then Reject ''Empty row''
      else if duplicate_row existingNames existingSlugs r
      then Reject ''Duplicate product name or slug''
      else Accept
        [(''name'', js_or (get r ''name'') (Str [])),
         (''price'', js_or (get r ''price'') (Num 0)),
         (''offerPrice'', js_or (get r ''offerPrice'') (Num 0)),
         (''discount'', js_or (get r ''discount'') (Num 0)),
         (''oldPrice'', js_or (get r ''oldPrice'') (Num 0)),
         (''image'', js_or (get r ''image'') (Str [])),
         (''galleryImages'', split_list (get r ''galleryImages'')),
         (''countInStock'', js_or (get r ''countInStock'') (Num 0)),
         (''description'', js_or (get r ''description'') (Str [])),
         (''shortDescription'', js_or (get r ''shortDescription'') (Str [])),
         (''category'', dim_lookup (categoryMap maps) (get r ''category'')),
         (''brand'', dim_lookup (brandMap maps) (get r ''brand'')),
         (''sku'', js_or (get r ''sku'') (Str [])),
         (''slug'', js_or (get r ''slug'') (Str [])),
         (''barcode'', js_or (get r ''barcode'') (Str [])),
         (''stockStatus'', canonStockStatus (get r ''stockStatus'')),
         (''buyingPrice'', js_or (get r ''buyingPrice'') (Num 0)),
         (''lowStockWarning'', js_or (get r ''lowStockWarning'') (Num 5)),
         (''maxPurchaseQty'', js_or (get r ''maxPurchaseQty'') (Num 10)),
         (''weight'', js_or (get r ''weight'') (Num 0)),
         (''unit'', dim_lookup (unitMap maps) (get r ''unit'')),
         (''color'', dim_lookup (colorMap maps) (get r ''color'')),
         (''tax'', dim_lookup (taxMap maps) (get r ''tax'')),
         (''tags'', split_list (get r ''tags'')),
         (''isActive'', boolean_or (get r ''isActive'') True),
         (''canPurchase'', boolean_or (get r ''canPurchase'') True),
         (''showStockOut'', boolean_or (get r ''showStockOut'') True),
         (''refundable'', boolean_or (get r ''refundable'') True),
         (''featured'', boolean_or (get r ''featured'') False),
         (''subCategory'', dim_lookup (subCategoryMap maps) (get r ''subCategory'')),
         (''warranty'', dim_lookup (warrantyMap maps) (get r ''warranty'')),
         (''size'', dim_lookup (sizeMap maps) (get r ''size'')),
         (''volume'', dim_lookup (volumeMap maps) (get r ''volume''))])"

text \<open>Sequencing of steps that may throw: the first error is the result.\<close>

definition and_then :: "string + 'a \<Rightarrow> ('a \<Rightarrow> string + 'b) \<Rightarrow> string + 'b" where
  "and_then x f = (case x of Inl msg \<Rightarrow> Inl msg | Inr a \<Rightarrow> f a)"

text \<open>
  The lookup-and-create phase of \<^verbatim>\<open>POST /bulk-preview\<close>: the nine queries run on the
  store as it is found, then the nine creation loops run in the order of the source.
\<close>

definition excel_resolve ::
  "refusal \<Rightarrow> jsval \<Rightarrow> db \<Rightarrow> obj list \<Rightarrow> string + (db \<times> dimension_maps)" where
  "excel_resolve refuse user d0 mappedRows =
     (let uniqueCategoryNames = unique_names mappedRows ''category'' [];
          uniqueBrandNames = unique_names mappedRows ''brand'' [];
          uniqueSubCategoryNames = unique_names mappedRows ''subCategory'' [];
          uniqueTaxNames = unique_names mappedRows ''tax'' [];
          uniqueUnitNames = unique_names mappedRows ''unit'' [];
          uniqueColorNames = unique_names mappedRows ''color'' [];
          uniqueWarrantyNames = unique_names mappedRows ''warranty'' [];
          uniqueSizeNames = unique_names mappedRows ''size'' [];
          uniqueVolumeNames = unique_names mappedRows ''volume'' [];
          found = (\<lambda>coll names. fill_map (find_by_names d0 coll names) Map.empty)
      in
      and_then (create_missing refuse ''Category'' (slugged_doc user) uniqueCategoryNames
                  (d0, found ''Category'' uniqueCategoryNames)) (\<lambda>(d1, categoryMap').
      and_then (create_missing refuse ''Brand'' (slugged_doc user) uniqueBrandNames
                  (d1, found ''Brand'' uniqueBrandNames)) (\<lambda>(d2, brandMap').
      and_then (create_missing refuse ''SubCategory''
                  (subcategory_doc user mappedRows ''subCategory'' ''category'' categoryMap')
                  uniqueSubCategoryNames
                  (d2, found ''SubCategory'' uniqueSubCategoryNames)) (\<lambda>(d3, subCategoryMap').
      and_then (create_missing refuse ''Tax'' (named_doc user) uniqueTaxNames
                  (d3, found ''Tax'' uniqueTaxNames)) (\<lambda>(d4, taxMap').
      and_then (create_missing refuse ''Unit'' (unit_doc user) uniqueUnitNames
                  (d4, found ''Unit'' uniqueUnitNames)) (\<lambda>(d5, unitMap').
      and_then (create_missing refuse ''Color'' (named_doc user) uniqueColorNames
                  (d5, found ''Color'' uniqueColorNames)) (\<lambda>(d6, colorMap').
      and_then (create_missing refuse ''Warranty'' (named_doc user) uniqueWarrantyNames
                  (d6, found ''Warranty'' uniqueWarrantyNames)) (\<lambda>(d7, warrantyMap').
      and_then (create_missing refuse ''Size'' (named_doc user) uniqueSizeNames
                  (d7, found ''Size'' uniqueSizeNames)) (\<lambda>(d8, sizeMap').
      and_then (create_missing refuse ''Volume'' (named_doc user) uniqueVolumeNames
                  (d8, found ''Volume'' uniqueVolumeNames)) (\<lambda>(d9, volumeMap').
      Inr (d9,
           \<lparr>parentCategoryMap = Map.empty, categoryMap = categoryMap', brandMap = brandMap',
            subCategoryMap = subCategoryMap', taxMap = taxMap', unitMap = unitMap',
            colorMap = colorMap', warrantyMap = warrantyMap', sizeMap = sizeMap',
            volumeMap = volumeMap'\<rparr>)))))))))))"

text \<open>
  The display object \<^verbatim>\<open>{ _id, name, slug }\<close>, and one step of the population of a
  product: \<^verbatim>\<open>if (prod.f) { const e = await Model.findById(prod.f); if (e) populated.f = {...} }\<close>.
\<close>

definition display :: "obj \<Rightarrow> jsval" where
  "display e = Obj [(''_id'', get e ''_id''), (''name'', get e ''name''), (''slug'', get e ''slug'')]"

definition populate_field :: "db \<Rightarrow> string \<Rightarrow> string \<Rightarrow> obj \<Rightarrow> obj \<Rightarrow> obj" where
  "populate_field d coll f product populated =
     (if truthy (get product f)
      then (case findById d coll (get product f) of
              None \<Rightarrow> populated
            | Some e \<Rightarrow> put populated f (display e))
      else populated)"

definition excel_populate :: "db \<Rightarrow> obj \<Rightarrow> obj" where
  "excel_populate d product =
     populate_field d ''Brand'' ''brand'' product
       (populate_field d ''SubCategory'' ''subCategory'' product
          (populate_field d ''Category'' ''category'' product product))"

text \<open>The answer \<^verbatim>\<open>{ previewProducts, invalidRows, total, valid, invalid }\<close>.\<close>

record preview_report =
  rp_previewProducts :: "obj list"
  rp_invalidRows :: "invalid_row list"
  rp_total :: nat
  rp_valid :: nat
  rp_invalid :: nat

text \<open>
  The \<^verbatim>\<open>try\<close> block of \<^verbatim>\<open>POST /bulk-preview\<close> once the first sheet has been read
  into \<^verbatim>\<open>rows\<close>: from \<^verbatim>\<open>const mappedRows = rows.map(remapRow)\<close> to the answer. The
  names and slugs of the product query are read from the raw rows, the loop runs over
  the remapped rows. The route itself, with the reading of the upload, is
  \<open>post_bulk_preview\<close> below.
\<close>

definition bulk_preview ::
  "refusal \<Rightarrow> jsval \<Rightarrow> db \<Rightarrow> obj list \<Rightarrow> string + (preview_report \<times> db)" where
  "bulk_preview refuse user d0 rows =
     (let mappedRows = map remapRow rows
      in and_then (excel_resolve refuse user d0 mappedRows) (\<lambda>(d, maps).
           and_then
             (preview_loop (preview_row maps (existing_names d rows) (existing_slugs d rows)) 0
                mappedRows ([], []))
             (\<lambda>(previewProducts, invalidRows).
                Inr (\<lparr>rp_previewProducts = map (excel_populate d) previewProducts,
                      rp_invalidRows = invalidRows,
                      rp_total = length rows,
                      rp_valid = length previewProducts,
                      rp_invalid = length invalidRows\<rparr>, d))))"

subsection \<open>The upload of the spreadsheet\<close>

text \<open>
  The route is mounted behind \<^verbatim>\<open>excelUpload.single("file")\<close>, where
  \<^verbatim>\<open>excelUpload = multer({ storage: multer.memoryStorage() })\<close>. With the memory
  storage the uploaded file stays in a buffer: \<^verbatim>\<open>req.file\<close> has the properties below
  and no \<^verbatim>\<open>path\<close>.
\<close>

definition memoryStorage_file ::
  "string \<Rightarrow> string \<Rightarrow> string \<Rightarrow> jsval \<Rightarrow> jsval \<Rightarrow> obj" where
  "memoryStorage_file originalname encoding mimetype buffer bytes =
     [(''fieldname'', Str ''file''), (''originalname'', Str originalname),
      (''encoding'', Str encoding), (''mimetype'', Str mimetype),
      (''buffer'', buffer), (''size'', bytes)]"

text \<open>
  \<^verbatim>\<open>XLSX.readFile(path)\<close> with \<^verbatim>\<open>XLSX.utils.sheet_to_json\<close> of the first sheet.
  The library reads the file with \<^verbatim>\<open>fs.readFileSync(path)\<close>, which throws a
  \<^verbatim>\<open>TypeError\<close> for a path that is not a string and an error for a path where there
  is no file. The disk gives the rows of the workbook stored at a path; the two errors
  are named by their codes. The path of an upload is a string or \<^verbatim>\<open>undefined\<close>.
\<close>

definition readFile :: "(string \<Rightarrow> obj list option) \<Rightarrow> jsval \<Rightarrow> string + obj list" where
  "readFile disk path =
     (case path of
        Str p \<Rightarrow> (case disk p of None \<Rightarrow> Inl ''ENOENT'' | Some rows \<Rightarrow> Inr rows)
      | _ \<Rightarrow> Inl ''ERR_INVALID_ARG_TYPE'')"

text \<open>
  \<^verbatim>\<open>POST /bulk-preview\<close> on \<^verbatim>\<open>req.file\<close> as the upload middleware left it
  (\<open>None\<close> when no file was sent): the answer 400, or the \<^verbatim>\<open>try\<close> block, whose
  \<^verbatim>\<open>catch\<close> answers 500 with the message of the error. The removal of the file after
  the reading (\<^verbatim>\<open>fs.unlinkSync\<close>) changes the disk alone and is left out.
\<close>

definition post_bulk_preview ::
  "refusal \<Rightarrow> jsval \<Rightarrow> (string \<Rightarrow> obj list option) \<Rightarrow> db \<Rightarrow> obj option
     \<Rightarrow> string + (preview_report \<times> db)" where
  "post_bulk_preview refuse user disk d0 file =
     (case file of
        None \<Rightarrow> Inl ''No file uploaded''
      | Some f \<Rightarrow>
          and_then (readFile disk (get f ''path'')) (\<lambda>rows. bulk_preview refuse user d0 rows))"

subsection \<open>The CSV preview\<close>

text \<open>\<^verbatim>\<open>!v\<close>\<close>

definition falsy :: "jsval \<Rightarrow> bool" where
  "falsy v = (\<not> truthy v)"

text \<open>
  \<^verbatim>\<open>row.slug || generateSlug(row.name || "")\<close>: \<^verbatim>\<open>generateSlug\<close> calls
  \<^verbatim>\<open>name.trim()\<close>, which only a string has.
\<close>

definition slug_or_generate :: "jsval \<Rightarrow> jsval \<Rightarrow> string + jsval" where
  "slug_or_generate slug name =
     (if truthy slug then Inr slug
      else (case js_or name (Str []) of
              Str s \<Rightarrow> Inr (Str (generateSlug s))
            | _ \<Rightarrow> Inl ''name.trim is not a function''))"

text \<open>
  \<^verbatim>\<open>row.tags ? String(row.tags).split(",").map((t) => t.trim()) : []\<close>
\<close>

definition split_trimmed :: "jsval \<Rightarrow> jsval" where
  "split_trimmed v =
     (if truthy v then Arr (map (\<lambda>t. Str (trim t)) (split_comma (js_String v))) else Arr [])"

text \<open>
  The loop body of \<^verbatim>\<open>POST /bulk-preview-csv\<close>. The eight fields that go through
  \<^verbatim>\<open>Number.parseFloat\<close> and \<^verbatim>\<open>Number.parseInt\<close> (the prices, the discount, the
  weight and the three quantities) are floating-point conversions and are left out of
  the candidate; no other field depends on them.
\<close>

definition csv_row :: "dimension_maps \<Rightarrow> jsval list \<Rightarrow> jsval list \<Rightarrow> obj \<Rightarrow> verdict" where
  "csv_row maps existingNames existingSlugs r =
     (if empty_row r then Reject ''Empty row''
      else if falsy (get r ''name'') \<or> falsy (get r ''parent_category'')
      then Reject ''Missing required fields (name, parent_category)''
      else if duplicate_row existingNames existingSlugs r
      then Reject ''Duplicate product name or slug''
      else (case slug_or_generate (get r ''slug'') (get r ''name'') of
              Inl msg \<Rightarrow> Throw msg
            | Inr slug \<Rightarrow> Accept
                [(''name'', js_or (get r ''name'') (Str [])),
                 (''slug'', slug),
                 (''sku'', js_or (get r ''sku'') (Str [])),
                 (''barcode'', js_or (get r ''barcode'') (Str [])),
                 (''parentCategory'', map_get (parentCategoryMap maps) (dim_key (get r ''parent_category''))),
                 (''category'', dim_lookup (subCategoryMap maps) (get r ''category'')),
                 (''brand'', dim_lookup (brandMap maps) (get r ''brand'')),
                 (''tax'', dim_lookup (taxMap maps) (get r ''tax'')),
                 (''stockStatus'', canonStockStatus (get r ''stockStatus'')),
                 (''showStockOut'', is_true (get r ''showStockOut'')),
                 (''canPurchase'', is_true (get r ''canPurchase'')),
                 (''refundable'', is_true (get r ''refundable'')),
                 (''unit'', dim_lookup (unitMap maps) (get r ''unit'')),
                 (''tags'', split_trimmed (get r ''tags'')),
                 (''description'', js_or (get r ''description'') (Str [])),
                 (''shortDescription'', js_or (get r ''shortDescription'') (Str [])),
                 (''specifications'',
                    (if truthy (get r ''specifications'')
                     then Arr [Obj [(''key'', Str ''Specifications''),
                                    (''value'', get r ''specifications'')]]
                     else Arr [])),
                 (''details'', js_or (get r ''details'') (Str [])),
                 (''isActive'', Bool True),
                 (''featured'', Bool False)]))"

text \<open>The lookup-and-create phase of \<^verbatim>\<open>POST /bulk-preview-csv\<close>: five kinds.\<close>

definition csv_resolve ::
  "refusal \<Rightarrow> jsval \<Rightarrow> db \<Rightarrow> obj list \<Rightarrow> string + (db \<times> dimension_maps)" where
  "csv_resolve refuse user d0 csvData =
     (let uniqueParentCategoryNames = unique_names csvData ''parent_category'' [];
          uniqueCategoryNames = unique_names csvData ''category'' [];
          uniqueBrandNames = unique_names csvData ''brand'' [];
          uniqueTaxNames = unique_names csvData ''tax'' [];
          uniqueUnitNames = unique_names csvData ''unit'' [];
          found = (\<lambda>coll names. fill_map (find_by_names d0 coll names) Map.empty)
      in
      and_then (create_missing refuse ''Category'' (slugged_doc user) uniqueParentCategoryNames
                  (d0, found ''Category'' uniqueParentCategoryNames)) (\<lambda>(d1, parentCategoryMap').
      and_then (create_missing refuse ''SubCategory''
                  (subcategory_doc user csvData ''category'' ''parent_category'' parentCategoryMap')
                  uniqueCategoryNames
                  (d1, found ''SubCategory'' uniqueCategoryNames)) (\<lambda>(d2, subCategoryMap').
      and_then (create_missing refuse ''Brand'' (slugged_doc user) uniqueBrandNames
                  (d2, found ''Brand'' uniqueBrandNames)) (\<lambda>(d3, brandMap').
      and_then (create_missing refuse ''Tax'' (tax_doc user) uniqueTaxNames
                  (d3, found ''Tax'' uniqueTaxNames)) (\<lambda>(d4, taxMap').
      and_then (create_missing refuse ''Unit'' (unit_doc user) uniqueUnitNames
                  (d4, found ''Unit'' uniqueUnitNames)) (\<lambda>(d5, unitMap').
      Inr (d5,
           \<lparr>parentCategoryMap = parentCategoryMap', categoryMap = Map.empty,
            brandMap = brandMap', subCategoryMap = subCategoryMap', taxMap = taxMap',
            unitMap = unitMap', colorMap = Map.empty, warrantyMap = Map.empty,
            sizeMap = Map.empty, volumeMap = Map.empty\<rparr>)))))))"

definition csv_populate :: "db \<Rightarrow> obj \<Rightarrow> obj" where
  "csv_populate d product =
     populate_field d ''Brand'' ''brand'' product
       (populate_field d ''SubCategory'' ''category'' product
          (populate_field d ''Category'' ''parentCategory'' product product))"

text \<open>\<^verbatim>\<open>POST /bulk-preview-csv\<close>, on the array \<^verbatim>\<open>csvData\<close> of row objects.\<close>

definition bulk_preview_csv ::
  "refusal \<Rightarrow> jsval \<Rightarrow> db \<Rightarrow> obj list \<Rightarrow> string + (preview_report \<times> db)" where
  "bulk_preview_csv refuse user d0 csvData =
     and_then (csv_resolve refuse user d0 csvData) (\<lambda>(d, maps).
       and_then
         (preview_loop (csv_row maps (existing_names d csvData) (existing_slugs d csvData)) 0
            csvData ([], []))
         (\<lambda>(previewProducts, invalidRows).
            Inr (\<lparr>rp_previewProducts = map (csv_populate d) previewProducts,
                  rp_invalidRows = invalidRows,
                  rp_total = length csvData,
                  rp_valid = length previewProducts,
                  rp_invalid = length invalidRows\<rparr>, d)))"

subsection \<open>Saving\<close>

text \<open>
  The document \<^verbatim>\<open>new Product({ ... })\<close> of \<^verbatim>\<open>POST /bulk-save\<close>, with the slug
  already computed.
\<close>

definition product_doc :: "jsval \<Rightarrow> obj \<Rightarrow> jsval \<Rightarrow> obj" where
  "product_doc user p slug =
     [(''name'', js_or (get p ''name'') (Str [])),
      (''slug'', slug),
      (''sku'', js_or (get p ''sku'') (Str [])),
      (''barcode'', js_or (get p ''barcode'') (Str [])),
      (''parentCategory'', get p ''parentCategory''),
      (''category'', get p ''category''),
      (''subCategory'', get p ''category''),
      (''brand'', get p ''brand''),
      (''buyingPrice'', js_or (get p ''buyingPrice'') (Num 0)),
      (''price'', js_or (get p ''price'') (Num 0)),
      (''offerPrice'', js_or (get p ''offerPrice'') (Num 0)),
      (''discount'', js_or (get p ''discount'') (Num 0)),
      (''tax'', get p ''tax''),
      (''stockStatus'', canonStockStatus (get p ''stockStatus'')),
      (''showStockOut'', boolean_or (get p ''showStockOut'') True),
      (''canPurchase'', boolean_or (get p ''canPurchase'') True),
      (''refundable'', boolean_or (get p ''refundable'') True),
      (''maxPurchaseQty'', js_or (get p ''maxPurchaseQty'') (Num 10)),
      (''lowStockWarning'', js_or (get p ''lowStockWarning'') (Num 5)),
      (''unit'', get p ''unit''),
      (''weight'', js_or (get p ''weight'') (Num 0)),
      (''tags'', js_or (get p ''tags'') (Arr [])),
      (''description'', js_or (get p ''description'') (Str [])),
      (''shortDescription'', js_or (get p ''shortDescription'') (Str [])),
      (''specifications'', js_or (get p ''specifications'') (Arr [])),
      (''countInStock'', js_or (get p ''countInStock'') (Num 0)),
      (''isActive'', boolean_or (get p ''isActive'') True),
      (''featured'', boolean_or (get p ''featured'') False),
      (''createdBy'', user)]"

text \<open>
  The body of the \<^verbatim>\<open>try\<close> block of \<^verbatim>\<open>POST /bulk-save\<close> for one product: the
  reason of a failure (a check that fails, or the message of an exception caught by the
  row's \<^verbatim>\<open>catch\<close>) or the saved document, and the store afterwards.
\<close>

definition save_row :: "refusal \<Rightarrow> jsval \<Rightarrow> db \<Rightarrow> obj \<Rightarrow> (string + obj) \<times> db" where
  "save_row refuse user d p =
     (if empty_row p then (Inl ''Empty row'', d)
      else if findOne_name_or_slug d (get p ''name'') (get p ''slug'') \<noteq> None
      then (Inl ''Duplicate product name or slug'', d)
      else if falsy (get p ''name'') \<or> falsy (get p ''parentCategory'')
      then (Inl ''Missing required fields'', d)
      else (case slug_or_generate (get p ''slug'') (get p ''name'') of
              Inl msg \<Rightarrow> (Inl msg, d)
            | Inr slug \<Rightarrow>
                (case db_create refuse d ''Product'' (product_doc user p slug) of
                   Inl msg \<Rightarrow> (Inl msg, d)
                 | Inr (product, d') \<Rightarrow> (Inr product, d'))))"

text \<open>An entry \<^verbatim>\<open>{ index, status, reason, product }\<close> of \<^verbatim>\<open>results\<close>.\<close>

record save_result =
  sr_index :: nat
  sr_status :: string
  sr_reason :: "string option"
  sr_product :: obj

text \<open>
  \<^verbatim>\<open>for (const [i, prod] of products.entries()) { try { ... } catch (error) { ... } }\<close>
  with the store, \<^verbatim>\<open>results\<close>, \<^verbatim>\<open>success\<close> and \<^verbatim>\<open>failed\<close>.
\<close>

fun save_loop ::
  "refusal \<Rightarrow> jsval \<Rightarrow> nat \<Rightarrow> obj list \<Rightarrow> db \<times> save_result list \<times> nat \<times> nat
     \<Rightarrow> db \<times> save_result list \<times> nat \<times> nat" where
  "save_loop refuse user i [] st = st"
| "save_loop refuse user i (p # products) (d, results, success, failed) =
     (case save_row refuse user d p of
        (Inl why, d') \<Rightarrow>
          save_loop refuse user (Suc i) products
            (d',
             results @ [\<lparr>sr_index = i, sr_status = ''failed'', sr_reason = Some why, sr_product = p\<rparr>],
             success, Suc failed)
      | (Inr product, d') \<Rightarrow>
          save_loop refuse user (Suc i) products
            (d',
             results @ [\<lparr>sr_index = i, sr_status = ''success'', sr_reason = None,
                         sr_product = product\<rparr>],
             Suc success, failed))"

definition populate_result :: "db \<Rightarrow> save_result \<Rightarrow> save_result" where
  "populate_result d result =
     (if sr_status result = ''failed'' then result
      else result\<lparr>sr_product :=
             populate_field d ''Brand'' ''brand'' (sr_product result)
               (populate_field d ''SubCategory'' ''category'' (sr_product result)
                  (populate_field d ''Category'' ''parentCategory'' (sr_product result)
                     (sr_product result)))\<rparr>)"

text \<open>
  The answer \<^verbatim>\<open>{ message, total, success, failed, results }\<close>, without its constant
  message.
\<close>

record save_report =
  sv_total :: nat
  sv_success :: nat
  sv_failed :: nat
  sv_results :: "save_result list"

text \<open>\<^verbatim>\<open>POST /bulk-save\<close>, on the array \<^verbatim>\<open>req.body.products\<close> of objects.\<close>

definition bulk_save ::
  "refusal \<Rightarrow> jsval \<Rightarrow> db \<Rightarrow> obj list \<Rightarrow> string + (save_report \<times> db)" where
  "bulk_save refuse user d0 products =
     (if products = [] then Inl ''No products to save''
      else (case save_loop refuse user 0 products (d0, [], 0, 0) of
              (d, results, success, failed) \<Rightarrow>
                Inr (\<lparr>sv_total = length products, sv_success = success, sv_failed = failed,
                      sv_results = map (populate_result d) results\<rparr>, d)))"

subsection \<open>Creating one product\<close>

text \<open>
  \<^verbatim>\<open>POST /api/products\<close>: the checks, the document built from the request body, and
  the save. The result is the saved document and the store; the populated copy that the
  route answers with is not modelled.
\<close>

definition create_product :: "refusal \<Rightarrow> jsval \<Rightarrow> db \<Rightarrow> obj \<Rightarrow> string + (obj \<times> db)" where
  "create_product refuse user d body =
     (let parentCategory = get body ''parentCategory'';
          category = get body ''category'';
          productData = filter (\<lambda>(k, v). k \<noteq> ''parentCategory'' \<and> k \<noteq> ''category'') body
      in if falsy parentCategory then Inl ''Parent category is required''
         else if findById d ''Category'' parentCategory = None then Inl ''Invalid parent category''
         else if truthy category \<and> findById d ''SubCategory'' category = None
         then Inl ''Invalid subcategory''
         else if truthy (get productData ''slug'')
                 \<and> find (\<lambda>p. get p ''slug'' = get productData ''slug'') (collections d ''Product'')
                     \<noteq> None
         then Inl ''Product slug already exists''
         else db_create refuse d ''Product''
                (put (put (put (put productData ''parentCategory'' parentCategory)
                   ''category'' category)
                   ''subCategory'' (js_or category Undefined))
                   ''createdBy'' user))"

section \<open>Reading the reports\<close>

text \<open>
  The definitions of this section are not part of the routes: they say, in terms of the
  loop bodies, what a report is expected to hold, and the lemmas below prove that the
  loops compute exactly that.
\<close>

fun is_throw :: "verdict \<Rightarrow> bool" where
  "is_throw (Throw msg) = True"
| "is_throw _ = False"

text \<open>The candidates of the rows that a loop body accepts, in input order.\<close>

definition accepted :: "(obj \<Rightarrow> verdict) \<Rightarrow> obj list \<Rightarrow> obj list" where
  "accepted body rows = [p. r \<leftarrow> rows, Accept p \<leftarrow> [body r]]"

text \<open>
  The entries of the rows that a loop body rejects, in input order; \<open>enumerate i rows\<close>
  pairs every row with its index, counted from \<open>i\<close>.
\<close>

definition rejected :: "(obj \<Rightarrow> verdict) \<Rightarrow> nat \<Rightarrow> obj list \<Rightarrow> invalid_row list" where
  "rejected body i rows =
     [\<lparr>ir_row = j + 2, ir_reason = why, ir_data = r\<rparr>. (j, r) \<leftarrow> enumerate i rows, Reject why \<leftarrow> [body r]]"

text \<open>The entry of \<^verbatim>\<open>results\<close> for the product at index \<open>i\<close>, from the outcome of its row.\<close>

definition save_entry :: "nat \<Rightarrow> obj \<Rightarrow> string + obj \<Rightarrow> save_result" where
  "save_entry i p outcome =
     (case outcome of
        Inl why \<Rightarrow> \<lparr>sr_index = i, sr_status = ''failed'', sr_reason = Some why, sr_product = p\<rparr>
      | Inr product \<Rightarrow>
          \<lparr>sr_index = i, sr_status = ''success'', sr_reason = None, sr_product = product\<rparr>)"

text \<open>The store after the products \<open>ps\<close> have gone through the save loop.\<close>

fun store_after :: "refusal \<Rightarrow> jsval \<Rightarrow> db \<Rightarrow> obj list \<Rightarrow> db" where
  "store_after refuse user d [] = d"
| "store_after refuse user d (p # ps) = store_after refuse user (snd (save_row refuse user d p)) ps"

text \<open>The entries of \<^verbatim>\<open>results\<close>, each product saved into the store its predecessors left.\<close>

fun save_entries :: "refusal \<Rightarrow> jsval \<Rightarrow> nat \<Rightarrow> db \<Rightarrow> obj list \<Rightarrow> save_result list" where
  "save_entries refuse user i d [] = []"
| "save_entries refuse user i d (p # ps) =
     save_entry i p (fst (save_row refuse user d p))
       # save_entries refuse user (Suc i) (snd (save_row refuse user d p)) ps"

text \<open>
  What the resolution of one kind has done for the rows, between the store \<open>d\<close> it
  found and the store \<open>d'\<close> it left. Every name of the kind in the rows has an entry
  in the map under its trimmed, lower-cased form; the entry is the identifier of an
  entity of the kind in \<open>d'\<close> whose trimmed, lower-cased name is that key, and all the
  cells with that key are looked up to it. When the trimmed name is the name of an entity
  of \<open>d\<close>, the entry is the identifier of an entity that was already in \<open>d\<close>.
\<close>

definition kind_resolved :: "db \<Rightarrow> db \<Rightarrow> obj list \<Rightarrow> string \<Rightarrow> idmap \<Rightarrow> string \<Rightarrow> bool" where
  "kind_resolved d d' rows f m coll =
     (\<forall>r \<in> set rows. truthy (get r f) \<longrightarrow>
        (\<exists>e \<in> set (collections d' coll).
            dim_key (get e ''name'') = dim_key (get r f)
          \<and> m (dim_key (get r f)) = Some (get e ''_id'')
          \<and> (\<forall>r' \<in> set rows.
                truthy (get r' f) \<and> dim_key (get r' f) = dim_key (get r f) \<longrightarrow>
                  dim_lookup m (get r' f) = get e ''_id''))
        \<and> (Str (trim (js_String (get r f))) \<in> (\<lambda>e. get e ''name'') ` set (collections d coll) \<longrightarrow>
             (\<exists>e \<in> set (collections d coll).
                 dim_key (get e ''name'') = dim_key (get r f)
               \<and> m (dim_key (get r f)) = Some (get e ''_id''))))"

subsection \<open>Example stores and batches\<close>

text \<open>A store that accepts every document, and one that refuses the products named Gizmo.\<close>

definition accept_all :: refusal where
  "accept_all coll docs doc = None"

definition refuse_gizmo :: refusal where
  "refuse_gizmo coll docs doc =
     (if get doc ''name'' = Str ''Gizmo'' then Some ''Product validation failed'' else None)"

text \<open>
  An empty store, a store with one product, and a store with one category and one
  subcategory.
\<close>

definition empty_db :: db where
  "empty_db = \<lparr>next_id = 0, collections = (\<lambda>coll. [])\<rparr>"

definition widget_db :: db where
  "widget_db =
     \<lparr>next_id = 8,
      collections =
        (\<lambda>coll. if coll = ''Product''
                then [[(''_id'', ObjectId 7), (''name'', Str ''Widget''), (''slug'', Str ''widget'')]]
                else [])\<rparr>"

definition gadgets_db :: db where
  "gadgets_db =
     \<lparr>next_id = 6,
      collections =
        (\<lambda>coll. if coll = ''Category''
                then [[(''_id'', ObjectId 0), (''name'', Str ''Gadgets''), (''slug'', Str ''gadgets'')]]
                else if coll = ''SubCategory''
                then [[(''_id'', ObjectId 5), (''name'', Str ''Phones''), (''slug'', Str ''phones''),
                       (''category'', ObjectId 0)]]
                else [])\<rparr>"

definition no_maps :: dimension_maps where
  "no_maps =
     \<lparr>parentCategoryMap = Map.empty, categoryMap = Map.empty, brandMap = Map.empty,
      subCategoryMap = Map.empty, taxMap = Map.empty, unitMap = Map.empty,
      colorMap = Map.empty, warrantyMap = Map.empty, sizeMap = Map.empty,
      volumeMap = Map.empty\<rparr>"

text \<open>Rows and batches of rows.\<close>

definition backordered_row :: obj where
  "backordered_row =
     [(''name'', Str ''Widget''), (''parent_category'', Str ''Gadgets''),
      (''parentCategory'', ObjectId 0), (''stockStatus'', Str ''Backordered'')]"

definition nameless_row :: obj where
  "nameless_row =
     [(''name'', Str []), (''price'', Num 10), (''parent_category'', Str ''Gadgets''),
      (''parentCategory'', ObjectId 0)]"

definition phone_product :: obj where
  "phone_product =
     [(''name'', Str ''Widget''), (''parentCategory'', ObjectId 0), (''category'', ObjectId 5)]"

definition mixed_rows :: "obj list" where
  "mixed_rows =
     [[(''name'', Str ''Widget''), (''parent_category'', Str ''Gadgets''),
       (''parentCategory'', ObjectId 0)],
      [(''name'', Str [])],
      [(''name'', Str ''Gizmo'')]]"

definition blank_rows :: "obj list" where
  "blank_rows = [[(''name'', Str []), (''selling_price'', Str [])]]"

definition slug_only_rows :: "obj list" where
  "slug_only_rows = [[(''slug'', Str ''widget''), (''price'', Num 10)]]"

definition warranty_rows :: "obj list" where
  "warranty_rows =
     [[(''name'', Str ''Widget''), (''parent_category'', Str ''Gadgets''),
       (''warranty'', Str ''1 year'')]]"

definition order_rows :: "obj list" where
  "order_rows =
     [[(''name'', Str ''Widget'')],
      [(''name'', Str ''Widget''), (''parent_category'', Str ''Gadgets''),
       (''parentCategory'', ObjectId 0)],
      [],
      [(''name'', Str ''Gizmo'')]]"

definition twin_rows :: "obj list" where
  "twin_rows =
     [[(''name'', Str ''Gizmo''), (''parent_category'', Str ''Gadgets''),
       (''parentCategory'', ObjectId 0)],
      [(''name'', Str ''Gizmo''), (''parent_category'', Str ''Gadgets''),
       (''parentCategory'', ObjectId 0)]]"

definition gizmo_widget_rows :: "obj list" where
  "gizmo_widget_rows =
     [[(''name'', Str ''Gizmo''), (''parentCategory'', ObjectId 0)],
      [(''name'', Str ''Widget''), (''parentCategory'', ObjectId 0)]]"

definition brand_rows :: "obj list" where
  "brand_rows =
     [[(''name'', Str ''Widget''), (''parent_category'', Str '' Gadgets''), (''brand'', Str ''Acme'')],
      [(''name'', Str ''Gizmo''), (''parent_category'', Str ''Gadgets''), (''brand'', Str ''ACME '')]]"

section \<open>Lemmas\<close>

subsection \<open>Objects and loops\<close>

lemma map_of_put: "map_of (put ob k v) = (map_of ob)(k \<mapsto> v)"
  by (induction ob k v rule: put.induct) (auto simp: fun_eq_iff)

lemma get_put: "get (put ob k v) k' = (if k' = k then v else get ob k')"
  by (simp add: get_def map_of_put)

lemma preview_loop_Inr:
  "preview_loop body i rows (pv, bad) = Inr (pv', bad') \<Longrightarrow>
     list_all (\<lambda>r. \<not> is_throw (body r)) rows \<and> pv' = pv @ accepted body rows
     \<and> bad' = bad @ rejected body i rows"
proof (induction rows arbitrary: i pv bad)
  case Nil
  then show ?case by (simp add: accepted_def rejected_def)
next
  case (Cons r rows)
  show ?case
  proof (cases "body r")
    case (Reject why)
    with Cons.prems have "preview_loop body (Suc i) rows
       (pv, bad @ [\<lparr>ir_row = i + 2, ir_reason = why, ir_data = r\<rparr>]) = Inr (pv', bad')"
      by simp
    from Cons.IH [OF this] Reject show ?thesis
      by (simp add: accepted_def rejected_def)
  next
    case (Accept p)
    with Cons.prems have "preview_loop body (Suc i) rows (pv @ [p], bad) = Inr (pv', bad')"
      by simp
    from Cons.IH [OF this] Accept show ?thesis
      by (simp add: accepted_def rejected_def)
  next
    case (Throw msg)
    with Cons.prems show ?thesis by simp
  qed
qed

lemma length_accepted_rejected:
  "list_all (\<lambda>r. \<not> is_throw (body r)) rows \<Longrightarrow>
     length (accepted body rows) + length (rejected body i rows) = length rows"
proof (induction rows arbitrary: i)
  case Nil
  then show ?case by (simp add: accepted_def rejected_def)
next
  case (Cons r rows)
  from Cons.prems have "list_all (\<lambda>r. \<not> is_throw (body r)) rows" by simp
  from Cons.IH [OF this, of "Suc i"] Cons.prems show ?case
    by (cases "body r") (simp_all add: accepted_def rejected_def)
qed

lemma get_Nil: "get [] k = Undefined"
  by (simp add: get_def)

lemma get_Cons: "get ((k, v) # ob) k' = (if k = k' then v else get ob k')"
  by (simp add: get_def)

lemma canon_allowed: "canonStockStatus v \<in> set allowedStockStatus"
  by (simp add: canonStockStatus_def Let_def allowedStockStatus_def)

lemma canon_default:
  "v \<notin> set allowedStockStatus \<Longrightarrow> canonStockStatus v = Str ''Available Product''"
  by (simp add: canonStockStatus_def Let_def js_or_def)

lemma preview_row_stockStatus:
  "preview_row maps en es r = Accept p \<Longrightarrow>
     get p ''stockStatus'' = canonStockStatus (get r ''stockStatus'')"
  by (auto simp: preview_row_def get_Cons split: if_splits)

lemma csv_row_stockStatus:
  "csv_row maps en es r = Accept p \<Longrightarrow>
     get p ''stockStatus'' = canonStockStatus (get r ''stockStatus'')"
  by (auto simp: csv_row_def get_Cons split: if_splits sum.splits)

lemma save_row_stockStatus:
  "save_row refuse user d r = (Inr p, d') \<Longrightarrow>
     get p ''stockStatus'' = canonStockStatus (get r ''stockStatus'')"
  by (auto simp: save_row_def db_create_def product_doc_def Let_def get_Cons
      split: if_splits sum.splits option.splits)

lemma bulk_preview_Inr:
  assumes "bulk_preview refuse user d0 rows = Inr (rep, d)"
  shows "\<exists>maps pv bad.
           excel_resolve refuse user d0 (map remapRow rows) = Inr (d, maps)
           \<and> preview_loop (preview_row maps (existing_names d rows) (existing_slugs d rows)) 0
                 (map remapRow rows) ([], []) = Inr (pv, bad)
           \<and> rep = \<lparr>rp_previewProducts = map (excel_populate d) pv, rp_invalidRows = bad,
                     rp_total = length rows, rp_valid = length pv, rp_invalid = length bad\<rparr>"
  using assms
  by (auto simp: bulk_preview_def and_then_def Let_def split: sum.splits prod.splits)

lemma bulk_preview_csv_Inr:
  assumes "bulk_preview_csv refuse user d0 rows = Inr (rep, d)"
  shows "\<exists>maps pv bad.
           csv_resolve refuse user d0 rows = Inr (d, maps)
           \<and> preview_loop (csv_row maps (existing_names d rows) (existing_slugs d rows)) 0 rows
                 ([], []) = Inr (pv, bad)
           \<and> rep = \<lparr>rp_previewProducts = map (csv_populate d) pv, rp_invalidRows = bad,
                     rp_total = length rows, rp_valid = length pv, rp_invalid = length bad\<rparr>"
  using assms
  by (auto simp: bulk_preview_csv_def and_then_def Let_def split: sum.splits prod.splits)

lemma populate_field_get:
  "k \<noteq> f \<Longrightarrow> get (populate_field d coll f product populated) k = get populated k"
  by (simp add: populate_field_def get_put split: option.splits)

lemma excel_populate_get:
  "k \<notin> {''brand'', ''subCategory'', ''category''} \<Longrightarrow> get (excel_populate d p) k = get p k"
  by (simp add: excel_populate_def populate_field_get)

lemma csv_populate_get:
  "k \<notin> {''brand'', ''category'', ''parentCategory''} \<Longrightarrow> get (csv_populate d p) k = get p k"
  by (simp add: csv_populate_def populate_field_get)

lemma accepted_mem: "p \<in> set (accepted body rows) \<Longrightarrow> \<exists>r \<in> set rows. body r = Accept p"
  by (auto simp: accepted_def split: verdict.splits)

lemma save_loop_char:
  "save_loop refuse user i ps (d, results, success, failed) =
     (store_after refuse user d ps,
      results @ save_entries refuse user i d ps,
      success + length (filter (\<lambda>e. sr_status e = ''success'') (save_entries refuse user i d ps)),
      failed + length (filter (\<lambda>e. sr_status e = ''failed'') (save_entries refuse user i d ps)))"
proof (induction ps arbitrary: i d results success failed)
  case Nil
  then show ?case by simp
next
  case (Cons p ps)
  obtain outcome d' where step: "save_row refuse user d p = (outcome, d')"
    by (cases "save_row refuse user d p")
  show ?case
  proof (cases outcome)
    case (Inl why)
    with step Cons.IH show ?thesis by (simp add: save_entry_def)
  next
    case (Inr product)
    with step Cons.IH show ?thesis by (simp add: save_entry_def)
  qed
qed

lemma length_save_entries: "length (save_entries refuse user i d ps) = length ps"
  by (induction ps arbitrary: i d) simp_all

lemma save_entry_status:
  "sr_status (save_entry i p outcome) = (case outcome of Inl why \<Rightarrow> ''failed'' | Inr q \<Rightarrow> ''success'')"
  by (simp add: save_entry_def split: sum.splits)

lemma save_entry_index: "sr_index (save_entry i p outcome) = i"
  by (simp add: save_entry_def split: sum.splits)

lemma save_entries_index: "map sr_index (save_entries refuse user i d ps) = [i..<i + length ps]"
  by (induction ps arbitrary: i d) (simp_all add: save_entry_index upt_rec)

lemma save_entries_status:
  "e \<in> set (save_entries refuse user i d ps) \<Longrightarrow>
     sr_status e = ''success'' \<or> sr_status e = ''failed''"
  by (induction ps arbitrary: i d) (auto simp: save_entry_status split: sum.splits)

lemma save_entries_count:
  "length (filter (\<lambda>e. sr_status e = ''success'') (save_entries refuse user i d ps))
   + length (filter (\<lambda>e. sr_status e = ''failed'') (save_entries refuse user i d ps)) = length ps"
  by (induction ps arbitrary: i d) (auto simp: save_entry_status split: sum.splits)

lemma save_entries_nth:
  "k < length ps \<Longrightarrow>
     save_entries refuse user i d ps ! k =
       save_entry (i + k) (ps ! k)
         (fst (save_row refuse user (store_after refuse user d (take k ps)) (ps ! k)))"
proof (induction ps arbitrary: i d k)
  case Nil
  then show ?case by simp
next
  case (Cons p ps)
  show ?case
  proof (cases k)
    case 0
    then show ?thesis by simp
  next
    case (Suc j)
    with Cons.prems have "j < length ps" by simp
    from Cons.IH [OF this] Suc show ?thesis by simp
  qed
qed

lemma save_entries_success:
  "e \<in> set (save_entries refuse user i d ps) \<Longrightarrow> sr_status e = ''success'' \<Longrightarrow>
     \<exists>p \<in> set ps. \<exists>d1 d2. save_row refuse user d1 p = (Inr (sr_product e), d2)"
proof (induction ps arbitrary: i d)
  case Nil
  then show ?case by simp
next
  case (Cons p ps)
  from Cons.prems(1) consider
      "e = save_entry i p (fst (save_row refuse user d p))"
    | "e \<in> set (save_entries refuse user (Suc i) (snd (save_row refuse user d p)) ps)"
    by auto
  then show ?case
  proof cases
    case 1
    with Cons.prems(2) obtain q where "fst (save_row refuse user d p) = Inr q" "sr_product e = q"
      by (auto simp: save_entry_def split: sum.splits)
    then have "save_row refuse user d p = (Inr (sr_product e), snd (save_row refuse user d p))"
      by (metis prod.collapse)
    then show ?thesis by auto
  next
    case 2
    from Cons.IH [OF this Cons.prems(2)] show ?thesis by auto
  qed
qed

lemma bulk_save_Inr:
  assumes "bulk_save refuse user d0 products = Inr (rep, d)"
  shows "products \<noteq> [] \<and> d = store_after refuse user d0 products
         \<and> sv_results rep = map (populate_result d) (save_entries refuse user 0 d0 products)
         \<and> sv_total rep = length products
         \<and> sv_success rep =
             length (filter (\<lambda>e. sr_status e = ''success'') (save_entries refuse user 0 d0 products))
         \<and> sv_failed rep =
             length (filter (\<lambda>e. sr_status e = ''failed'') (save_entries refuse user 0 d0 products))"
  using assms
  by (auto simp: bulk_save_def save_loop_char split: if_splits)

lemma populate_result_status: "sr_status (populate_result d e) = sr_status e"
  by (simp add: populate_result_def)

lemma populate_result_index: "sr_index (populate_result d e) = sr_index e"
  by (simp add: populate_result_def)

lemma populate_result_get:
  "k \<notin> {''brand'', ''category'', ''parentCategory''} \<Longrightarrow>
     get (sr_product (populate_result d e)) k = get (sr_product e) k"
  by (simp add: populate_result_def populate_field_get)

lemma rejected_Cons:
  "rejected body k (r # rows) =
     (case body r of Reject why \<Rightarrow> [\<lparr>ir_row = k + 2, ir_reason = why, ir_data = r\<rparr>] | _ \<Rightarrow> [])
       @ rejected body (Suc k) rows"
  by (simp add: rejected_def split: verdict.splits)

lemma rejected_Nil: "rejected body k [] = []"
  by (simp add: rejected_def)

lemma rejected_iff:
  "e \<in> set (rejected body k rows) \<longleftrightarrow>
     (\<exists>i < length rows. body (rows ! i) = Reject (ir_reason e) \<and> ir_row e = k + i + 2
        \<and> ir_data e = rows ! i)"
proof (induction rows arbitrary: k)
  case Nil
  then show ?case by (simp add: rejected_Nil)
next
  case (Cons r rows)
  have split: "(\<exists>i < length (r # rows). P i) \<longleftrightarrow> P 0 \<or> (\<exists>i < length rows. P (Suc i))" for P
    by (auto simp: less_Suc_eq_0_disj)
  show ?case
    unfolding rejected_Cons split
    by (cases "body r") (auto simp: Cons.IH)
qed

lemma values_put: "set (js_values (put ob k v)) \<subseteq> insert v (set (js_values ob))"
  by (induction ob k v rule: put.induct) (auto simp: js_values_def)

lemma get_truthy_not_empty: "truthy (get ob k) \<Longrightarrow> \<not> empty_row ob"
proof -
  assume t: "truthy (get ob k)"
  then obtain v where "map_of ob k = Some v" "truthy v"
    by (auto simp: get_def split: option.splits)
  then have "v \<in> set (js_values ob)"
    by (auto simp: js_values_def dest: map_of_SomeD intro: rev_image_eqI)
  with \<open>truthy v\<close> show ?thesis by (auto simp: empty_row_def list_all_iff)
qed

lemma bulk_preview_report:
  assumes "bulk_preview refuse user d rows = Inr (rep, d1)"
  obtains maps where
    "excel_resolve refuse user d (map remapRow rows) = Inr (d1, maps)"
    "rp_invalidRows rep =
       rejected (preview_row maps (existing_names d1 rows) (existing_slugs d1 rows)) 0
         (map remapRow rows)"
    "rp_previewProducts rep =
       map (excel_populate d1)
         (accepted (preview_row maps (existing_names d1 rows) (existing_slugs d1 rows))
            (map remapRow rows))"
proof -
  from bulk_preview_Inr [OF assms] obtain maps pv bad where
    res: "excel_resolve refuse user d (map remapRow rows) = Inr (d1, maps)"
    and loop: "preview_loop (preview_row maps (existing_names d1 rows) (existing_slugs d1 rows)) 0
                 (map remapRow rows) ([], []) = Inr (pv, bad)"
    and rep: "rep = \<lparr>rp_previewProducts = map (excel_populate d1) pv, rp_invalidRows = bad,
                     rp_total = length rows, rp_valid = length pv, rp_invalid = length bad\<rparr>"
    by blast
  from preview_loop_Inr [OF loop] rep res that show ?thesis by simp
qed

lemma bulk_preview_csv_report:
  assumes "bulk_preview_csv refuse user d rows = Inr (rep, d2)"
  obtains maps where
    "csv_resolve refuse user d rows = Inr (d2, maps)"
    "rp_invalidRows rep =
       rejected (csv_row maps (existing_names d2 rows) (existing_slugs d2 rows)) 0 rows"
    "rp_previewProducts rep =
       map (csv_populate d2)
         (accepted (csv_row maps (existing_names d2 rows) (existing_slugs d2 rows)) rows)"
    "list_all (\<lambda>r. \<not> is_throw (csv_row maps (existing_names d2 rows) (existing_slugs d2 rows) r))
       rows"
proof -
  from bulk_preview_csv_Inr [OF assms] obtain maps pv bad where
    res: "csv_resolve refuse user d rows = Inr (d2, maps)"
    and loop: "preview_loop (csv_row maps (existing_names d2 rows) (existing_slugs d2 rows)) 0
                 rows ([], []) = Inr (pv, bad)"
    and rep: "rep = \<lparr>rp_previewProducts = map (csv_populate d2) pv, rp_invalidRows = bad,
                     rp_total = length rows, rp_valid = length pv, rp_invalid = length bad\<rparr>"
    by blast
  from preview_loop_Inr [OF loop] rep res that show ?thesis by simp
qed

lemma rejected_at:
  "i < length rows \<Longrightarrow> body (rows ! i) = Reject why \<Longrightarrow>
     \<lparr>ir_row = i + 2, ir_reason = why, ir_data = rows ! i\<rparr> \<in> set (rejected body 0 rows)"
  by (subst rejected_iff) auto

lemma rejected_row:
  "e \<in> set (rejected body 0 rows) \<Longrightarrow> ir_row e = i + 2 \<Longrightarrow>
     i < length rows \<and> body (rows ! i) = Reject (ir_reason e) \<and> ir_data e = rows ! i"
  by (subst (asm) rejected_iff) auto

lemma bulk_save_nth:
  assumes "bulk_save refuse user d rows = Inr (saved, d3)" "i < length rows"
  shows "sv_results saved ! i =
           populate_result d3
             (save_entry i (rows ! i)
                (fst (save_row refuse user (store_after refuse user d (take i rows)) (rows ! i))))"
  using bulk_save_Inr [OF assms(1)] assms(2) save_entries_nth [OF assms(2), of refuse user 0 d]
  by (simp add: length_save_entries)

lemma populate_failed:
  "populate_result d \<lparr>sr_index = i, sr_status = ''failed'', sr_reason = why, sr_product = p\<rparr>
     = \<lparr>sr_index = i, sr_status = ''failed'', sr_reason = why, sr_product = p\<rparr>"
  by (simp add: populate_result_def)

lemma save_entry_Inl:
  "save_entry i p (Inl why) =
     \<lparr>sr_index = i, sr_status = ''failed'', sr_reason = Some why, sr_product = p\<rparr>"
  by (simp add: save_entry_def)

lemma save_row_nameless:
  "falsy (get r ''name'') \<Longrightarrow>
     fst (save_row refuse user d r) \<in>
       {Inl ''Empty row'', Inl ''Duplicate product name or slug'', Inl ''Missing required fields''}"
  by (simp add: save_row_def)

lemma csv_row_nameless:
  "falsy (get r ''name'') \<Longrightarrow>
     csv_row maps en es r = Reject ''Empty row''
     \<or> csv_row maps en es r = Reject ''Missing required fields (name, parent_category)''"
  by (simp add: csv_row_def)

lemma db_create_other:
  "db_create refuse d coll doc = Inr (e, d') \<Longrightarrow> coll' \<noteq> coll \<Longrightarrow>
     collections d' coll' = collections d coll'"
  by (auto simp: db_create_def Let_def split: option.splits)

lemma db_create_same:
  "db_create refuse d coll doc = Inr (e, d') \<Longrightarrow>
     collections d' coll = collections d coll @ [e] \<and> e = (''_id'', ObjectId (next_id d)) # doc"
  by (auto simp: db_create_def Let_def split: option.splits)

lemma create_missing_other:
  "create_missing refuse coll doc_of names (d, m) = Inr (d', m') \<Longrightarrow> coll' \<noteq> coll \<Longrightarrow>
     collections d' coll' = collections d coll'"
proof (induction names arbitrary: d m)
  case Nil
  then show ?case by simp
next
  case (Cons name names)
  show ?case
  proof (cases "m (toLowerCase (trim name)) \<noteq> None")
    case True
    with Cons.prems(1) have "create_missing refuse coll doc_of names (d, m) = Inr (d', m')"
      by simp
    from Cons.IH [OF this Cons.prems(2)] show ?thesis .
  next
    case False
    with Cons.prems(1) obtain e d1 where
      c: "db_create refuse d coll (doc_of name) = Inr (e, d1)"
      and rest: "create_missing refuse coll doc_of names
                   (d1, m(toLowerCase (trim name) \<mapsto> get e ''_id'')) = Inr (d', m')"
      by (auto split: sum.splits)
    from Cons.IH [OF rest Cons.prems(2)] db_create_other [OF c Cons.prems(2)]
    show ?thesis by simp
  qed
qed

lemma excel_resolve_products:
  assumes "excel_resolve refuse user d rows = Inr (d', maps)"
  shows "collections d' ''Product'' = collections d ''Product''"
proof -
  from assms obtain d1 m1 d2 m2 d3 m3 d4 m4 d5 m5 d6 m6 d7 m7 d8 m8 n1 n2 n3 n4 n5 n6 n7 n8 n9
    f1 f2 f3 f4 f5 f6 f7 f8 f9 m9 k1 k2 k3 k4 k5 k6 k7 k8 k9 where
    "create_missing refuse ''Category'' f1 n1 (d, k1) = Inr (d1, m1)"
    "create_missing refuse ''Brand'' f2 n2 (d1, k2) = Inr (d2, m2)"
    "create_missing refuse ''SubCategory'' f3 n3 (d2, k3) = Inr (d3, m3)"
    "create_missing refuse ''Tax'' f4 n4 (d3, k4) = Inr (d4, m4)"
    "create_missing refuse ''Unit'' f5 n5 (d4, k5) = Inr (d5, m5)"
    "create_missing refuse ''Color'' f6 n6 (d5, k6) = Inr (d6, m6)"
    "create_missing refuse ''Warranty'' f7 n7 (d6, k7) = Inr (d7, m7)"
    "create_missing refuse ''Size'' f8 n8 (d7, k8) = Inr (d8, m8)"
    "create_missing refuse ''Volume'' f9 n9 (d8, k9) = Inr (d', m9)"
    unfolding excel_resolve_def and_then_def Let_def
    by (simp split: sum.splits prod.splits)
  then show ?thesis
    by (auto dest!: create_missing_other [where coll' = "''Product''"])
qed

lemma csv_resolve_products:
  assumes "csv_resolve refuse user d rows = Inr (d', maps)"
  shows "collections d' ''Product'' = collections d ''Product''"
proof -
  from assms obtain d1 m1 d2 m2 d3 m3 d4 m4 n1 n2 n3 n4 n5
    f1 f2 f3 f4 f5 m5 k1 k2 k3 k4 k5 where
    "create_missing refuse ''Category'' f1 n1 (d, k1) = Inr (d1, m1)"
    "create_missing refuse ''SubCategory'' f2 n2 (d1, k2) = Inr (d2, m2)"
    "create_missing refuse ''Brand'' f3 n3 (d2, k3) = Inr (d3, m3)"
    "create_missing refuse ''Tax'' f4 n4 (d3, k4) = Inr (d4, m4)"
    "create_missing refuse ''Unit'' f5 n5 (d4, k5) = Inr (d', m5)"
    unfolding csv_resolve_def and_then_def Let_def
    by (simp split: sum.splits prod.splits)
  then show ?thesis
    by (auto dest!: create_missing_other [where coll' = "''Product''"])
qed

lemma duplicate_row_stored:
  "duplicate_row (existing_names d rows) (existing_slugs d rows) r \<Longrightarrow>
     \<exists>p \<in> set (collections d ''Product'').
        get p ''name'' = get r ''name'' \<or> get p ''slug'' = get r ''slug''"
  by (auto simp: duplicate_row_def existing_names_def existing_slugs_def existing_products_def
      find_products_def)

lemma save_row_Inr:
  assumes "save_row refuse user d p = (Inr doc, d')"
  shows "collections d' ''Product'' = collections d ''Product'' @ [doc]"
    and "\<exists>slug. slug_or_generate (get p ''slug'') (get p ''name'') = Inr slug
           \<and> doc = (''_id'', ObjectId (next_id d)) # product_doc user p slug
           \<and> refuse ''Product'' (collections d ''Product'') (product_doc user p slug) = None"
    and "\<not> empty_row p" "truthy (get p ''name'')" "truthy (get p ''parentCategory'')"
    and "findOne_name_or_slug d (get p ''name'') (get p ''slug'') = None"
  using assms
  by (auto simp: save_row_def falsy_def db_create_def Let_def
      split: if_splits sum.splits option.splits)

lemma save_row_Inl: "fst (save_row refuse user d p) = Inl why \<Longrightarrow> snd (save_row refuse user d p) = d"
  by (auto simp: save_row_def split: if_splits sum.splits prod.splits)

lemma save_row_mono:
  "set (collections d ''Product'') \<subseteq> set (collections (snd (save_row refuse user d p)) ''Product'')"
proof (cases "fst (save_row refuse user d p)")
  case (Inl why)
  then show ?thesis by (simp add: save_row_Inl)
next
  case (Inr doc)
  then have "save_row refuse user d p = (Inr doc, snd (save_row refuse user d p))"
    by (metis prod.collapse)
  from save_row_Inr(1) [OF this] show ?thesis by auto
qed

lemma store_after_mono:
  "set (collections d ''Product'') \<subseteq> set (collections (store_after refuse user d ps) ''Product'')"
proof (induction ps arbitrary: d)
  case Nil
  then show ?case by simp
next
  case (Cons p ps)
  from save_row_mono [of d refuse user p] Cons.IH [of "snd (save_row refuse user d p)"]
  show ?case by auto
qed

lemma store_after_append:
  "store_after refuse user d (xs @ ys) = store_after refuse user (store_after refuse user d xs) ys"
  by (induction xs arbitrary: d) simp_all

lemma store_after_Suc:
  "i < length ps \<Longrightarrow>
     store_after refuse user d (take (Suc i) ps) =
       snd (save_row refuse user (store_after refuse user d (take i ps)) (ps ! i))"
  by (simp add: take_Suc_conv_app_nth store_after_append)

lemma store_after_later:
  assumes "i < j" "j \<le> length ps"
  shows "set (collections (store_after refuse user d (take (Suc i) ps)) ''Product'')
           \<subseteq> set (collections (store_after refuse user d (take j ps)) ''Product'')"
proof -
  have "take (Suc i) (take j ps) @ drop (Suc i) (take j ps) = take j ps"
    by (rule append_take_drop_id)
  moreover from assms have "take (Suc i) (take j ps) = take (Suc i) ps"
    by (simp add: min_def)
  ultimately have eq: "take j ps = take (Suc i) ps @ drop (Suc i) (take j ps)"
    by simp
  have "store_after refuse user d (take j ps) =
      store_after refuse user d (take (Suc i) ps @ drop (Suc i) (take j ps))"
    by (rule arg_cong [OF eq])
  also have "\<dots> = store_after refuse user (store_after refuse user d (take (Suc i) ps))
      (drop (Suc i) (take j ps))"
    by (rule store_after_append)
  finally show ?thesis by (simp only: store_after_mono)
qed

lemma get_product_doc_name: "get (product_doc user p slug) ''name'' = js_or (get p ''name'') (Str [])"
  by (simp add: product_doc_def get_Cons)

lemma saved_then_duplicate:
  assumes i: "i < j" "j < length rows"
    and names: "get (rows ! i) ''name'' = Str n" "get (rows ! j) ''name'' = Str n" "n \<noteq> []"
    and ok: "fst (save_row refuse user (store_after refuse user d (take i rows)) (rows ! i)) = Inr doc"
  shows "fst (save_row refuse user (store_after refuse user d (take j rows)) (rows ! j))
           = Inl ''Duplicate product name or slug''"
proof -
  let ?di = "store_after refuse user d (take i rows)"
  let ?dj = "store_after refuse user d (take j rows)"
  from ok have step: "save_row refuse user ?di (rows ! i) = (Inr doc, snd (save_row refuse user ?di (rows ! i)))"
    by (metis prod.collapse)
  from save_row_Inr(1,2) [OF step] names(1,3)
  have "doc \<in> set (collections (snd (save_row refuse user ?di (rows ! i))) ''Product'')"
    and name: "get doc ''name'' = Str n"
    by (auto simp: get_Cons get_product_doc_name js_or_def)
  with i have "doc \<in> set (collections (store_after refuse user d (take (Suc i) rows)) ''Product'')"
    by (simp add: store_after_Suc)
  with store_after_later [of i j rows refuse user d] i
  have "doc \<in> set (collections ?dj ''Product'')" by auto
  with name names(2) have "findOne_name_or_slug ?dj (get (rows ! j) ''name'') (get (rows ! j) ''slug'') \<noteq> None"
    by (auto simp: findOne_name_or_slug_def find_None_iff)
  moreover from names(2,3) have "\<not> empty_row (rows ! j)"
    by (intro get_truthy_not_empty [where k = "''name''"]) simp
  ultimately show ?thesis by (simp add: save_row_def)
qed

lemma save_entry_success:
  "sr_status (save_entry i p outcome) = ''success'' \<Longrightarrow> \<exists>doc. outcome = Inr doc"
  by (cases outcome) (simp_all add: save_entry_def)

lemma preview_row_duplicate:
  "preview_row maps en es r = Reject ''Duplicate product name or slug'' \<Longrightarrow> duplicate_row en es r"
  by (simp add: preview_row_def split: if_splits)

lemma csv_row_duplicate:
  "csv_row maps en es r = Reject ''Duplicate product name or slug'' \<Longrightarrow> duplicate_row en es r"
  by (simp add: csv_row_def split: if_splits sum.splits)

lemma bulk_save_total:
  "rows \<noteq> [] \<Longrightarrow> \<exists>saved d3. bulk_save refuse user d rows = Inr (saved, d3)"
  by (simp add: bulk_save_def split: prod.splits)

lemma save_row_refused:
  assumes "\<not> empty_row p" "findOne_name_or_slug d (get p ''name'') (get p ''slug'') = None"
    "truthy (get p ''name'')" "truthy (get p ''parentCategory'')"
    "slug_or_generate (get p ''slug'') (get p ''name'') = Inr slug"
    "refuse ''Product'' (collections d ''Product'') (product_doc user p slug) = Some msg"
  shows "save_row refuse user d p = (Inl msg, d)"
  using assms by (simp add: save_row_def falsy_def db_create_def)

lemma save_entry_Inr:
  "save_entry i p (Inr doc) =
     \<lparr>sr_index = i, sr_status = ''success'', sr_reason = None, sr_product = doc\<rparr>"
  by (simp add: save_entry_def)

lemma saved_in_final_store:
  assumes j: "j < length rows"
    and ok: "fst (save_row refuse user (store_after refuse user d (take j rows)) (rows ! j)) = Inr doc"
  shows "doc \<in> set (collections (store_after refuse user d rows) ''Product'')"
proof -
  let ?dj = "store_after refuse user d (take j rows)"
  from ok have "save_row refuse user ?dj (rows ! j) = (Inr doc, snd (save_row refuse user ?dj (rows ! j)))"
    by (metis prod.collapse)
  from save_row_Inr(1) [OF this] j
  have in_next: "doc \<in> set (collections (store_after refuse user d (take (Suc j) rows)) ''Product'')"
    by (simp add: store_after_Suc)
  show ?thesis
  proof (cases "Suc j = length rows")
    case True
    with in_next show ?thesis by simp
  next
    case False
    with j have "j < length rows" "length rows \<le> length rows" by simp_all
    from store_after_later [of j "length rows" rows refuse user d] j in_next
    show ?thesis by auto
  qed
qed

lemma store_after_new:
  "doc \<in> set (collections (store_after refuse user d ps) ''Product'') \<Longrightarrow>
     doc \<in> set (collections d ''Product'')
     \<or> (\<exists>p slug n. doc = (''_id'', ObjectId n) # product_doc user p slug)"
proof (induction ps arbitrary: d)
  case Nil
  then show ?case by simp
next
  case (Cons p ps)
  let ?d' = "snd (save_row refuse user d p)"
  from Cons.prems have "doc \<in> set (collections (store_after refuse user ?d' ps) ''Product'')"
    by simp
  from Cons.IH [OF this] show ?case
  proof
    assume old: "doc \<in> set (collections ?d' ''Product'')"
    show ?thesis
    proof (cases "fst (save_row refuse user d p)")
      case (Inl why)
      with old show ?thesis by (simp add: save_row_Inl)
    next
      case (Inr saved)
      then have "save_row refuse user d p = (Inr saved, ?d')" by (metis prod.collapse)
      from save_row_Inr(1,2) [OF this] old show ?thesis by auto
    qed
  next
    assume "\<exists>p slug n. doc = (''_id'', ObjectId n) # product_doc user p slug"
    then show ?thesis by simp
  qed
qed

lemma product_doc_mirror:
  "get ((''_id'', ObjectId n) # product_doc user p slug) ''subCategory''
     = get ((''_id'', ObjectId n) # product_doc user p slug) ''category''"
  by (simp add: product_doc_def get_Cons)

lemma dropWhile_rev_keeps_head:
  assumes "xs \<noteq> []" "\<not> P (hd xs)"
  shows "rev (dropWhile P (rev xs)) \<noteq> [] \<and> hd (rev (dropWhile P (rev xs))) = hd xs"
proof -
  from assms(1) obtain x rest where xs: "xs = x # rest" by (cases xs) auto
  with assms(2) have "\<not> P x" by simp
  then have "dropWhile P (rev rest @ [x]) = dropWhile P (rev rest) @ [x]"
    by (simp add: dropWhile_append)
  with xs show ?thesis by simp
qed

lemma trim_idem: "trim (trim s) = trim s"
proof -
  let ?t = "dropWhile is_space s"
  let ?u = "rev (dropWhile is_space (rev ?t))"
  have u: "trim s = ?u" by (simp add: trim_def)
  have front: "dropWhile is_space ?u = ?u"
  proof (cases "?t = []")
    case True
    show ?thesis unfolding True by simp
  next
    case False
    then have ns: "\<not> is_space (hd ?t)" by (rule hd_dropWhile)
    from dropWhile_rev_keeps_head [of "?t" is_space] False ns
    have "?u \<noteq> []" "hd ?u = hd ?t" by simp_all
    with ns show ?thesis
      by (cases "?u") (simp_all del: rev_rev_ident)
  qed
  have rear: "dropWhile is_space (rev ?u) = rev ?u"
    by (simp add: dropWhile_idem)
  have "trim ?u = rev (dropWhile is_space (rev (dropWhile is_space ?u)))"
    by (rule trim_def)
  also have "\<dots> = rev (dropWhile is_space (rev ?u))" by (simp only: front)
  also have "\<dots> = rev (rev ?u)" by (simp only: rear)
  also have "\<dots> = ?u" by (rule rev_rev_ident)
  finally show ?thesis by (simp only: u)
qed

lemma unique_names_set:
  "set (unique_names rows f acc) =
     set acc \<union> {trim (js_String (get r f)) |r. r \<in> set rows \<and> truthy (get r f)}"
  by (induction rows arbitrary: acc) (auto simp: set_add_def)

lemma create_missing_dom:
  "create_missing refuse coll doc_of names (d, m) = Inr (d', m') \<Longrightarrow>
     (\<forall>name \<in> set names. m' (toLowerCase (trim name)) \<noteq> None)
     \<and> (\<forall>k. m k \<noteq> None \<longrightarrow> m' k \<noteq> None)"
proof (induction names arbitrary: d m)
  case Nil
  then show ?case by simp
next
  case (Cons name names)
  show ?case
  proof (cases "m (toLowerCase (trim name)) \<noteq> None")
    case True
    with Cons.prems have "create_missing refuse coll doc_of names (d, m) = Inr (d', m')" by simp
    from Cons.IH [OF this] True show ?thesis by auto
  next
    case False
    with Cons.prems obtain e d1 where
      rest: "create_missing refuse coll doc_of names
                   (d1, m(toLowerCase (trim name) \<mapsto> get e ''_id'')) = Inr (d', m')"
      by (auto split: sum.splits)
    from Cons.IH [OF rest] show ?thesis by auto
  qed
qed

lemma resolved_dom:
  assumes run: "create_missing refuse coll doc_of (unique_names rows f []) (d, m0) = Inr (d', m)"
    and r: "r \<in> set rows" "truthy (get r f)"
  shows "m (dim_key (get r f)) \<noteq> None"
proof -
  from r have "trim (js_String (get r f)) \<in> set (unique_names rows f [])"
    by (auto simp: unique_names_set)
  with create_missing_dom [OF run]
  have "m (toLowerCase (trim (trim (js_String (get r f))))) \<noteq> None" by blast
  then show ?thesis by (simp add: dim_key_def trim_idem)
qed

lemma fill_map_entity:
  "\<forall>k v. m k = Some v \<longrightarrow> (\<exists>e \<in> S. get e ''_id'' = v \<and> dim_key (get e ''name'') = k) \<Longrightarrow>
   set es \<subseteq> S \<Longrightarrow>
     \<forall>k v. fill_map es m k = Some v \<longrightarrow> (\<exists>e \<in> S. get e ''_id'' = v \<and> dim_key (get e ''name'') = k)"
proof (induction es arbitrary: m)
  case Nil
  then show ?case by simp
next
  case (Cons e es)
  have "\<forall>k v. (m(dim_key (get e ''name'') \<mapsto> get e ''_id'')) k = Some v \<longrightarrow>
          (\<exists>e' \<in> S. get e' ''_id'' = v \<and> dim_key (get e' ''name'') = k)"
    using Cons.prems by auto
  moreover from Cons.prems(2) have "set es \<subseteq> S" by simp
  ultimately have "\<forall>k v. fill_map es (m(dim_key (get e ''name'') \<mapsto> get e ''_id'')) k = Some v \<longrightarrow>
      (\<exists>e \<in> S. get e ''_id'' = v \<and> dim_key (get e ''name'') = k)"
    by (rule Cons.IH)
  then show ?case by (simp only: fill_map.simps)
qed

lemma fill_map_keeps_dom: "m k \<noteq> None \<Longrightarrow> fill_map es m k \<noteq> None"
  by (induction es arbitrary: m) auto

lemma fill_map_dom: "e \<in> set es \<Longrightarrow> fill_map es m (dim_key (get e ''name'')) \<noteq> None"
proof (induction es arbitrary: m)
  case Nil
  then show ?case by simp
next
  case (Cons e' es)
  show ?case
  proof (cases "e = e'")
    case True
    then show ?thesis by (simp add: fill_map_keeps_dom)
  next
    case False
    with Cons.prems have "e \<in> set es" by simp
    from Cons.IH [OF this] show ?thesis by simp
  qed
qed

lemma create_missing_keeps:
  "create_missing refuse coll doc_of names (d, m) = Inr (d', m') \<Longrightarrow> m k = Some v \<Longrightarrow>
     m' k = Some v"
proof (induction names arbitrary: d m)
  case Nil
  then show ?case by simp
next
  case (Cons name names)
  show ?case
  proof (cases "m (toLowerCase (trim name)) \<noteq> None")
    case True
    with Cons.prems(1) have "create_missing refuse coll doc_of names (d, m) = Inr (d', m')"
      by simp
    from Cons.IH [OF this Cons.prems(2)] show ?thesis .
  next
    case False
    with Cons.prems(1) obtain e d1 where
      rest: "create_missing refuse coll doc_of names
                   (d1, m(toLowerCase (trim name) \<mapsto> get e ''_id'')) = Inr (d', m')"
      by (auto split: sum.splits)
    from False Cons.prems(2) have "(m(toLowerCase (trim name) \<mapsto> get e ''_id'')) k = Some v"
      by auto
    from Cons.IH [OF rest this] show ?thesis .
  qed
qed

lemma create_missing_entity:
  assumes "create_missing refuse coll doc_of names (d, m) = Inr (d', m')"
    and "\<forall>name. get (doc_of name) ''name'' = Str (trim name)"
    and "\<forall>k v. m k = Some v \<longrightarrow>
           (\<exists>e \<in> set (collections d coll). get e ''_id'' = v \<and> dim_key (get e ''name'') = k)"
  shows "\<forall>k v. m' k = Some v \<longrightarrow>
           (\<exists>e \<in> set (collections d' coll). get e ''_id'' = v \<and> dim_key (get e ''name'') = k)"
  using assms
proof (induction names arbitrary: d m)
  case Nil
  then show ?case by simp
next
  case (Cons name names)
  show ?case
  proof (cases "m (toLowerCase (trim name)) \<noteq> None")
    case True
    with Cons.prems(1) have "create_missing refuse coll doc_of names (d, m) = Inr (d', m')"
      by simp
    from Cons.IH [OF this Cons.prems(2,3)] show ?thesis .
  next
    case False
    with Cons.prems(1) obtain e d1 where
      c: "db_create refuse d coll (doc_of name) = Inr (e, d1)"
      and rest: "create_missing refuse coll doc_of names
                   (d1, m(toLowerCase (trim name) \<mapsto> get e ''_id'')) = Inr (d', m')"
      by (auto split: sum.splits)
    from db_create_same [OF c] have coll: "collections d1 coll = collections d coll @ [e]"
      and e: "e = (''_id'', ObjectId (next_id d)) # doc_of name" by simp_all
    from e Cons.prems(2) have "get e ''name'' = Str (trim name)" by (simp add: get_Cons)
    then have key: "dim_key (get e ''name'') = toLowerCase (trim name)"
      by (simp add: dim_key_def trim_idem)
    have "\<forall>k v. (m(toLowerCase (trim name) \<mapsto> get e ''_id'')) k = Some v \<longrightarrow>
            (\<exists>e' \<in> set (collections d1 coll). get e' ''_id'' = v \<and> dim_key (get e' ''name'') = k)"
      using Cons.prems(3) coll key by auto
    from Cons.IH [OF rest Cons.prems(2) this] show ?thesis .
  qed
qed

lemma resolved_kind:
  assumes run: "create_missing refuse coll doc_of (unique_names rows f [])
                  (d1, fill_map (find_by_names d0 coll (unique_names rows f [])) Map.empty)
                = Inr (d2, m)"
    and same: "collections d1 coll = collections d0 coll"
    and after: "collections d' coll = collections d2 coll"
    and named: "\<forall>name. get (doc_of name) ''name'' = Str (trim name)"
  shows "kind_resolved d0 d' rows f m coll"
  unfolding kind_resolved_def
proof (intro ballI impI conjI)
  let ?names = "unique_names rows f []"
  let ?found = "find_by_names d0 coll ?names"
  fix r assume r: "r \<in> set rows" "truthy (get r f)"
  let ?key = "dim_key (get r f)"
  from resolved_dom [OF run r] obtain v where v: "m ?key = Some v" by auto
  have start: "\<forall>k v. fill_map ?found Map.empty k = Some v \<longrightarrow>
          (\<exists>e \<in> set (collections d1 coll). get e ''_id'' = v \<and> dim_key (get e ''name'') = k)"
    by (rule fill_map_entity) (auto simp: find_by_names_def same)
  from create_missing_entity [OF run named start] v after
  obtain e where e: "e \<in> set (collections d' coll)" "get e ''_id'' = v"
    "dim_key (get e ''name'') = ?key"
    by auto
  have "\<forall>r' \<in> set rows. truthy (get r' f) \<and> dim_key (get r' f) = ?key \<longrightarrow>
          dim_lookup m (get r' f) = get e ''_id''"
    using v e(2) by (simp add: dim_lookup_def map_get_def)
  with e v show "\<exists>e \<in> set (collections d' coll).
            dim_key (get e ''name'') = ?key
          \<and> m ?key = Some (get e ''_id'')
          \<and> (\<forall>r' \<in> set rows.
                truthy (get r' f) \<and> dim_key (get r' f) = ?key \<longrightarrow>
                  dim_lookup m (get r' f) = get e ''_id'')"
    by (intro bexI [where x = e]) simp_all
  assume "Str (trim (js_String (get r f))) \<in> (\<lambda>e. get e ''name'') ` set (collections d0 coll)"
  then obtain e0 where e0: "e0 \<in> set (collections d0 coll)"
    "get e0 ''name'' = Str (trim (js_String (get r f)))"
    by auto
  from r have "trim (js_String (get r f)) \<in> set ?names" by (auto simp: unique_names_set)
  with e0 have in_found: "e0 \<in> set ?found" by (simp add: find_by_names_def)
  from e0(2) have key0: "dim_key (get e0 ''name'') = ?key"
    by (simp add: dim_key_def trim_idem)
  from fill_map_dom [OF in_found, of Map.empty] key0
  obtain w where w: "fill_map ?found Map.empty ?key = Some w" by auto
  have "\<forall>k v. fill_map ?found Map.empty k = Some v \<longrightarrow>
          (\<exists>e \<in> set (collections d0 coll). get e ''_id'' = v \<and> dim_key (get e ''name'') = k)"
    by (rule fill_map_entity) (auto simp: find_by_names_def)
  with w obtain e1 where e1: "e1 \<in> set (collections d0 coll)" "get e1 ''_id'' = w"
    "dim_key (get e1 ''name'') = ?key"
    by blast
  from create_missing_keeps [OF run w] e1
  show "\<exists>e \<in> set (collections d0 coll).
          dim_key (get e ''name'') = ?key \<and> m ?key = Some (get e ''_id'')"
    by (intro bexI [where x = e1]) simp_all
qed

lemma named_docs:
  "get (named_doc user name) ''name'' = Str (trim name)"
  "get (slugged_doc user name) ''name'' = Str (trim name)"
  "get (unit_doc user name) ''name'' = Str (trim name)"
  "get (tax_doc user name) ''name'' = Str (trim name)"
  "get (subcategory_doc user rows sub parent pm name) ''name'' = Str (trim name)"
  by (simp_all add: named_doc_def slugged_doc_def unit_doc_def tax_doc_def subcategory_doc_def
      Let_def get_Cons)

lemma csv_resolve_kinds:
  assumes run: "csv_resolve refuse user d rows = Inr (d', maps)"
  shows "kind_resolved d d' rows ''parent_category'' (parentCategoryMap maps) ''Category''"
    and "kind_resolved d d' rows ''category'' (subCategoryMap maps) ''SubCategory''"
    and "kind_resolved d d' rows ''brand'' (brandMap maps) ''Brand''"
    and "kind_resolved d d' rows ''tax'' (taxMap maps) ''Tax''"
    and "kind_resolved d d' rows ''unit'' (unitMap maps) ''Unit''"
    and "\<forall>coll. coll \<notin> set [''Category'', ''SubCategory'', ''Brand'', ''Tax'', ''Unit''] \<longrightarrow>
           collections d' coll = collections d coll"
proof -
  from run obtain d1 d2 d3 d4 where
    s1: "create_missing refuse ''Category'' (slugged_doc user)
           (unique_names rows ''parent_category'' [])
           (d, fill_map (find_by_names d ''Category'' (unique_names rows ''parent_category'' []))
                 Map.empty)
         = Inr (d1, parentCategoryMap maps)"
    and s2: "create_missing refuse ''SubCategory''
           (subcategory_doc user rows ''category'' ''parent_category'' (parentCategoryMap maps))
           (unique_names rows ''category'' [])
           (d1, fill_map (find_by_names d ''SubCategory'' (unique_names rows ''category'' []))
                  Map.empty)
         = Inr (d2, subCategoryMap maps)"
    and s3: "create_missing refuse ''Brand'' (slugged_doc user) (unique_names rows ''brand'' [])
           (d2, fill_map (find_by_names d ''Brand'' (unique_names rows ''brand'' [])) Map.empty)
         = Inr (d3, brandMap maps)"
    and s4: "create_missing refuse ''Tax'' (tax_doc user) (unique_names rows ''tax'' [])
           (d3, fill_map (find_by_names d ''Tax'' (unique_names rows ''tax'' [])) Map.empty)
         = Inr (d4, taxMap maps)"
    and s5: "create_missing refuse ''Unit'' (unit_doc user) (unique_names rows ''unit'' [])
           (d4, fill_map (find_by_names d ''Unit'' (unique_names rows ''unit'' [])) Map.empty)
         = Inr (d', unitMap maps)"
    unfolding csv_resolve_def and_then_def Let_def
    by (auto split: sum.splits prod.splits)
  note o1 = create_missing_other [OF s1]
  note o2 = create_missing_other [OF s2]
  note o3 = create_missing_other [OF s3]
  note o4 = create_missing_other [OF s4]
  note o5 = create_missing_other [OF s5]
  show "kind_resolved d d' rows ''parent_category'' (parentCategoryMap maps) ''Category''"
    by (rule resolved_kind [OF s1]) (simp_all add: o2 o3 o4 o5 named_docs)
  show "kind_resolved d d' rows ''category'' (subCategoryMap maps) ''SubCategory''"
    by (rule resolved_kind [OF s2]) (simp_all add: o1 o3 o4 o5 named_docs)
  show "kind_resolved d d' rows ''brand'' (brandMap maps) ''Brand''"
    by (rule resolved_kind [OF s3]) (simp_all add: o1 o2 o4 o5 named_docs)
  show "kind_resolved d d' rows ''tax'' (taxMap maps) ''Tax''"
    by (rule resolved_kind [OF s4]) (simp_all add: o1 o2 o3 o5 named_docs)
  show "kind_resolved d d' rows ''unit'' (unitMap maps) ''Unit''"
    by (rule resolved_kind [OF s5]) (simp_all add: o1 o2 o3 o4 named_docs)
  show "\<forall>coll. coll \<notin> set [''Category'', ''SubCategory'', ''Brand'', ''Tax'', ''Unit''] \<longrightarrow>
           collections d' coll = collections d coll"
    by (simp add: o1 o2 o3 o4 o5)
qed


lemma excel_resolve_kinds:
  assumes run: "excel_resolve refuse user d rows = Inr (d', maps)"
  shows "kind_resolved d d' rows ''category'' (categoryMap maps) ''Category''"
    and "kind_resolved d d' rows ''brand'' (brandMap maps) ''Brand''"
    and "kind_resolved d d' rows ''subCategory'' (subCategoryMap maps) ''SubCategory''"
    and "kind_resolved d d' rows ''tax'' (taxMap maps) ''Tax''"
    and "kind_resolved d d' rows ''unit'' (unitMap maps) ''Unit''"
    and "kind_resolved d d' rows ''warranty'' (warrantyMap maps) ''Warranty''"
    and "kind_resolved d d' rows ''size'' (sizeMap maps) ''Size''"
    and "kind_resolved d d' rows ''volume'' (volumeMap maps) ''Volume''"
proof -
  from run obtain d1 d2 d3 d4 d5 d6 d7 d8 where
    s1: "create_missing refuse ''Category'' (slugged_doc user) (unique_names rows ''category'' [])
           (d, fill_map (find_by_names d ''Category'' (unique_names rows ''category'' []))
                 Map.empty)
         = Inr (d1, categoryMap maps)"
    and s2: "create_missing refuse ''Brand'' (slugged_doc user) (unique_names rows ''brand'' [])
           (d1, fill_map (find_by_names d ''Brand'' (unique_names rows ''brand'' [])) Map.empty)
         = Inr (d2, brandMap maps)"
    and s3: "create_missing refuse ''SubCategory''
           (subcategory_doc user rows ''subCategory'' ''category'' (categoryMap maps))
           (unique_names rows ''subCategory'' [])
           (d2, fill_map (find_by_names d ''SubCategory'' (unique_names rows ''subCategory'' []))
                  Map.empty)
         = Inr (d3, subCategoryMap maps)"
    and s4: "create_missing refuse ''Tax'' (named_doc user) (unique_names rows ''tax'' [])
           (d3, fill_map (find_by_names d ''Tax'' (unique_names rows ''tax'' [])) Map.empty)
         = Inr (d4, taxMap maps)"
    and s5: "create_missing refuse ''Unit'' (unit_doc user) (unique_names rows ''unit'' [])
           (d4, fill_map (find_by_names d ''Unit'' (unique_names rows ''unit'' [])) Map.empty)
         = Inr (d5, unitMap maps)"
    and s6: "create_missing refuse ''Color'' (named_doc user) (unique_names rows ''color'' [])
           (d5, fill_map (find_by_names d ''Color'' (unique_names rows ''color'' [])) Map.empty)
         = Inr (d6, colorMap maps)"
    and s7: "create_missing refuse ''Warranty'' (named_doc user)
           (unique_names rows ''warranty'' [])
           (d6, fill_map (find_by_names d ''Warranty'' (unique_names rows ''warranty'' []))
                  Map.empty)
         = Inr (d7, warrantyMap maps)"
    and s8: "create_missing refuse ''Size'' (named_doc user) (unique_names rows ''size'' [])
           (d7, fill_map (find_by_names d ''Size'' (unique_names rows ''size'' [])) Map.empty)
         = Inr (d8, sizeMap maps)"
    and s9: "create_missing refuse ''Volume'' (named_doc user) (unique_names rows ''volume'' [])
           (d8, fill_map (find_by_names d ''Volume'' (unique_names rows ''volume'' [])) Map.empty)
         = Inr (d', volumeMap maps)"
    unfolding excel_resolve_def and_then_def Let_def
    by (auto split: sum.splits prod.splits)
  note o1 = create_missing_other [OF s1]
  note o2 = create_missing_other [OF s2]
  note o3 = create_missing_other [OF s3]
  note o4 = create_missing_other [OF s4]
  note o5 = create_missing_other [OF s5]
  note o6 = create_missing_other [OF s6]
  note o7 = create_missing_other [OF s7]
  note o8 = create_missing_other [OF s8]
  note o9 = create_missing_other [OF s9]
  show "kind_resolved d d' rows ''category'' (categoryMap maps) ''Category''"
    by (rule resolved_kind [OF s1]) (simp_all add: o2 o3 o4 o5 o6 o7 o8 o9 named_docs)
  show "kind_resolved d d' rows ''brand'' (brandMap maps) ''Brand''"
    by (rule resolved_kind [OF s2]) (simp_all add: o1 o3 o4 o5 o6 o7 o8 o9 named_docs)
  show "kind_resolved d d' rows ''subCategory'' (subCategoryMap maps) ''SubCategory''"
    by (rule resolved_kind [OF s3]) (simp_all add: o1 o2 o4 o5 o6 o7 o8 o9 named_docs)
  show "kind_resolved d d' rows ''tax'' (taxMap maps) ''Tax''"
    by (rule resolved_kind [OF s4]) (simp_all add: o1 o2 o3 o5 o6 o7 o8 o9 named_docs)
  show "kind_resolved d d' rows ''unit'' (unitMap maps) ''Unit''"
    by (rule resolved_kind [OF s5]) (simp_all add: o1 o2 o3 o4 o6 o7 o8 o9 named_docs)
  show "kind_resolved d d' rows ''warranty'' (warrantyMap maps) ''Warranty''"
    by (rule resolved_kind [OF s7]) (simp_all add: o1 o2 o3 o4 o5 o6 o8 o9 named_docs)
  show "kind_resolved d d' rows ''size'' (sizeMap maps) ''Size''"
    by (rule resolved_kind [OF s8]) (simp_all add: o1 o2 o3 o4 o5 o6 o7 o9 named_docs)
  show "kind_resolved d d' rows ''volume'' (volumeMap maps) ''Volume''"
    by (rule resolved_kind [OF s9]) (simp_all add: o1 o2 o3 o4 o5 o6 o7 o8 named_docs)
qed

section \<open>The claims\<close>

text \<open>
  \<^bold>\<open>C1\<close>, as amended. Whenever a route answers with a report, every input row has
  exactly one outcome. In the two preview routes the candidates are the accepted rows and
  \<^verbatim>\<open>invalidRows\<close> the rejected rows, both in input order, a rejected row carrying its
  input index plus 2, and \<^verbatim>\<open>valid + invalid = total\<close>. In save mode \<^verbatim>\<open>results\<close>
  holds one entry per product in input order, each \<^verbatim>\<open>"success"\<close> or \<^verbatim>\<open>"failed"\<close>
  and each carrying the input index itself (counted from 0, with no offset), and
  \<^verbatim>\<open>success + failed = total\<close>.
\<close>

theorem one_outcome_per_row:
  "(bulk_preview refuse user d rows = Inr (rep, d1) \<longrightarrow>
      (\<exists>maps body.
          body = preview_row maps (existing_names d1 rows) (existing_slugs d1 rows)
          \<and> list_all (\<lambda>r. \<not> is_throw (body r)) (map remapRow rows)
          \<and> rp_previewProducts rep = map (excel_populate d1) (accepted body (map remapRow rows))
          \<and> rp_invalidRows rep = rejected body 0 (map remapRow rows))
      \<and> rp_valid rep = length (rp_previewProducts rep)
      \<and> rp_invalid rep = length (rp_invalidRows rep)
      \<and> rp_total rep = length rows
      \<and> rp_valid rep + rp_invalid rep = rp_total rep)
   \<and> (bulk_preview_csv refuse user d rows = Inr (rep', d2) \<longrightarrow>
      (\<exists>maps body.
          body = csv_row maps (existing_names d2 rows) (existing_slugs d2 rows)
          \<and> list_all (\<lambda>r. \<not> is_throw (body r)) rows
          \<and> rp_previewProducts rep' = map (csv_populate d2) (accepted body rows)
          \<and> rp_invalidRows rep' = rejected body 0 rows)
      \<and> rp_valid rep' = length (rp_previewProducts rep')
      \<and> rp_invalid rep' = length (rp_invalidRows rep')
      \<and> rp_total rep' = length rows
      \<and> rp_valid rep' + rp_invalid rep' = rp_total rep')
   \<and> (bulk_save refuse user d rows = Inr (saved, d3) \<longrightarrow>
      length (sv_results saved) = length rows
      \<and> map sr_index (sv_results saved) = [0..<length rows]
      \<and> list_all (\<lambda>e. sr_status e = ''success'' \<or> sr_status e = ''failed'') (sv_results saved)
      \<and> sv_success saved = length (filter (\<lambda>e. sr_status e = ''success'') (sv_results saved))
      \<and> sv_failed saved = length (filter (\<lambda>e. sr_status e = ''failed'') (sv_results saved))
      \<and> sv_total saved = length rows
      \<and> sv_success saved + sv_failed saved = sv_total saved)"
proof (intro conjI impI)
  assume run: "bulk_preview refuse user d rows = Inr (rep, d1)"
  let ?en = "existing_names d1 rows" and ?es = "existing_slugs d1 rows"
  from bulk_preview_Inr [OF run] obtain m pv bad where
    loop: "preview_loop (preview_row m ?en ?es) 0 (map remapRow rows) ([], []) = Inr (pv, bad)"
    and rep: "rep = \<lparr>rp_previewProducts = map (excel_populate d1) pv, rp_invalidRows = bad,
                     rp_total = length rows, rp_valid = length pv, rp_invalid = length bad\<rparr>"
    by auto
  from preview_loop_Inr [OF loop] have
    ok: "list_all (\<lambda>r. \<not> is_throw (preview_row m ?en ?es r)) (map remapRow rows)"
    and pv: "pv = accepted (preview_row m ?en ?es) (map remapRow rows)"
    and bad: "bad = rejected (preview_row m ?en ?es) 0 (map remapRow rows)"
    by simp_all
  from ok pv bad rep show "\<exists>maps body.
          body = preview_row maps (existing_names d1 rows) (existing_slugs d1 rows)
          \<and> list_all (\<lambda>r. \<not> is_throw (body r)) (map remapRow rows)
          \<and> rp_previewProducts rep = map (excel_populate d1) (accepted body (map remapRow rows))
          \<and> rp_invalidRows rep = rejected body 0 (map remapRow rows)"
    by auto
  from rep show "rp_valid rep = length (rp_previewProducts rep)" by simp
  from rep show "rp_invalid rep = length (rp_invalidRows rep)" by simp
  from rep show "rp_total rep = length rows" by simp
  from length_accepted_rejected [OF ok, of 0] pv bad rep
  show "rp_valid rep + rp_invalid rep = rp_total rep" by simp
next
  assume run: "bulk_preview_csv refuse user d rows = Inr (rep', d2)"
  let ?en = "existing_names d2 rows" and ?es = "existing_slugs d2 rows"
  from bulk_preview_csv_Inr [OF run] obtain m pv bad where
    loop: "preview_loop (csv_row m ?en ?es) 0 rows ([], []) = Inr (pv, bad)"
    and rep: "rep' = \<lparr>rp_previewProducts = map (csv_populate d2) pv, rp_invalidRows = bad,
                     rp_total = length rows, rp_valid = length pv, rp_invalid = length bad\<rparr>"
    by auto
  from preview_loop_Inr [OF loop] have
    ok: "list_all (\<lambda>r. \<not> is_throw (csv_row m ?en ?es r)) rows"
    and pv: "pv = accepted (csv_row m ?en ?es) rows"
    and bad: "bad = rejected (csv_row m ?en ?es) 0 rows"
    by simp_all
  from ok pv bad rep show "\<exists>maps body.
          body = csv_row maps (existing_names d2 rows) (existing_slugs d2 rows)
          \<and> list_all (\<lambda>r. \<not> is_throw (body r)) rows
          \<and> rp_previewProducts rep' = map (csv_populate d2) (accepted body rows)
          \<and> rp_invalidRows rep' = rejected body 0 rows"
    by auto
  from rep show "rp_valid rep' = length (rp_previewProducts rep')" by simp
  from rep show "rp_invalid rep' = length (rp_invalidRows rep')" by simp
  from rep show "rp_total rep' = length rows" by simp
  from length_accepted_rejected [OF ok, of 0] pv bad rep
  show "rp_valid rep' + rp_invalid rep' = rp_total rep'" by simp
next
  assume run: "bulk_save refuse user d rows = Inr (saved, d3)"
  note facts = bulk_save_Inr [OF run]
  let ?entries = "save_entries refuse user 0 d rows"
  from facts have res: "sv_results saved = map (populate_result d3) ?entries" by simp
  from res show "length (sv_results saved) = length rows"
    by (simp add: length_save_entries)
  from res show "map sr_index (sv_results saved) = [0..<length rows]"
    using save_entries_index [of refuse user 0 d rows]
    by (simp add: comp_def populate_result_index)
  from res show "list_all (\<lambda>e. sr_status e = ''success'' \<or> sr_status e = ''failed'') (sv_results saved)"
    by (auto simp: list_all_iff populate_result_status dest: save_entries_status)
  from res facts show "sv_success saved = length (filter (\<lambda>e. sr_status e = ''success'') (sv_results saved))"
    by (simp add: filter_map comp_def populate_result_status)
  from res facts show "sv_failed saved = length (filter (\<lambda>e. sr_status e = ''failed'') (sv_results saved))"
    by (simp add: filter_map comp_def populate_result_status)
  from facts show "sv_total saved = length rows" by simp
  from facts save_entries_count [of refuse user 0 d rows]
  show "sv_success saved + sv_failed saved = sv_total saved" by simp
qed

theorem one_outcome_per_row_witness:
  "(\<exists>rep d1. bulk_preview accept_all Null empty_db mixed_rows = Inr (rep, d1)
        \<and> map ir_row (rp_invalidRows rep) = [3] \<and> rp_valid rep = 2
        \<and> rp_valid rep + rp_invalid rep = rp_total rep)
   \<and> (\<exists>rep d2. bulk_preview_csv accept_all Null empty_db mixed_rows = Inr (rep, d2)
        \<and> map ir_row (rp_invalidRows rep) = [3, 4] \<and> rp_valid rep = 1
        \<and> rp_valid rep + rp_invalid rep = rp_total rep)
   \<and> (\<exists>saved d3. bulk_save accept_all Null empty_db mixed_rows = Inr (saved, d3)
        \<and> map sr_status (sv_results saved) = [''success'', ''failed'', ''failed'']
        \<and> map sr_index (sv_results saved) = [0, 1, 2]
        \<and> sv_success saved + sv_failed saved = sv_total saved)"
proof -
  have "case bulk_preview accept_all Null empty_db mixed_rows of
          Inl msg \<Rightarrow> False
        | Inr (rep, d) \<Rightarrow> map ir_row (rp_invalidRows rep) = [3] \<and> rp_valid rep = 2"
    by code_simp
  then obtain rep d1 where
    rep: "bulk_preview accept_all Null empty_db mixed_rows = Inr (rep, d1)"
      "map ir_row (rp_invalidRows rep) = [3]" "rp_valid rep = 2"
    by (auto split: sum.splits)
  have "case bulk_preview_csv accept_all Null empty_db mixed_rows of
          Inl msg \<Rightarrow> False
        | Inr (rep, d) \<Rightarrow> map ir_row (rp_invalidRows rep) = [3, 4] \<and> rp_valid rep = 1"
    by code_simp
  then obtain rep' d2 where
    rep': "bulk_preview_csv accept_all Null empty_db mixed_rows = Inr (rep', d2)"
      "map ir_row (rp_invalidRows rep') = [3, 4]" "rp_valid rep' = 1"
    by (auto split: sum.splits)
  have "case bulk_save accept_all Null empty_db mixed_rows of
          Inl msg \<Rightarrow> False
        | Inr (saved, d) \<Rightarrow>
            map sr_status (sv_results saved) = [''success'', ''failed'', ''failed'']
            \<and> map sr_index (sv_results saved) = [0, 1, 2]"
    by code_simp
  then obtain saved d3 where
    saved: "bulk_save accept_all Null empty_db mixed_rows = Inr (saved, d3)"
      "map sr_status (sv_results saved) = [''success'', ''failed'', ''failed'']"
      "map sr_index (sv_results saved) = [0, 1, 2]"
    by (auto split: sum.splits)
  note all = one_outcome_per_row [where refuse = accept_all and user = Null and d = empty_db
      and rows = mixed_rows and rep = rep and ?d1.0 = d1 and rep' = rep' and ?d2.0 = d2
      and saved = saved and ?d3.0 = d3]
  from all rep(1) have 1: "rp_valid rep + rp_invalid rep = rp_total rep" by blast
  from all rep'(1) have 2: "rp_valid rep' + rp_invalid rep' = rp_total rep'" by blast
  from all saved(1) have 3: "sv_success saved + sv_failed saved = sv_total saved" by blast
  have c1: "\<exists>rep d1. bulk_preview accept_all Null empty_db mixed_rows = Inr (rep, d1)
        \<and> map ir_row (rp_invalidRows rep) = [3] \<and> rp_valid rep = 2
        \<and> rp_valid rep + rp_invalid rep = rp_total rep"
    using rep 1 by - (rule exI [where x = rep], rule exI [where x = d1], simp)
  have c2: "\<exists>rep d2. bulk_preview_csv accept_all Null empty_db mixed_rows = Inr (rep, d2)
        \<and> map ir_row (rp_invalidRows rep) = [3, 4] \<and> rp_valid rep = 1
        \<and> rp_valid rep + rp_invalid rep = rp_total rep"
    using rep' 2 by - (rule exI [where x = rep'], rule exI [where x = d2], simp)
  have c3: "\<exists>saved d3. bulk_save accept_all Null empty_db mixed_rows = Inr (saved, d3)
        \<and> map sr_status (sv_results saved) = [''success'', ''failed'', ''failed'']
        \<and> map sr_index (sv_results saved) = [0, 1, 2]
        \<and> sv_success saved + sv_failed saved = sv_total saved"
    using saved 3 by - (rule exI [where x = saved], rule exI [where x = d3], simp)
  show ?thesis by (intro conjI c1 c2 c3)
qed

text \<open>
  The claim as stated asks for the input index plus 2 in save mode too. A single product
  without a parent category fails at input index 0 and its entry carries 0, not 2.
\<close>

theorem save_index_counterexample:
  "\<not> isl (bulk_save accept_all Null empty_db [[(''name'', Str ''Gizmo'')]])
   \<and> map sr_status
        (sv_results (fst (projr (bulk_save accept_all Null empty_db [[(''name'', Str ''Gizmo'')]]))))
       = [''failed'']
   \<and> map sr_index
        (sv_results (fst (projr (bulk_save accept_all Null empty_db [[(''name'', Str ''Gizmo'')]]))))
       = [0]
   \<and> map sr_index
        (sv_results (fst (projr (bulk_save accept_all Null empty_db [[(''name'', Str ''Gizmo'')]]))))
       \<noteq> [0 + 2]"
  by code_simp

text \<open>
  \<^bold>\<open>C2\<close>, as amended. In the CSV preview and in save mode a row whose name is absent
  or blank (falsy) never becomes an accepted candidate: the CSV preview rejects it as an
  empty row or for the missing required fields, and save mode fails it as an empty row,
  as a duplicate or for the missing required fields. The row loop of the spreadsheet
  preview, which runs on the rows once they are parsed, has no required-field check:
  its body accepts such a row, when it is neither empty nor a duplicate, as a candidate
  whose name is the empty string.
\<close>

theorem nameless_row_rejected:
  assumes "falsy (get r ''name'')"
  shows
  "(bulk_preview_csv refuse user d rows = Inr (rep, d2) \<longrightarrow> i < length rows \<longrightarrow> rows ! i = r \<longrightarrow>
      (\<exists>e \<in> set (rp_invalidRows rep). ir_row e = i + 2 \<and> ir_data e = r
          \<and> (ir_reason e = ''Empty row''
               \<or> ir_reason e = ''Missing required fields (name, parent_category)'')))
   \<and> (\<forall>maps en es p. csv_row maps en es r \<noteq> Accept p)
   \<and> (bulk_save refuse user d rows = Inr (saved, d3) \<longrightarrow> i < length rows \<longrightarrow> rows ! i = r \<longrightarrow>
      sr_status (sv_results saved ! i) = ''failed''
      \<and> sr_reason (sv_results saved ! i) \<in>
          {Some ''Empty row'', Some ''Duplicate product name or slug'',
           Some ''Missing required fields''})
   \<and> (\<forall>d d' p. save_row refuse user d r \<noteq> (Inr p, d'))
   \<and> (\<not> empty_row r \<longrightarrow> \<not> duplicate_row en es r \<longrightarrow>
        (\<exists>p. preview_row maps en es r = Accept p \<and> get p ''name'' = Str []))"
proof (intro conjI impI allI)
  assume run: "bulk_preview_csv refuse user d rows = Inr (rep, d2)"
    and i: "i < length rows" "rows ! i = r"
  from bulk_preview_csv_report [OF run] obtain maps where
    bad: "rp_invalidRows rep =
       rejected (csv_row maps (existing_names d2 rows) (existing_slugs d2 rows)) 0 rows"
    by blast
  let ?body = "csv_row maps (existing_names d2 rows) (existing_slugs d2 rows)"
  from csv_row_nameless [OF assms] obtain why where
    why: "?body r = Reject why"
      "why = ''Empty row'' \<or> why = ''Missing required fields (name, parent_category)''"
    by blast
  from rejected_at [of i rows ?body why] i why(1) bad
  have "\<lparr>ir_row = i + 2, ir_reason = why, ir_data = r\<rparr> \<in> set (rp_invalidRows rep)" by simp
  with why(2) show "\<exists>e \<in> set (rp_invalidRows rep). ir_row e = i + 2 \<and> ir_data e = r
          \<and> (ir_reason e = ''Empty row''
               \<or> ir_reason e = ''Missing required fields (name, parent_category)'')"
    by (intro bexI [where x = "\<lparr>ir_row = i + 2, ir_reason = why, ir_data = r\<rparr>"]) simp_all
next
  fix maps en es p
  from csv_row_nameless [OF assms, of maps en es] show "csv_row maps en es r \<noteq> Accept p" by auto
next
  assume run: "bulk_save refuse user d rows = Inr (saved, d3)"
    and i: "i < length rows" "rows ! i = r"
  let ?o = "fst (save_row refuse user (store_after refuse user d (take i rows)) r)"
  from bulk_save_nth [OF run i(1)] i(2)
  have nth: "sv_results saved ! i = populate_result d3 (save_entry i r ?o)" by simp
  from save_row_nameless [OF assms, of refuse user "store_after refuse user d (take i rows)"]
  obtain why where why: "?o = Inl why"
    "why \<in> {''Empty row'', ''Duplicate product name or slug'', ''Missing required fields''}"
    by auto
  from nth why(1) have "sv_results saved ! i =
      \<lparr>sr_index = i, sr_status = ''failed'', sr_reason = Some why, sr_product = r\<rparr>"
    by (simp add: save_entry_Inl populate_failed)
  with why(2) show "sr_status (sv_results saved ! i) = ''failed''"
    and "sr_reason (sv_results saved ! i) \<in>
          {Some ''Empty row'', Some ''Duplicate product name or slug'',
           Some ''Missing required fields''}"
    by auto
next
  fix d d' p
  from save_row_nameless [OF assms, of refuse user d]
  show "save_row refuse user d r \<noteq> (Inr p, d')" by auto
next
  assume "\<not> empty_row r" "\<not> duplicate_row en es r"
  with assms show "\<exists>p. preview_row maps en es r = Accept p \<and> get p ''name'' = Str []"
    by (simp add: preview_row_def get_Cons js_or_def falsy_def)
qed

theorem nameless_row_rejected_witness:
  "falsy (get nameless_row ''name'')
   \<and> (\<exists>rep d2. bulk_preview_csv accept_all Null empty_db [nameless_row] = Inr (rep, d2)
        \<and> (\<exists>e \<in> set (rp_invalidRows rep). ir_row e = 2 \<and> ir_data e = nameless_row
              \<and> (ir_reason e = ''Empty row''
                   \<or> ir_reason e = ''Missing required fields (name, parent_category)'')))
   \<and> (\<exists>saved d3. bulk_save accept_all Null empty_db [nameless_row] = Inr (saved, d3)
        \<and> sr_status (sv_results saved ! 0) = ''failed'')
   \<and> (\<exists>p. preview_row no_maps [] [] nameless_row = Accept p \<and> get p ''name'' = Str [])"
proof -
  have nameless: "falsy (get nameless_row ''name'')"
    by (simp add: nameless_row_def falsy_def get_Cons)
  have "case bulk_preview_csv accept_all Null empty_db [nameless_row] of
          Inl msg \<Rightarrow> False | Inr (rep, d) \<Rightarrow> True"
    by code_simp
  then obtain rep d2 where
    csv: "bulk_preview_csv accept_all Null empty_db [nameless_row] = Inr (rep, d2)"
    by (auto split: sum.splits)
  have "case bulk_save accept_all Null empty_db [nameless_row] of
          Inl msg \<Rightarrow> False | Inr (saved, d) \<Rightarrow> True"
    by code_simp
  then obtain saved d3 where
    save: "bulk_save accept_all Null empty_db [nameless_row] = Inr (saved, d3)"
    by (auto split: sum.splits)
  have ne: "\<not> empty_row nameless_row" "\<not> duplicate_row [] [] nameless_row"
    by (simp_all add: nameless_row_def empty_row_def js_values_def duplicate_row_def)
  note all = nameless_row_rejected [OF nameless, where refuse = accept_all and user = Null
      and d = empty_db and rows = "[nameless_row]" and i = 0 and rep = rep and ?d2.0 = d2
      and saved = saved and ?d3.0 = d3 and en = "[]" and es = "[]" and maps = no_maps]
  from all csv have "\<exists>e \<in> set (rp_invalidRows rep). ir_row e = 0 + 2 \<and> ir_data e = nameless_row
              \<and> (ir_reason e = ''Empty row''
                   \<or> ir_reason e = ''Missing required fields (name, parent_category)'')"
    by simp
  then have 1: "\<exists>e \<in> set (rp_invalidRows rep). ir_row e = 2 \<and> ir_data e = nameless_row
              \<and> (ir_reason e = ''Empty row''
                   \<or> ir_reason e = ''Missing required fields (name, parent_category)'')"
    by (simp del: add_2_eq_Suc add_2_eq_Suc')
  from all save have 2: "sr_status (sv_results saved ! 0) = ''failed''" by simp
  from all ne have 3: "\<exists>p. preview_row no_maps [] [] nameless_row = Accept p \<and> get p ''name'' = Str []"
    by blast
  from nameless csv 1 save 2 3 show ?thesis by blast
qed

text \<open>
  The claim as stated fails in save mode and in the CSV preview, where a row without a
  name is rejected for another reason than the missing required field: a product with no
  name and the slug of a stored product fails as a duplicate, and a CSV row whose cells
  are all blank is rejected as an empty row.
\<close>

theorem nameless_row_counterexample:
  "falsy (get (slug_only_rows ! 0) ''name'')
   \<and> \<not> isl (bulk_save accept_all Null widget_db slug_only_rows)
   \<and> map (\<lambda>e. (sr_index e, sr_status e, sr_reason e))
        (sv_results (fst (projr (bulk_save accept_all Null widget_db slug_only_rows))))
       = [(0, ''failed'', Some ''Duplicate product name or slug'')]
   \<and> falsy (get (blank_rows ! 0) ''name'')
   \<and> \<not> isl (bulk_preview_csv accept_all Null empty_db blank_rows)
   \<and> rp_invalidRows (fst (projr (bulk_preview_csv accept_all Null empty_db blank_rows)))
       = [\<lparr>ir_row = 2, ir_reason = ''Empty row'', ir_data = blank_rows ! 0\<rparr>]"
  by code_simp

text \<open>
  \<^bold>\<open>C3.\<close> The spreadsheet preview never reaches its empty-row test. The upload is
  kept in memory, so \<^verbatim>\<open>req.file.path\<close> is \<^verbatim>\<open>undefined\<close>, the reading of the file
  throws, and the route answers with the error for every upload, whatever the rows of
  the sheet: no row is rejected with the reason \<^verbatim>\<open>"Empty row"\<close>. The test is there:
  given the rows of a sheet whose only data row is blank, the \<^verbatim>\<open>try\<close> block rejects
  that row as an empty row, and so does the CSV preview, which receives its rows in the
  request.
\<close>

theorem upload_never_read:
  "post_bulk_preview refuse user disk d
       (Some (memoryStorage_file originalname encoding mimetype buffer bytes))
     = Inl ''ERR_INVALID_ARG_TYPE''
   \<and> rp_invalidRows (fst (projr (bulk_preview accept_all Null empty_db blank_rows)))
       = [\<lparr>ir_row = 2, ir_reason = ''Empty row'',
           ir_data = [(''name'', Str []), (''price'', Str [])]\<rparr>]
   \<and> rp_invalidRows (fst (projr (bulk_preview_csv accept_all Null empty_db blank_rows)))
       = [\<lparr>ir_row = 2, ir_reason = ''Empty row'',
           ir_data = [(''name'', Str []), (''selling_price'', Str [])]\<rparr>]"
proof (intro conjI)
  show "post_bulk_preview refuse user disk d
       (Some (memoryStorage_file originalname encoding mimetype buffer bytes))
     = Inl ''ERR_INVALID_ARG_TYPE''"
    by (simp add: post_bulk_preview_def memoryStorage_file_def readFile_def and_then_def
        get_Cons get_Nil)
  show "rp_invalidRows (fst (projr (bulk_preview accept_all Null empty_db blank_rows)))
       = [\<lparr>ir_row = 2, ir_reason = ''Empty row'',
           ir_data = [(''name'', Str []), (''price'', Str [])]\<rparr>]"
    by code_simp
  show "rp_invalidRows (fst (projr (bulk_preview_csv accept_all Null empty_db blank_rows)))
       = [\<lparr>ir_row = 2, ir_reason = ''Empty row'',
           ir_data = [(''name'', Str []), (''selling_price'', Str [])]\<rparr>]"
    by code_simp
qed

text \<open>
  \<^bold>\<open>C4\<close>, as amended. The first failing check gives the reason of a rejection, and the
  order of the checks depends on the route. The CSV preview checks for an empty row, then
  for the required fields, then for a duplicate: a row that misses a required field is
  rejected for that, duplicate or not. Save mode checks for an empty row, then for a
  duplicate in the store as it is when the row is reached, then for the required fields:
  a row that misses a required field and has the name or slug of a stored product fails
  as a duplicate. The spreadsheet preview checks for an empty row and then for a
  duplicate, and has no required-field check: any other row is not rejected.
\<close>

theorem check_order:
  "(bulk_preview_csv refuse user d rows = Inr (rep, d2) \<longrightarrow> i < length rows \<longrightarrow>
      (empty_row (rows ! i) \<longrightarrow>
         \<lparr>ir_row = i + 2, ir_reason = ''Empty row'', ir_data = rows ! i\<rparr>
           \<in> set (rp_invalidRows rep))
      \<and> (\<not> empty_row (rows ! i)
           \<and> (falsy (get (rows ! i) ''name'') \<or> falsy (get (rows ! i) ''parent_category'')) \<longrightarrow>
         \<lparr>ir_row = i + 2, ir_reason = ''Missing required fields (name, parent_category)'',
          ir_data = rows ! i\<rparr> \<in> set (rp_invalidRows rep))
      \<and> (\<not> empty_row (rows ! i)
           \<and> truthy (get (rows ! i) ''name'') \<and> truthy (get (rows ! i) ''parent_category'')
           \<and> duplicate_row (existing_names d2 rows) (existing_slugs d2 rows) (rows ! i) \<longrightarrow>
         \<lparr>ir_row = i + 2, ir_reason = ''Duplicate product name or slug'', ir_data = rows ! i\<rparr>
           \<in> set (rp_invalidRows rep)))
   \<and> (bulk_save refuse user d rows = Inr (saved, d3) \<longrightarrow> i < length rows \<longrightarrow>
      (empty_row (rows ! i) \<longrightarrow>
         sv_results saved ! i =
           \<lparr>sr_index = i, sr_status = ''failed'', sr_reason = Some ''Empty row'',
            sr_product = rows ! i\<rparr>)
      \<and> (\<not> empty_row (rows ! i)
           \<and> findOne_name_or_slug (store_after refuse user d (take i rows))
                (get (rows ! i) ''name'') (get (rows ! i) ''slug'') \<noteq> None \<longrightarrow>
         sv_results saved ! i =
           \<lparr>sr_index = i, sr_status = ''failed'',
            sr_reason = Some ''Duplicate product name or slug'', sr_product = rows ! i\<rparr>)
      \<and> (\<not> empty_row (rows ! i)
           \<and> findOne_name_or_slug (store_after refuse user d (take i rows))
                (get (rows ! i) ''name'') (get (rows ! i) ''slug'') = None
           \<and> (falsy (get (rows ! i) ''name'') \<or> falsy (get (rows ! i) ''parentCategory'')) \<longrightarrow>
         sv_results saved ! i =
           \<lparr>sr_index = i, sr_status = ''failed'', sr_reason = Some ''Missing required fields'',
            sr_product = rows ! i\<rparr>))
   \<and> (bulk_preview refuse user d rows = Inr (rep', d1) \<longrightarrow> i < length rows \<longrightarrow>
      (empty_row (remapRow (rows ! i)) \<longrightarrow>
         \<lparr>ir_row = i + 2, ir_reason = ''Empty row'', ir_data = remapRow (rows ! i)\<rparr>
           \<in> set (rp_invalidRows rep'))
      \<and> (\<not> empty_row (remapRow (rows ! i))
           \<and> duplicate_row (existing_names d1 rows) (existing_slugs d1 rows)
                (remapRow (rows ! i)) \<longrightarrow>
         \<lparr>ir_row = i + 2, ir_reason = ''Duplicate product name or slug'',
          ir_data = remapRow (rows ! i)\<rparr> \<in> set (rp_invalidRows rep'))
      \<and> (\<not> empty_row (remapRow (rows ! i))
           \<and> \<not> duplicate_row (existing_names d1 rows) (existing_slugs d1 rows)
                (remapRow (rows ! i)) \<longrightarrow>
         (\<forall>e \<in> set (rp_invalidRows rep'). ir_row e \<noteq> i + 2)))"
proof (intro conjI impI)
  assume run: "bulk_preview_csv refuse user d rows = Inr (rep, d2)" and i: "i < length rows"
  from bulk_preview_csv_report [OF run] obtain maps where
    bad: "rp_invalidRows rep =
       rejected (csv_row maps (existing_names d2 rows) (existing_slugs d2 rows)) 0 rows"
    by blast
  let ?body = "csv_row maps (existing_names d2 rows) (existing_slugs d2 rows)"
  note at = rejected_at [of i rows ?body, OF i, folded bad]
  {
    assume "empty_row (rows ! i)"
    then have "?body (rows ! i) = Reject ''Empty row''" by (simp add: csv_row_def)
    then show "\<lparr>ir_row = i + 2, ir_reason = ''Empty row'', ir_data = rows ! i\<rparr>
           \<in> set (rp_invalidRows rep)" by (rule at)
  }
  {
    assume "\<not> empty_row (rows ! i)
           \<and> (falsy (get (rows ! i) ''name'') \<or> falsy (get (rows ! i) ''parent_category''))"
    then have "?body (rows ! i) = Reject ''Missing required fields (name, parent_category)''"
      by (simp add: csv_row_def)
    then show "\<lparr>ir_row = i + 2, ir_reason = ''Missing required fields (name, parent_category)'',
          ir_data = rows ! i\<rparr> \<in> set (rp_invalidRows rep)" by (rule at)
  }
  {
    assume "\<not> empty_row (rows ! i)
           \<and> truthy (get (rows ! i) ''name'') \<and> truthy (get (rows ! i) ''parent_category'')
           \<and> duplicate_row (existing_names d2 rows) (existing_slugs d2 rows) (rows ! i)"
    then have "?body (rows ! i) = Reject ''Duplicate product name or slug''"
      by (simp add: csv_row_def falsy_def)
    then show "\<lparr>ir_row = i + 2, ir_reason = ''Duplicate product name or slug'', ir_data = rows ! i\<rparr>
           \<in> set (rp_invalidRows rep)" by (rule at)
  }
next
  assume run: "bulk_save refuse user d rows = Inr (saved, d3)" and i: "i < length rows"
  let ?before = "store_after refuse user d (take i rows)"
  note nth = bulk_save_nth [OF run i]
  {
    assume "empty_row (rows ! i)"
    then have "fst (save_row refuse user ?before (rows ! i)) = Inl ''Empty row''"
      by (simp add: save_row_def)
    with nth show "sv_results saved ! i =
           \<lparr>sr_index = i, sr_status = ''failed'', sr_reason = Some ''Empty row'',
            sr_product = rows ! i\<rparr>"
      by (simp add: save_entry_Inl populate_failed)
  }
  {
    assume "\<not> empty_row (rows ! i)
           \<and> findOne_name_or_slug ?before (get (rows ! i) ''name'') (get (rows ! i) ''slug'') \<noteq> None"
    then have "fst (save_row refuse user ?before (rows ! i)) = Inl ''Duplicate product name or slug''"
      by (simp add: save_row_def)
    with nth show "sv_results saved ! i =
           \<lparr>sr_index = i, sr_status = ''failed'',
            sr_reason = Some ''Duplicate product name or slug'', sr_product = rows ! i\<rparr>"
      by (simp add: save_entry_Inl populate_failed)
  }
  {
    assume "\<not> empty_row (rows ! i)
           \<and> findOne_name_or_slug ?before (get (rows ! i) ''name'') (get (rows ! i) ''slug'') = None
           \<and> (falsy (get (rows ! i) ''name'') \<or> falsy (get (rows ! i) ''parentCategory''))"
    then have "fst (save_row refuse user ?before (rows ! i)) = Inl ''Missing required fields''"
      by (simp add: save_row_def)
    with nth show "sv_results saved ! i =
           \<lparr>sr_index = i, sr_status = ''failed'', sr_reason = Some ''Missing required fields'',
            sr_product = rows ! i\<rparr>"
      by (simp add: save_entry_Inl populate_failed)
  }
next
  assume run: "bulk_preview refuse user d rows = Inr (rep', d1)" and i: "i < length rows"
  from bulk_preview_report [OF run] obtain maps where
    bad: "rp_invalidRows rep' =
       rejected (preview_row maps (existing_names d1 rows) (existing_slugs d1 rows)) 0
         (map remapRow rows)"
    by blast
  let ?body = "preview_row maps (existing_names d1 rows) (existing_slugs d1 rows)"
  from i have i': "i < length (map remapRow rows)" by simp
  from i have nth: "map remapRow rows ! i = remapRow (rows ! i)" by simp
  note at = rejected_at [of i "map remapRow rows" ?body, OF i', folded bad, unfolded nth]
  {
    assume "empty_row (remapRow (rows ! i))"
    then have "?body (remapRow (rows ! i)) = Reject ''Empty row''" by (simp add: preview_row_def)
    then show "\<lparr>ir_row = i + 2, ir_reason = ''Empty row'', ir_data = remapRow (rows ! i)\<rparr>
           \<in> set (rp_invalidRows rep')" by (rule at)
  }
  {
    assume "\<not> empty_row (remapRow (rows ! i))
           \<and> duplicate_row (existing_names d1 rows) (existing_slugs d1 rows) (remapRow (rows ! i))"
    then have "?body (remapRow (rows ! i)) = Reject ''Duplicate product name or slug''"
      by (simp add: preview_row_def)
    then show "\<lparr>ir_row = i + 2, ir_reason = ''Duplicate product name or slug'',
          ir_data = remapRow (rows ! i)\<rparr> \<in> set (rp_invalidRows rep')" by (rule at)
  }
  {
    assume a: "\<not> empty_row (remapRow (rows ! i))
           \<and> \<not> duplicate_row (existing_names d1 rows) (existing_slugs d1 rows)
                (remapRow (rows ! i))"
    show "\<forall>e \<in> set (rp_invalidRows rep'). ir_row e \<noteq> i + 2"
    proof
      fix e assume e: "e \<in> set (rp_invalidRows rep')"
      show "ir_row e \<noteq> i + 2"
      proof
        assume "ir_row e = i + 2"
        from rejected_row [OF e [unfolded bad] this]
        have "?body (remapRow (rows ! i)) = Reject (ir_reason e)" by (simp add: nth)
        with a show False by (simp add: preview_row_def)
      qed
    qed
  }
qed

theorem check_order_witness:
  "(\<exists>rep d2. bulk_preview_csv accept_all Null widget_db order_rows = Inr (rep, d2)
       \<and> \<lparr>ir_row = 2, ir_reason = ''Missing required fields (name, parent_category)'',
            ir_data = order_rows ! 0\<rparr> \<in> set (rp_invalidRows rep)
       \<and> \<lparr>ir_row = 3, ir_reason = ''Duplicate product name or slug'',
            ir_data = order_rows ! 1\<rparr> \<in> set (rp_invalidRows rep)
       \<and> \<lparr>ir_row = 4, ir_reason = ''Empty row'', ir_data = order_rows ! 2\<rparr>
            \<in> set (rp_invalidRows rep))
   \<and> (\<exists>saved d3. bulk_save accept_all Null widget_db order_rows = Inr (saved, d3)
       \<and> sv_results saved ! 0 =
            \<lparr>sr_index = 0, sr_status = ''failed'',
             sr_reason = Some ''Duplicate product name or slug'', sr_product = order_rows ! 0\<rparr>
       \<and> sv_results saved ! 2 =
            \<lparr>sr_index = 2, sr_status = ''failed'', sr_reason = Some ''Empty row'',
             sr_product = order_rows ! 2\<rparr>
       \<and> sv_results saved ! 3 =
            \<lparr>sr_index = 3, sr_status = ''failed'', sr_reason = Some ''Missing required fields'',
             sr_product = order_rows ! 3\<rparr>)
   \<and> (\<exists>rep d1. bulk_preview accept_all Null widget_db order_rows = Inr (rep, d1)
       \<and> \<lparr>ir_row = 2, ir_reason = ''Duplicate product name or slug'',
            ir_data = remapRow (order_rows ! 0)\<rparr> \<in> set (rp_invalidRows rep)
       \<and> \<lparr>ir_row = 4, ir_reason = ''Empty row'', ir_data = remapRow (order_rows ! 2)\<rparr>
            \<in> set (rp_invalidRows rep)
       \<and> \<not> (\<exists>e \<in> set (rp_invalidRows rep). ir_row e = 5))"
proof -
  have len: "0 < length order_rows" "1 < length order_rows" "2 < length order_rows"
    "3 < length order_rows"
    by (simp_all add: order_rows_def)
  have "case bulk_preview_csv accept_all Null widget_db order_rows of
          Inl msg \<Rightarrow> False
        | Inr (rep, d) \<Rightarrow>
            \<not> empty_row (order_rows ! 0) \<and> falsy (get (order_rows ! 0) ''parent_category'')
            \<and> \<not> empty_row (order_rows ! 1) \<and> truthy (get (order_rows ! 1) ''name'')
            \<and> truthy (get (order_rows ! 1) ''parent_category'')
            \<and> duplicate_row (existing_names d order_rows) (existing_slugs d order_rows)
                 (order_rows ! 1)
            \<and> empty_row (order_rows ! 2)"
    by code_simp
  then obtain rep d2 where
    csv: "bulk_preview_csv accept_all Null widget_db order_rows = Inr (rep, d2)"
    and csv0: "\<not> empty_row (order_rows ! 0)" "falsy (get (order_rows ! 0) ''parent_category'')"
    and csv1: "\<not> empty_row (order_rows ! 1)" "truthy (get (order_rows ! 1) ''name'')"
      "truthy (get (order_rows ! 1) ''parent_category'')"
      "duplicate_row (existing_names d2 order_rows) (existing_slugs d2 order_rows) (order_rows ! 1)"
    and csv2: "empty_row (order_rows ! 2)"
    by (auto split: sum.splits)
  note c = check_order [where refuse = accept_all and user = Null and d = widget_db
      and rows = order_rows and rep = rep and ?d2.0 = d2]
  from c [where i = 0] csv len(1) csv0
  have "\<lparr>ir_row = 0 + 2, ir_reason = ''Missing required fields (name, parent_category)'',
          ir_data = order_rows ! 0\<rparr> \<in> set (rp_invalidRows rep)" by blast
  moreover from c [where i = 1] csv len(2) csv1
  have "\<lparr>ir_row = 1 + 2, ir_reason = ''Duplicate product name or slug'',
          ir_data = order_rows ! 1\<rparr> \<in> set (rp_invalidRows rep)" by blast
  moreover from c [where i = 2] csv len(3) csv2
  have "\<lparr>ir_row = 2 + 2, ir_reason = ''Empty row'', ir_data = order_rows ! 2\<rparr>
          \<in> set (rp_invalidRows rep)" by blast
  ultimately have c1: "\<exists>rep d2. bulk_preview_csv accept_all Null widget_db order_rows = Inr (rep, d2)
       \<and> \<lparr>ir_row = 2, ir_reason = ''Missing required fields (name, parent_category)'',
            ir_data = order_rows ! 0\<rparr> \<in> set (rp_invalidRows rep)
       \<and> \<lparr>ir_row = 3, ir_reason = ''Duplicate product name or slug'',
            ir_data = order_rows ! 1\<rparr> \<in> set (rp_invalidRows rep)
       \<and> \<lparr>ir_row = 4, ir_reason = ''Empty row'', ir_data = order_rows ! 2\<rparr>
            \<in> set (rp_invalidRows rep)"
    using csv
    by - (rule exI [where x = rep], rule exI [where x = d2],
        simp del: add_2_eq_Suc add_2_eq_Suc')
  have "case bulk_save accept_all Null widget_db order_rows of
          Inl msg \<Rightarrow> False
        | Inr (saved, d) \<Rightarrow>
            \<not> empty_row (order_rows ! 0)
            \<and> findOne_name_or_slug (store_after accept_all Null widget_db (take 0 order_rows))
                 (get (order_rows ! 0) ''name'') (get (order_rows ! 0) ''slug'') \<noteq> None
            \<and> falsy (get (order_rows ! 0) ''parentCategory'')
            \<and> empty_row (order_rows ! 2)
            \<and> \<not> empty_row (order_rows ! 3)
            \<and> findOne_name_or_slug (store_after accept_all Null widget_db (take 3 order_rows))
                 (get (order_rows ! 3) ''name'') (get (order_rows ! 3) ''slug'') = None
            \<and> falsy (get (order_rows ! 3) ''parentCategory'')"
    by code_simp
  then obtain saved d3 where
    save: "bulk_save accept_all Null widget_db order_rows = Inr (saved, d3)"
    and save0: "\<not> empty_row (order_rows ! 0)"
      "findOne_name_or_slug (store_after accept_all Null widget_db (take 0 order_rows))
         (get (order_rows ! 0) ''name'') (get (order_rows ! 0) ''slug'') \<noteq> None"
    and save2: "empty_row (order_rows ! 2)"
    and save3: "\<not> empty_row (order_rows ! 3)"
      "findOne_name_or_slug (store_after accept_all Null widget_db (take 3 order_rows))
         (get (order_rows ! 3) ''name'') (get (order_rows ! 3) ''slug'') = None"
      "falsy (get (order_rows ! 3) ''parentCategory'')"
    by (auto split: sum.splits)
  note s = check_order [where refuse = accept_all and user = Null and d = widget_db
      and rows = order_rows and saved = saved and ?d3.0 = d3]
  from s [where i = 0] save len(1) save0
  have "sv_results saved ! 0 =
            \<lparr>sr_index = 0, sr_status = ''failed'',
             sr_reason = Some ''Duplicate product name or slug'', sr_product = order_rows ! 0\<rparr>"
    by blast
  moreover from s [where i = 2] save len(3) save2
  have "sv_results saved ! 2 =
            \<lparr>sr_index = 2, sr_status = ''failed'', sr_reason = Some ''Empty row'',
             sr_product = order_rows ! 2\<rparr>"
    by blast
  moreover from s [where i = 3] save len(4) save3
  have "sv_results saved ! 3 =
            \<lparr>sr_index = 3, sr_status = ''failed'', sr_reason = Some ''Missing required fields'',
             sr_product = order_rows ! 3\<rparr>"
    by blast
  ultimately have c2: "\<exists>saved d3. bulk_save accept_all Null widget_db order_rows = Inr (saved, d3)
       \<and> sv_results saved ! 0 =
            \<lparr>sr_index = 0, sr_status = ''failed'',
             sr_reason = Some ''Duplicate product name or slug'', sr_product = order_rows ! 0\<rparr>
       \<and> sv_results saved ! 2 =
            \<lparr>sr_index = 2, sr_status = ''failed'', sr_reason = Some ''Empty row'',
             sr_product = order_rows ! 2\<rparr>
       \<and> sv_results saved ! 3 =
            \<lparr>sr_index = 3, sr_status = ''failed'', sr_reason = Some ''Missing required fields'',
             sr_product = order_rows ! 3\<rparr>"
    using save by - (rule exI [where x = saved], rule exI [where x = d3], simp)
  have "case bulk_preview accept_all Null widget_db order_rows of
          Inl msg \<Rightarrow> False
        | Inr (rep, d) \<Rightarrow>
            \<not> empty_row (remapRow (order_rows ! 0))
            \<and> duplicate_row (existing_names d order_rows) (existing_slugs d order_rows)
                 (remapRow (order_rows ! 0))
            \<and> empty_row (remapRow (order_rows ! 2))
            \<and> \<not> empty_row (remapRow (order_rows ! 3))
            \<and> \<not> duplicate_row (existing_names d order_rows) (existing_slugs d order_rows)
                 (remapRow (order_rows ! 3))"
    by code_simp
  then obtain rep' d1 where
    xls: "bulk_preview accept_all Null widget_db order_rows = Inr (rep', d1)"
    and xls0: "\<not> empty_row (remapRow (order_rows ! 0))"
      "duplicate_row (existing_names d1 order_rows) (existing_slugs d1 order_rows)
         (remapRow (order_rows ! 0))"
    and xls2: "empty_row (remapRow (order_rows ! 2))"
    and xls3: "\<not> empty_row (remapRow (order_rows ! 3))"
      "\<not> duplicate_row (existing_names d1 order_rows) (existing_slugs d1 order_rows)
         (remapRow (order_rows ! 3))"
    by (auto split: sum.splits)
  note x = check_order [where refuse = accept_all and user = Null and d = widget_db
      and rows = order_rows and rep' = rep' and ?d1.0 = d1]
  from x [where i = 0] xls len(1) xls0
  have "\<lparr>ir_row = 0 + 2, ir_reason = ''Duplicate product name or slug'',
          ir_data = remapRow (order_rows ! 0)\<rparr> \<in> set (rp_invalidRows rep')" by blast
  moreover from x [where i = 2] xls len(3) xls2
  have "\<lparr>ir_row = 2 + 2, ir_reason = ''Empty row'', ir_data = remapRow (order_rows ! 2)\<rparr>
          \<in> set (rp_invalidRows rep')" by blast
  moreover from x [where i = 3] xls len(4) xls3
  have "\<forall>e \<in> set (rp_invalidRows rep'). ir_row e \<noteq> 3 + 2" by blast
  then have "\<not> (\<exists>e \<in> set (rp_invalidRows rep'). ir_row e = 5)" by auto
  ultimately have c3: "\<exists>rep d1. bulk_preview accept_all Null widget_db order_rows = Inr (rep, d1)
       \<and> \<lparr>ir_row = 2, ir_reason = ''Duplicate product name or slug'',
            ir_data = remapRow (order_rows ! 0)\<rparr> \<in> set (rp_invalidRows rep)
       \<and> \<lparr>ir_row = 4, ir_reason = ''Empty row'', ir_data = remapRow (order_rows ! 2)\<rparr>
            \<in> set (rp_invalidRows rep)
       \<and> \<not> (\<exists>e \<in> set (rp_invalidRows rep). ir_row e = 5)"
    using xls
    by - (rule exI [where x = rep'], rule exI [where x = d1],
        simp del: add_2_eq_Suc add_2_eq_Suc')
  show ?thesis by (intro conjI c1 c2 c3)
qed

text \<open>
  The claim as stated fails in save mode: a product without a parent category whose name
  is the name of a stored product is reported as a duplicate, not for the missing field.
\<close>

theorem check_order_counterexample:
  "falsy (get [(''name'', Str ''Widget'')] ''parentCategory'')
   \<and> map_sum id fst (bulk_save accept_all Null widget_db [[(''name'', Str ''Widget'')]]) =
       Inr \<lparr>sv_total = 1, sv_success = 0, sv_failed = 1,
            sv_results =
              [\<lparr>sr_index = 0, sr_status = ''failed'',
                sr_reason = Some ''Duplicate product name or slug'',
                sr_product = [(''name'', Str ''Widget'')]\<rparr>]\<rparr>"
  by code_simp

text \<open>
  \<^bold>\<open>C5\<close>, as amended. In save mode, once a row with a non-blank name has been saved,
  every later row of the batch with the same name fails as a duplicate name-or-slug: the
  lookup of each row sees the products saved before it. The two previews look the batch
  up in the stored catalog only: a row whose name and slug belong to no stored product is
  never rejected as a duplicate, whatever the other rows of the batch are.
\<close>

theorem repeated_name:
  "(bulk_save refuse user d rows = Inr (saved, d3) \<longrightarrow> i < j \<longrightarrow> j < length rows \<longrightarrow>
      get (rows ! i) ''name'' = Str n \<longrightarrow> get (rows ! j) ''name'' = Str n \<longrightarrow> n \<noteq> [] \<longrightarrow>
      sr_status (sv_results saved ! i) = ''success'' \<longrightarrow>
      sv_results saved ! j =
        \<lparr>sr_index = j, sr_status = ''failed'', sr_reason = Some ''Duplicate product name or slug'',
         sr_product = rows ! j\<rparr>)
   \<and> (bulk_preview_csv refuse user d rows = Inr (rep, d2) \<longrightarrow> i < length rows \<longrightarrow>
      (\<forall>p \<in> set (collections d ''Product'').
          get p ''name'' \<noteq> get (rows ! i) ''name'' \<and> get p ''slug'' \<noteq> get (rows ! i) ''slug'') \<longrightarrow>
      (\<forall>e \<in> set (rp_invalidRows rep).
          ir_row e = i + 2 \<longrightarrow> ir_reason e \<noteq> ''Duplicate product name or slug''))
   \<and> (bulk_preview refuse user d rows = Inr (rep', d1) \<longrightarrow> i < length rows \<longrightarrow>
      (\<forall>p \<in> set (collections d ''Product'').
          get p ''name'' \<noteq> get (remapRow (rows ! i)) ''name''
          \<and> get p ''slug'' \<noteq> get (remapRow (rows ! i)) ''slug'') \<longrightarrow>
      (\<forall>e \<in> set (rp_invalidRows rep').
          ir_row e = i + 2 \<longrightarrow> ir_reason e \<noteq> ''Duplicate product name or slug''))"
proof (intro conjI impI ballI)
  assume run: "bulk_save refuse user d rows = Inr (saved, d3)"
    and ij: "i < j" "j < length rows"
    and names: "get (rows ! i) ''name'' = Str n" "get (rows ! j) ''name'' = Str n" "n \<noteq> []"
    and ok: "sr_status (sv_results saved ! i) = ''success''"
  from ij have i: "i < length rows" by simp
  from bulk_save_nth [OF run i] ok
  have "sr_status (save_entry i (rows ! i)
          (fst (save_row refuse user (store_after refuse user d (take i rows)) (rows ! i))))
        = ''success''"
    by (simp add: populate_result_status)
  then obtain doc where
    "fst (save_row refuse user (store_after refuse user d (take i rows)) (rows ! i)) = Inr doc"
    by (blast dest: save_entry_success)
  from saved_then_duplicate [OF ij names this] bulk_save_nth [OF run ij(2)]
  show "sv_results saved ! j =
        \<lparr>sr_index = j, sr_status = ''failed'', sr_reason = Some ''Duplicate product name or slug'',
         sr_product = rows ! j\<rparr>"
    by (simp add: save_entry_Inl populate_failed)
next
  fix e
  assume run: "bulk_preview_csv refuse user d rows = Inr (rep, d2)" and i: "i < length rows"
    and fresh: "\<forall>p \<in> set (collections d ''Product'').
          get p ''name'' \<noteq> get (rows ! i) ''name'' \<and> get p ''slug'' \<noteq> get (rows ! i) ''slug''"
    and e: "e \<in> set (rp_invalidRows rep)" "ir_row e = i + 2"
  from bulk_preview_csv_report [OF run] obtain maps where
    res: "csv_resolve refuse user d rows = Inr (d2, maps)"
    and bad: "rp_invalidRows rep =
       rejected (csv_row maps (existing_names d2 rows) (existing_slugs d2 rows)) 0 rows"
    by blast
  show "ir_reason e \<noteq> ''Duplicate product name or slug''"
  proof
    assume "ir_reason e = ''Duplicate product name or slug''"
    with rejected_row [OF e(1) [unfolded bad] e(2)]
    have "duplicate_row (existing_names d2 rows) (existing_slugs d2 rows) (rows ! i)"
      by (auto dest: csv_row_duplicate)
    from duplicate_row_stored [OF this] csv_resolve_products [OF res] fresh
    show False by auto
  qed
next
  fix e
  assume run: "bulk_preview refuse user d rows = Inr (rep', d1)" and i: "i < length rows"
    and fresh: "\<forall>p \<in> set (collections d ''Product'').
          get p ''name'' \<noteq> get (remapRow (rows ! i)) ''name''
          \<and> get p ''slug'' \<noteq> get (remapRow (rows ! i)) ''slug''"
    and e: "e \<in> set (rp_invalidRows rep')" "ir_row e = i + 2"
  from bulk_preview_report [OF run] obtain maps where
    res: "excel_resolve refuse user d (map remapRow rows) = Inr (d1, maps)"
    and bad: "rp_invalidRows rep' =
       rejected (preview_row maps (existing_names d1 rows) (existing_slugs d1 rows)) 0
         (map remapRow rows)"
    by blast
  show "ir_reason e \<noteq> ''Duplicate product name or slug''"
  proof
    assume "ir_reason e = ''Duplicate product name or slug''"
    with rejected_row [OF e(1) [unfolded bad] e(2)] i
    have "duplicate_row (existing_names d1 rows) (existing_slugs d1 rows) (remapRow (rows ! i))"
      by (auto dest: preview_row_duplicate)
    from duplicate_row_stored [OF this] excel_resolve_products [OF res] fresh
    show False by auto
  qed
qed

theorem repeated_name_witness:
  "(\<exists>saved d3. bulk_save accept_all Null widget_db twin_rows = Inr (saved, d3)
       \<and> sr_status (sv_results saved ! 0) = ''success''
       \<and> sv_results saved ! 1 =
            \<lparr>sr_index = 1, sr_status = ''failed'',
             sr_reason = Some ''Duplicate product name or slug'', sr_product = twin_rows ! 1\<rparr>)
   \<and> (\<exists>rep d2. bulk_preview_csv accept_all Null widget_db twin_rows = Inr (rep, d2)
       \<and> \<not> (\<exists>e \<in> set (rp_invalidRows rep).
              ir_row e = 2 \<and> ir_reason e = ''Duplicate product name or slug''))
   \<and> (\<exists>rep d1. bulk_preview accept_all Null widget_db twin_rows = Inr (rep, d1)
       \<and> \<not> (\<exists>e \<in> set (rp_invalidRows rep).
              ir_row e = 2 \<and> ir_reason e = ''Duplicate product name or slug''))"
proof -
  have len: "(0::nat) < 1" "1 < length twin_rows" "0 < length twin_rows"
    by (simp_all add: twin_rows_def)
  have names: "get (twin_rows ! 0) ''name'' = Str ''Gizmo''"
    "get (twin_rows ! 1) ''name'' = Str ''Gizmo''" "''Gizmo'' \<noteq> []"
    by (simp_all add: twin_rows_def get_Cons)
  have fresh: "\<forall>p \<in> set (collections widget_db ''Product'').
      get p ''name'' \<noteq> get (twin_rows ! 0) ''name'' \<and> get p ''slug'' \<noteq> get (twin_rows ! 0) ''slug''"
    by (simp add: widget_db_def twin_rows_def get_Cons get_Nil)
  have fresh': "\<forall>p \<in> set (collections widget_db ''Product'').
      get p ''name'' \<noteq> get (remapRow (twin_rows ! 0)) ''name''
      \<and> get p ''slug'' \<noteq> get (remapRow (twin_rows ! 0)) ''slug''"
    by code_simp
  have "case bulk_save accept_all Null widget_db twin_rows of
          Inl msg \<Rightarrow> False
        | Inr (saved, d) \<Rightarrow> sr_status (sv_results saved ! 0) = ''success''"
    by code_simp
  then obtain saved d3 where
    save: "bulk_save accept_all Null widget_db twin_rows = Inr (saved, d3)"
    and ok: "sr_status (sv_results saved ! 0) = ''success''"
    by (auto split: sum.splits)
  have "case bulk_preview_csv accept_all Null widget_db twin_rows of
          Inl msg \<Rightarrow> False | Inr (rep, d) \<Rightarrow> True"
    by code_simp
  then obtain rep d2 where
    csv: "bulk_preview_csv accept_all Null widget_db twin_rows = Inr (rep, d2)"
    by (auto split: sum.splits)
  have "case bulk_preview accept_all Null widget_db twin_rows of
          Inl msg \<Rightarrow> False | Inr (rep, d) \<Rightarrow> True"
    by code_simp
  then obtain rep' d1 where
    xls: "bulk_preview accept_all Null widget_db twin_rows = Inr (rep', d1)"
    by (auto split: sum.splits)
  note all = repeated_name [where refuse = accept_all and user = Null and d = widget_db
      and rows = twin_rows and saved = saved and ?d3.0 = d3 and rep = rep and ?d2.0 = d2
      and rep' = rep' and ?d1.0 = d1 and n = "''Gizmo''"]
  from all [where i = 0 and j = 1] save len(1,2) names ok
  have 1: "sv_results saved ! 1 =
            \<lparr>sr_index = 1, sr_status = ''failed'',
             sr_reason = Some ''Duplicate product name or slug'', sr_product = twin_rows ! 1\<rparr>"
    by blast
  from all [where i = 0 and j = 1] csv len(3) fresh
  have "\<forall>e \<in> set (rp_invalidRows rep).
          ir_row e = 0 + 2 \<longrightarrow> ir_reason e \<noteq> ''Duplicate product name or slug''"
    by blast
  then have 2: "\<not> (\<exists>e \<in> set (rp_invalidRows rep).
              ir_row e = 2 \<and> ir_reason e = ''Duplicate product name or slug'')"
    by auto
  from all [where i = 0 and j = 1] xls len(3) fresh'
  have "\<forall>e \<in> set (rp_invalidRows rep').
          ir_row e = 0 + 2 \<longrightarrow> ir_reason e \<noteq> ''Duplicate product name or slug''"
    by blast
  then have 3: "\<not> (\<exists>e \<in> set (rp_invalidRows rep').
              ir_row e = 2 \<and> ir_reason e = ''Duplicate product name or slug'')"
    by auto
  have c1: "\<exists>saved d3. bulk_save accept_all Null widget_db twin_rows = Inr (saved, d3)
       \<and> sr_status (sv_results saved ! 0) = ''success''
       \<and> sv_results saved ! 1 =
            \<lparr>sr_index = 1, sr_status = ''failed'',
             sr_reason = Some ''Duplicate product name or slug'', sr_product = twin_rows ! 1\<rparr>"
    using save ok 1 by - (rule exI [where x = saved], rule exI [where x = d3], simp)
  have c2: "\<exists>rep d2. bulk_preview_csv accept_all Null widget_db twin_rows = Inr (rep, d2)
       \<and> \<not> (\<exists>e \<in> set (rp_invalidRows rep).
              ir_row e = 2 \<and> ir_reason e = ''Duplicate product name or slug'')"
    using csv 2 by - (rule exI [where x = rep], rule exI [where x = d2], simp)
  have c3: "\<exists>rep d1. bulk_preview accept_all Null widget_db twin_rows = Inr (rep, d1)
       \<and> \<not> (\<exists>e \<in> set (rp_invalidRows rep).
              ir_row e = 2 \<and> ir_reason e = ''Duplicate product name or slug'')"
    using xls 3 by - (rule exI [where x = rep'], rule exI [where x = d1], simp)
  show ?thesis by (intro conjI c1 c2 c3)
qed

text \<open>
  The claim as stated fails in both previews: of two rows with the same new name, the
  second is accepted like the first.
\<close>

theorem repeated_name_counterexample:
  "map (\<lambda>r. get r ''name'') twin_rows = [Str ''Gizmo'', Str ''Gizmo'']
   \<and> \<not> isl (bulk_preview_csv accept_all Null empty_db twin_rows)
   \<and> rp_invalidRows (fst (projr (bulk_preview_csv accept_all Null empty_db twin_rows))) = []
   \<and> rp_valid (fst (projr (bulk_preview_csv accept_all Null empty_db twin_rows))) = 2
   \<and> \<not> isl (bulk_preview accept_all Null empty_db twin_rows)
   \<and> rp_invalidRows (fst (projr (bulk_preview accept_all Null empty_db twin_rows))) = []
   \<and> rp_valid (fst (projr (bulk_preview accept_all Null empty_db twin_rows))) = 2"
  by code_simp

text \<open>
  \<^bold>\<open>C6.\<close> In every import path the stock status of a produced candidate is one of
  \<^verbatim>\<open>"Available Product"\<close>, \<^verbatim>\<open>"Out of Stock"\<close> and \<^verbatim>\<open>"PreOrder"\<close>, and it is
  \<^verbatim>\<open>"Available Product"\<close> when the row's own value is absent or not one of the three.
  The first three conjuncts are about the loop bodies of the three routes, the last three
  about every candidate of a report.
\<close>

theorem stockStatus_canonical:
  "(preview_row maps en es r = Accept p \<longrightarrow>
      get p ''stockStatus'' \<in> set allowedStockStatus
      \<and> (get r ''stockStatus'' \<notin> set allowedStockStatus
           \<longrightarrow> get p ''stockStatus'' = Str ''Available Product''))
   \<and> (csv_row maps en es r = Accept q \<longrightarrow>
      get q ''stockStatus'' \<in> set allowedStockStatus
      \<and> (get r ''stockStatus'' \<notin> set allowedStockStatus
           \<longrightarrow> get q ''stockStatus'' = Str ''Available Product''))
   \<and> (save_row refuse user d r = (Inr s, d') \<longrightarrow>
      get s ''stockStatus'' \<in> set allowedStockStatus
      \<and> (get r ''stockStatus'' \<notin> set allowedStockStatus
           \<longrightarrow> get s ''stockStatus'' = Str ''Available Product''))
   \<and> (bulk_preview refuse user d rows = Inr (rep, d1) \<longrightarrow>
      (\<forall>c \<in> set (rp_previewProducts rep). get c ''stockStatus'' \<in> set allowedStockStatus))
   \<and> (bulk_preview_csv refuse user d rows = Inr (rep', d2) \<longrightarrow>
      (\<forall>c \<in> set (rp_previewProducts rep'). get c ''stockStatus'' \<in> set allowedStockStatus))
   \<and> (bulk_save refuse user d rows = Inr (saved, d3) \<longrightarrow>
      (\<forall>e \<in> set (sv_results saved).
          sr_status e = ''success'' \<longrightarrow> get (sr_product e) ''stockStatus'' \<in> set allowedStockStatus))"
proof (intro conjI impI ballI)
  assume "preview_row maps en es r = Accept p"
  then show "get p ''stockStatus'' \<in> set allowedStockStatus"
    by (simp only: preview_row_stockStatus canon_allowed)
next
  assume "preview_row maps en es r = Accept p" "get r ''stockStatus'' \<notin> set allowedStockStatus"
  then show "get p ''stockStatus'' = Str ''Available Product''"
    by (simp add: preview_row_stockStatus canon_default)
next
  assume "csv_row maps en es r = Accept q"
  then show "get q ''stockStatus'' \<in> set allowedStockStatus"
    by (simp only: csv_row_stockStatus canon_allowed)
next
  assume "csv_row maps en es r = Accept q" "get r ''stockStatus'' \<notin> set allowedStockStatus"
  then show "get q ''stockStatus'' = Str ''Available Product''"
    by (simp add: csv_row_stockStatus canon_default)
next
  assume "save_row refuse user d r = (Inr s, d')"
  then show "get s ''stockStatus'' \<in> set allowedStockStatus"
    by (simp only: save_row_stockStatus canon_allowed)
next
  assume "save_row refuse user d r = (Inr s, d')" "get r ''stockStatus'' \<notin> set allowedStockStatus"
  then show "get s ''stockStatus'' = Str ''Available Product''"
    by (simp add: save_row_stockStatus canon_default)
next
  fix c
  assume run: "bulk_preview refuse user d rows = Inr (rep, d1)"
    and c: "c \<in> set (rp_previewProducts rep)"
  from bulk_preview_Inr [OF run] obtain m en' es' pv bad where
    loop: "preview_loop (preview_row m en' es') 0 (map remapRow rows) ([], []) = Inr (pv, bad)"
    and rep: "rp_previewProducts rep = map (excel_populate d1) pv"
    by auto
  from preview_loop_Inr [OF loop] have pv: "pv = accepted (preview_row m en' es') (map remapRow rows)"
    by simp
  from c rep obtain c' where c': "c' \<in> set pv" "c = excel_populate d1 c'" by auto
  from accepted_mem c'(1) pv obtain r' where "preview_row m en' es' r' = Accept c'" by blast
  then have "get c' ''stockStatus'' \<in> set allowedStockStatus"
    by (simp only: preview_row_stockStatus canon_allowed)
  with c'(2) show "get c ''stockStatus'' \<in> set allowedStockStatus"
    by (simp add: excel_populate_get)
next
  fix c
  assume run: "bulk_preview_csv refuse user d rows = Inr (rep', d2)"
    and c: "c \<in> set (rp_previewProducts rep')"
  from bulk_preview_csv_Inr [OF run] obtain m en' es' pv bad where
    loop: "preview_loop (csv_row m en' es') 0 rows ([], []) = Inr (pv, bad)"
    and rep: "rp_previewProducts rep' = map (csv_populate d2) pv"
    by auto
  from preview_loop_Inr [OF loop] have pv: "pv = accepted (csv_row m en' es') rows"
    by simp
  from c rep obtain c' where c': "c' \<in> set pv" "c = csv_populate d2 c'" by auto
  from accepted_mem c'(1) pv obtain r' where "csv_row m en' es' r' = Accept c'" by blast
  then have "get c' ''stockStatus'' \<in> set allowedStockStatus"
    by (simp only: csv_row_stockStatus canon_allowed)
  with c'(2) show "get c ''stockStatus'' \<in> set allowedStockStatus"
    by (simp add: csv_populate_get)
next
  fix e
  assume run: "bulk_save refuse user d rows = Inr (saved, d3)"
    and e: "e \<in> set (sv_results saved)" and ok: "sr_status e = ''success''"
  from bulk_save_Inr [OF run] have
    "sv_results saved = map (populate_result d3) (save_entries refuse user 0 d rows)" by simp
  with e obtain e' where e': "e' \<in> set (save_entries refuse user 0 d rows)"
    "e = populate_result d3 e'" by auto
  with ok have "sr_status e' = ''success''" by (simp add: populate_result_status)
  from save_entries_success [OF e'(1) this] obtain p' d4 d5 where
    "save_row refuse user d4 p' = (Inr (sr_product e'), d5)" by blast
  then have "get (sr_product e') ''stockStatus'' \<in> set allowedStockStatus"
    by (simp only: save_row_stockStatus canon_allowed)
  with e'(2) show "get (sr_product e) ''stockStatus'' \<in> set allowedStockStatus"
    by (simp add: populate_result_get)
qed

theorem stockStatus_canonical_witness:
  "(\<exists>p. preview_row no_maps [] [] backordered_row = Accept p
         \<and> get p ''stockStatus'' = Str ''Available Product'')
   \<and> (\<exists>q. csv_row no_maps [] [] backordered_row = Accept q
         \<and> get q ''stockStatus'' = Str ''Available Product'')
   \<and> (\<exists>s d'. save_row accept_all Null empty_db backordered_row = (Inr s, d')
         \<and> get s ''stockStatus'' = Str ''Available Product'')
   \<and> (\<exists>rep d1. bulk_preview accept_all Null empty_db [backordered_row] = Inr (rep, d1)
         \<and> length (rp_previewProducts rep) = 1
         \<and> list_all (\<lambda>c. get c ''stockStatus'' \<in> set allowedStockStatus) (rp_previewProducts rep))
   \<and> (\<exists>rep d2. bulk_preview_csv accept_all Null empty_db [backordered_row] = Inr (rep, d2)
         \<and> length (rp_previewProducts rep) = 1
         \<and> list_all (\<lambda>c. get c ''stockStatus'' \<in> set allowedStockStatus) (rp_previewProducts rep))
   \<and> (\<exists>saved d3. bulk_save accept_all Null empty_db [backordered_row] = Inr (saved, d3)
         \<and> map sr_status (sv_results saved) = [''success'']
         \<and> list_all (\<lambda>e. get (sr_product e) ''stockStatus'' \<in> set allowedStockStatus)
              (sv_results saved))"
proof -
  have unknown: "get backordered_row ''stockStatus'' \<notin> set allowedStockStatus"
    by (simp add: backordered_row_def get_Cons allowedStockStatus_def)
  obtain p where p: "preview_row no_maps [] [] backordered_row = Accept p"
    by (auto simp: preview_row_def empty_row_def js_values_def duplicate_row_def
        backordered_row_def)
  obtain q where q: "csv_row no_maps [] [] backordered_row = Accept q"
    by (auto simp: csv_row_def empty_row_def js_values_def duplicate_row_def backordered_row_def
        falsy_def get_Cons get_Nil slug_or_generate_def js_or_def)
  obtain s d' where s: "save_row accept_all Null empty_db backordered_row = (Inr s, d')"
    by (auto simp: save_row_def empty_row_def js_values_def backordered_row_def
        findOne_name_or_slug_def empty_db_def falsy_def get_Cons get_Nil slug_or_generate_def
        js_or_def db_create_def accept_all_def Let_def product_doc_def)
  have "case bulk_preview accept_all Null empty_db [backordered_row] of
          Inl msg \<Rightarrow> False | Inr (rep, d) \<Rightarrow> length (rp_previewProducts rep) = 1"
    by code_simp
  then obtain rep d1 where
    rep: "bulk_preview accept_all Null empty_db [backordered_row] = Inr (rep, d1)"
      "length (rp_previewProducts rep) = 1"
    by (auto split: sum.splits)
  have "case bulk_preview_csv accept_all Null empty_db [backordered_row] of
          Inl msg \<Rightarrow> False | Inr (rep, d) \<Rightarrow> length (rp_previewProducts rep) = 1"
    by code_simp
  then obtain rep' d2 where
    rep': "bulk_preview_csv accept_all Null empty_db [backordered_row] = Inr (rep', d2)"
      "length (rp_previewProducts rep') = 1"
    by (auto split: sum.splits)
  have "case bulk_save accept_all Null empty_db [backordered_row] of
          Inl msg \<Rightarrow> False | Inr (saved, d) \<Rightarrow> map sr_status (sv_results saved) = [''success'']"
    by code_simp
  then obtain saved d3 where
    saved: "bulk_save accept_all Null empty_db [backordered_row] = Inr (saved, d3)"
      "map sr_status (sv_results saved) = [''success'']"
    by (auto split: sum.splits)
  note all = stockStatus_canonical [where maps = no_maps and en = "[]" and es = "[]"
      and r = backordered_row and p = p and q = q and refuse = accept_all and user = Null
      and d = empty_db and s = s and d' = d' and rows = "[backordered_row]" and rep = rep
      and ?d1.0 = d1 and rep' = rep' and ?d2.0 = d2 and saved = saved and ?d3.0 = d3]
  from all p unknown have 1: "get p ''stockStatus'' = Str ''Available Product''" by blast
  from all q unknown have 2: "get q ''stockStatus'' = Str ''Available Product''" by blast
  from all s unknown have 3: "get s ''stockStatus'' = Str ''Available Product''" by blast
  from all rep(1) have 4:
    "list_all (\<lambda>c. get c ''stockStatus'' \<in> set allowedStockStatus) (rp_previewProducts rep)"
    unfolding list_all_iff by blast
  from all rep'(1) have 5:
    "list_all (\<lambda>c. get c ''stockStatus'' \<in> set allowedStockStatus) (rp_previewProducts rep')"
    unfolding list_all_iff by blast
  from saved(2) have ok: "\<And>e. e \<in> set (sv_results saved) \<Longrightarrow> sr_status e = ''success''"
    by (cases "sv_results saved") auto
  from all saved(1) ok have 6:
    "list_all (\<lambda>e. get (sr_product e) ''stockStatus'' \<in> set allowedStockStatus) (sv_results saved)"
    unfolding list_all_iff by blast
  from p 1 have c1: "\<exists>p. preview_row no_maps [] [] backordered_row = Accept p
      \<and> get p ''stockStatus'' = Str ''Available Product''" by blast
  from q 2 have c2: "\<exists>q. csv_row no_maps [] [] backordered_row = Accept q
      \<and> get q ''stockStatus'' = Str ''Available Product''" by blast
  from s 3 have c3: "\<exists>s d'. save_row accept_all Null empty_db backordered_row = (Inr s, d')
      \<and> get s ''stockStatus'' = Str ''Available Product''" by blast
  from rep 4 have c4: "\<exists>rep d1. bulk_preview accept_all Null empty_db [backordered_row] = Inr (rep, d1)
      \<and> length (rp_previewProducts rep) = 1
      \<and> list_all (\<lambda>c. get c ''stockStatus'' \<in> set allowedStockStatus) (rp_previewProducts rep)"
    by blast
  from rep' 5 have c5: "\<exists>rep d2. bulk_preview_csv accept_all Null empty_db [backordered_row] = Inr (rep, d2)
      \<and> length (rp_previewProducts rep) = 1
      \<and> list_all (\<lambda>c. get c ''stockStatus'' \<in> set allowedStockStatus) (rp_previewProducts rep)"
    by blast
  from saved 6 have c6: "\<exists>saved d3. bulk_save accept_all Null empty_db [backordered_row] = Inr (saved, d3)
      \<and> map sr_status (sv_results saved) = [''success'']
      \<and> list_all (\<lambda>e. get (sr_product e) ''stockStatus'' \<in> set allowedStockStatus)
           (sv_results saved)"
    by - (rule exI [where x = saved], rule exI [where x = d3], simp)
  show ?thesis by (intro conjI c1 c2 c3 c4 c5 c6)
qed

text \<open>
  \<^bold>\<open>C7\<close>, as amended. When the resolution phase completes, every kind that the path
  resolves has done its work for the rows: parent category, subcategory, brand, tax and
  unit in the CSV preview, and category, brand, subcategory, tax, unit, warranty, size
  and volume on the remapped rows of the spreadsheet preview. The map of the kind has an
  entry for the trimmed, lower-cased form of every name of the kind in the rows; the
  entry is the identifier of a stored entity of the kind with that trimmed, lower-cased
  name, an entity that was found when the trimmed name is stored as it is; and all the
  cells with the same trimmed, lower-cased form are looked up to that one identifier.
  The CSV preview leaves every other collection as it found it.
\<close>

theorem dimensions_resolved:
  "(csv_resolve refuse user d rows = Inr (d', maps) \<longrightarrow>
       kind_resolved d d' rows ''parent_category'' (parentCategoryMap maps) ''Category''
     \<and> kind_resolved d d' rows ''category'' (subCategoryMap maps) ''SubCategory''
     \<and> kind_resolved d d' rows ''brand'' (brandMap maps) ''Brand''
     \<and> kind_resolved d d' rows ''tax'' (taxMap maps) ''Tax''
     \<and> kind_resolved d d' rows ''unit'' (unitMap maps) ''Unit''
     \<and> (\<forall>coll. coll \<notin> set [''Category'', ''SubCategory'', ''Brand'', ''Tax'', ''Unit''] \<longrightarrow>
           collections d' coll = collections d coll))
   \<and> (excel_resolve refuse user d (map remapRow sheet) = Inr (d'', maps') \<longrightarrow>
       kind_resolved d d'' (map remapRow sheet) ''category'' (categoryMap maps') ''Category''
     \<and> kind_resolved d d'' (map remapRow sheet) ''brand'' (brandMap maps') ''Brand''
     \<and> kind_resolved d d'' (map remapRow sheet) ''subCategory'' (subCategoryMap maps')
         ''SubCategory''
     \<and> kind_resolved d d'' (map remapRow sheet) ''tax'' (taxMap maps') ''Tax''
     \<and> kind_resolved d d'' (map remapRow sheet) ''unit'' (unitMap maps') ''Unit''
     \<and> kind_resolved d d'' (map remapRow sheet) ''warranty'' (warrantyMap maps') ''Warranty''
     \<and> kind_resolved d d'' (map remapRow sheet) ''size'' (sizeMap maps') ''Size''
     \<and> kind_resolved d d'' (map remapRow sheet) ''volume'' (volumeMap maps') ''Volume'')"
proof (intro conjI impI)
  assume run: "csv_resolve refuse user d rows = Inr (d', maps)"
  from csv_resolve_kinds [OF run]
  show "kind_resolved d d' rows ''parent_category'' (parentCategoryMap maps) ''Category''"
    and "kind_resolved d d' rows ''category'' (subCategoryMap maps) ''SubCategory''"
    and "kind_resolved d d' rows ''brand'' (brandMap maps) ''Brand''"
    and "kind_resolved d d' rows ''tax'' (taxMap maps) ''Tax''"
    and "kind_resolved d d' rows ''unit'' (unitMap maps) ''Unit''"
    and "\<forall>coll. coll \<notin> set [''Category'', ''SubCategory'', ''Brand'', ''Tax'', ''Unit''] \<longrightarrow>
           collections d' coll = collections d coll"
    by blast+
next
  assume run: "excel_resolve refuse user d (map remapRow sheet) = Inr (d'', maps')"
  from excel_resolve_kinds [OF run]
  show "kind_resolved d d'' (map remapRow sheet) ''category'' (categoryMap maps') ''Category''"
    and "kind_resolved d d'' (map remapRow sheet) ''brand'' (brandMap maps') ''Brand''"
    and "kind_resolved d d'' (map remapRow sheet) ''subCategory'' (subCategoryMap maps')
         ''SubCategory''"
    and "kind_resolved d d'' (map remapRow sheet) ''tax'' (taxMap maps') ''Tax''"
    and "kind_resolved d d'' (map remapRow sheet) ''unit'' (unitMap maps') ''Unit''"
    and "kind_resolved d d'' (map remapRow sheet) ''warranty'' (warrantyMap maps') ''Warranty''"
    and "kind_resolved d d'' (map remapRow sheet) ''size'' (sizeMap maps') ''Size''"
    and "kind_resolved d d'' (map remapRow sheet) ''volume'' (volumeMap maps') ''Volume''"
    by blast+
qed

theorem dimensions_resolved_witness:
  "(\<exists>d' maps. csv_resolve accept_all Null gadgets_db brand_rows = Inr (d', maps)
       \<and> parentCategoryMap maps ''gadgets'' = Some (ObjectId 0)
       \<and> (\<exists>e \<in> set (collections d' ''Brand'').
             dim_key (get e ''name'') = ''acme''
           \<and> dim_lookup (brandMap maps) (Str ''Acme'') = get e ''_id''
           \<and> dim_lookup (brandMap maps) (Str ''ACME '') = get e ''_id'')
       \<and> collections d' ''Warranty'' = collections gadgets_db ''Warranty'')
   \<and> (\<exists>d' maps. excel_resolve accept_all Null gadgets_db (map remapRow brand_rows) = Inr (d', maps)
       \<and> (\<exists>e \<in> set (collections d' ''Brand'').
             dim_key (get e ''name'') = ''acme''
           \<and> dim_lookup (brandMap maps) (Str ''Acme'') = get e ''_id''
           \<and> dim_lookup (brandMap maps) (Str ''ACME '') = get e ''_id''))"
proof -
  have "case csv_resolve accept_all Null gadgets_db brand_rows of
          Inl msg \<Rightarrow> False | Inr res \<Rightarrow> True"
    by code_simp
  then obtain dc mc where
    csv: "csv_resolve accept_all Null gadgets_db brand_rows = Inr (dc, mc)"
    by (auto split: sum.splits)
  have "case excel_resolve accept_all Null gadgets_db (map remapRow brand_rows) of
          Inl msg \<Rightarrow> False | Inr res \<Rightarrow> True"
    by code_simp
  then obtain dx mx where
    xls: "excel_resolve accept_all Null gadgets_db (map remapRow brand_rows) = Inr (dx, mx)"
    by (auto split: sum.splits)
  note all = dimensions_resolved [where refuse = accept_all and user = Null and d = gadgets_db
      and rows = brand_rows and d' = dc and maps = mc and sheet = brand_rows and d'' = dx
      and maps' = mx]
  have same_rows: "map remapRow brand_rows = brand_rows" by code_simp
  have in0: "brand_rows ! 0 \<in> set brand_rows" and in1: "brand_rows ! 1 \<in> set brand_rows"
    by (simp_all add: brand_rows_def)
  have g0: "get (brand_rows ! 0) ''brand'' = Str ''Acme''"
    and g1: "get (brand_rows ! 1) ''brand'' = Str ''ACME ''"
    and p1: "get (brand_rows ! 1) ''parent_category'' = Str ''Gadgets''"
    by (simp_all add: brand_rows_def get_Cons)
  have k0: "dim_key (Str ''Acme'') = ''acme''" and k1: "dim_key (Str ''ACME '') = ''acme''"
    and kp: "dim_key (Str ''Gadgets'') = ''gadgets''"
    by code_simp+
  have stored: "Str (trim (js_String (Str ''Gadgets'')))
                  \<in> (\<lambda>e. get e ''name'') ` set (collections gadgets_db ''Category'')"
    by code_simp
  have only: "\<forall>e \<in> set (collections gadgets_db ''Category''). get e ''_id'' = ObjectId 0"
    by code_simp
  have brands: "\<exists>e \<in> set (collections d2 ''Brand'').
             dim_key (get e ''name'') = ''acme''
           \<and> dim_lookup m (Str ''Acme'') = get e ''_id''
           \<and> dim_lookup m (Str ''ACME '') = get e ''_id''"
    if k: "kind_resolved gadgets_db d2 brand_rows ''brand'' m ''Brand''" for d2 m
  proof -
    from k in0 g0 obtain e where e: "e \<in> set (collections d2 ''Brand'')"
      "dim_key (get e ''name'') = dim_key (Str ''Acme'')"
      and rest: "\<forall>r' \<in> set brand_rows.
                truthy (get r' ''brand'') \<and> dim_key (get r' ''brand'') = dim_key (Str ''Acme'') \<longrightarrow>
                  dim_lookup m (get r' ''brand'') = get e ''_id''"
      unfolding kind_resolved_def by fastforce
    from rest in0 g0 have a: "dim_lookup m (Str ''Acme'') = get e ''_id''" by fastforce
    from rest in1 g1 k0 k1 have b: "dim_lookup m (Str ''ACME '') = get e ''_id''" by fastforce
    from e a b k0 show ?thesis by (intro bexI [where x = e]) simp_all
  qed
  from all csv have "kind_resolved gadgets_db dc brand_rows ''parent_category''
      (parentCategoryMap mc) ''Category''"
    by blast
  with in1 p1 stored kp have "\<exists>e \<in> set (collections gadgets_db ''Category'').
      parentCategoryMap mc ''gadgets'' = Some (get e ''_id'')"
    unfolding kind_resolved_def by fastforce
  with only have 1: "parentCategoryMap mc ''gadgets'' = Some (ObjectId 0)" by auto
  from all csv have "kind_resolved gadgets_db dc brand_rows ''brand'' (brandMap mc) ''Brand''"
    by blast
  then have 2: "\<exists>e \<in> set (collections dc ''Brand'').
             dim_key (get e ''name'') = ''acme''
           \<and> dim_lookup (brandMap mc) (Str ''Acme'') = get e ''_id''
           \<and> dim_lookup (brandMap mc) (Str ''ACME '') = get e ''_id''"
    by (rule brands)
  from all csv have 3: "collections dc ''Warranty'' = collections gadgets_db ''Warranty''"
    by simp
  from all xls have "kind_resolved gadgets_db dx (map remapRow brand_rows) ''brand''
      (brandMap mx) ''Brand''"
    by blast
  then have "kind_resolved gadgets_db dx brand_rows ''brand'' (brandMap mx) ''Brand''"
    by (simp only: same_rows)
  then have 4: "\<exists>e \<in> set (collections dx ''Brand'').
             dim_key (get e ''name'') = ''acme''
           \<and> dim_lookup (brandMap mx) (Str ''Acme'') = get e ''_id''
           \<and> dim_lookup (brandMap mx) (Str ''ACME '') = get e ''_id''"
    by (rule brands)
  have c1: "\<exists>d' maps. csv_resolve accept_all Null gadgets_db brand_rows = Inr (d', maps)
       \<and> parentCategoryMap maps ''gadgets'' = Some (ObjectId 0)
       \<and> (\<exists>e \<in> set (collections d' ''Brand'').
             dim_key (get e ''name'') = ''acme''
           \<and> dim_lookup (brandMap maps) (Str ''Acme'') = get e ''_id''
           \<and> dim_lookup (brandMap maps) (Str ''ACME '') = get e ''_id'')
       \<and> collections d' ''Warranty'' = collections gadgets_db ''Warranty''"
    using csv 1 2 3 by - (rule exI [where x = dc], rule exI [where x = mc], simp)
  have c2: "\<exists>d' maps. excel_resolve accept_all Null gadgets_db (map remapRow brand_rows) = Inr (d', maps)
       \<and> (\<exists>e \<in> set (collections d' ''Brand'').
             dim_key (get e ''name'') = ''acme''
           \<and> dim_lookup (brandMap maps) (Str ''Acme'') = get e ''_id''
           \<and> dim_lookup (brandMap maps) (Str ''ACME '') = get e ''_id'')"
    using xls 4 by - (rule exI [where x = dx], rule exI [where x = mx], simp)
  show ?thesis by (intro conjI c1 c2)
qed

text \<open>
  The claim as stated fails in the CSV preview for a kind that this path does not
  resolve: the warranty of a row is neither looked up nor created, no map has an entry
  for it, and the candidate has no warranty.
\<close>

theorem dimensions_counterexample:
  "truthy (get (warranty_rows ! 0) ''warranty'')
   \<and> \<not> isl (csv_resolve accept_all Null empty_db warranty_rows)
   \<and> collections (fst (projr (csv_resolve accept_all Null empty_db warranty_rows))) ''Warranty''
       = []
   \<and> warrantyMap (snd (projr (csv_resolve accept_all Null empty_db warranty_rows)))
       (dim_key (get (warranty_rows ! 0) ''warranty'')) = None
   \<and> map (\<lambda>p. get p ''warranty'')
       (rp_previewProducts (fst (projr (bulk_preview_csv accept_all Null empty_db warranty_rows))))
       = [Undefined]"
  by code_simp

text \<open>
  \<^bold>\<open>C8.\<close> The CSV preview on a row that gives a name and a parent category and no
  boolean-like field: the candidate has \<^verbatim>\<open>showStockOut\<close>, \<^verbatim>\<open>canPurchase\<close> and
  \<^verbatim>\<open>refundable\<close> equal to \<^verbatim>\<open>false\<close>, where the claim, the spreadsheet preview and
  save mode have \<^verbatim>\<open>true\<close>.
\<close>

theorem csv_boolean_defaults:
  "\<not> isl (bulk_preview_csv accept_all Null empty_db
            [[(''name'', Str ''Widget''), (''parent_category'', Str ''Gadgets'')]])
   \<and> map (\<lambda>p. [get p ''showStockOut'', get p ''canPurchase'', get p ''refundable'',
                get p ''isActive'', get p ''featured''])
        (rp_previewProducts (fst (projr (bulk_preview_csv accept_all Null empty_db
           [[(''name'', Str ''Widget''), (''parent_category'', Str ''Gadgets'')]]))))
       = [[Bool False, Bool False, Bool False, Bool True, Bool False]]
   \<and> map (\<lambda>p. [get p ''showStockOut'', get p ''canPurchase'', get p ''refundable'',
                get p ''isActive'', get p ''featured''])
        (rp_previewProducts (fst (projr (bulk_preview accept_all Null empty_db
           [[(''name'', Str ''Widget''), (''parent_category'', Str ''Gadgets'')]]))))
       = [[Bool True, Bool True, Bool True, Bool True, Bool False]]
   \<and> map (\<lambda>e. [get (sr_product e) ''showStockOut'', get (sr_product e) ''canPurchase'',
                get (sr_product e) ''refundable'', get (sr_product e) ''isActive'',
                get (sr_product e) ''featured''])
        (sv_results (fst (projr (bulk_save accept_all Null empty_db
           [[(''name'', Str ''Widget''), (''parentCategory'', ObjectId 0)]]))))
       = [[Bool True, Bool True, Bool True, Bool True, Bool False]]"
  by code_simp

text \<open>
  \<^bold>\<open>C9.\<close> In save mode a row that passes the checks and whose save the store refuses
  is recorded as failed with the message of the store, and leaves the store as it was.
  The report exists and holds one result per candidate; every later row is processed
  from the store of that moment: a later row that is saved is reported as a success and
  is in the final store, a later row that fails is reported with its own reason.
\<close>

theorem persistence_failure_isolated:
  assumes i: "i < length rows"
    and checks: "\<not> empty_row (rows ! i)"
      "findOne_name_or_slug (store_after refuse user d (take i rows))
         (get (rows ! i) ''name'') (get (rows ! i) ''slug'') = None"
      "truthy (get (rows ! i) ''name'')" "truthy (get (rows ! i) ''parentCategory'')"
      "slug_or_generate (get (rows ! i) ''slug'') (get (rows ! i) ''name'') = Inr slug"
    and refused: "refuse ''Product''
         (collections (store_after refuse user d (take i rows)) ''Product'')
         (product_doc user (rows ! i) slug) = Some msg"
  shows "\<exists>saved d3. bulk_save refuse user d rows = Inr (saved, d3)
           \<and> length (sv_results saved) = length rows
           \<and> sv_results saved ! i =
               \<lparr>sr_index = i, sr_status = ''failed'', sr_reason = Some msg, sr_product = rows ! i\<rparr>
           \<and> store_after refuse user d (take (Suc i) rows) = store_after refuse user d (take i rows)
           \<and> (\<forall>j doc. i < j \<longrightarrow> j < length rows \<longrightarrow>
                 fst (save_row refuse user (store_after refuse user d (take j rows)) (rows ! j))
                   = Inr doc \<longrightarrow>
                 sr_index (sv_results saved ! j) = j
                 \<and> sr_status (sv_results saved ! j) = ''success''
                 \<and> doc \<in> set (collections d3 ''Product''))
           \<and> (\<forall>j why. i < j \<longrightarrow> j < length rows \<longrightarrow>
                 fst (save_row refuse user (store_after refuse user d (take j rows)) (rows ! j))
                   = Inl why \<longrightarrow>
                 sv_results saved ! j =
                   \<lparr>sr_index = j, sr_status = ''failed'', sr_reason = Some why,
                    sr_product = rows ! j\<rparr>)"
proof -
  from i have "rows \<noteq> []" by auto
  from bulk_save_total [OF this] obtain saved d3 where
    run: "bulk_save refuse user d rows = Inr (saved, d3)" by blast
  note facts = bulk_save_Inr [OF run]
  let ?before = "store_after refuse user d (take i rows)"
  have step: "save_row refuse user ?before (rows ! i) = (Inl msg, ?before)"
    using checks refused by (rule save_row_refused)
  from facts have len: "length (sv_results saved) = length rows"
    by (simp add: length_save_entries)
  from bulk_save_nth [OF run i] step
  have at_i: "sv_results saved ! i =
      \<lparr>sr_index = i, sr_status = ''failed'', sr_reason = Some msg, sr_product = rows ! i\<rparr>"
    by (simp add: save_entry_Inl populate_failed)
  from store_after_Suc [OF i, of refuse user d] step
  have unchanged: "store_after refuse user d (take (Suc i) rows) = ?before" by simp
  have later_ok: "\<forall>j doc. i < j \<longrightarrow> j < length rows \<longrightarrow>
      fst (save_row refuse user (store_after refuse user d (take j rows)) (rows ! j)) = Inr doc \<longrightarrow>
      sr_index (sv_results saved ! j) = j \<and> sr_status (sv_results saved ! j) = ''success''
      \<and> doc \<in> set (collections d3 ''Product'')"
  proof (intro allI impI)
    fix j doc
    assume j: "j < length rows"
      and ok: "fst (save_row refuse user (store_after refuse user d (take j rows)) (rows ! j))
                 = Inr doc"
    from bulk_save_nth [OF run j] ok
    have "sr_index (sv_results saved ! j) = j" "sr_status (sv_results saved ! j) = ''success''"
      by (simp_all add: save_entry_Inr populate_result_index populate_result_status)
    moreover from saved_in_final_store [OF j ok] facts
    have "doc \<in> set (collections d3 ''Product'')" by simp
    ultimately show "sr_index (sv_results saved ! j) = j
      \<and> sr_status (sv_results saved ! j) = ''success'' \<and> doc \<in> set (collections d3 ''Product'')"
      by simp
  qed
  have later_failed: "\<forall>j why. i < j \<longrightarrow> j < length rows \<longrightarrow>
      fst (save_row refuse user (store_after refuse user d (take j rows)) (rows ! j)) = Inl why \<longrightarrow>
      sv_results saved ! j =
        \<lparr>sr_index = j, sr_status = ''failed'', sr_reason = Some why, sr_product = rows ! j\<rparr>"
  proof (intro allI impI)
    fix j why
    assume j: "j < length rows"
      and ko: "fst (save_row refuse user (store_after refuse user d (take j rows)) (rows ! j))
                 = Inl why"
    from bulk_save_nth [OF run j] ko
    show "sv_results saved ! j =
        \<lparr>sr_index = j, sr_status = ''failed'', sr_reason = Some why, sr_product = rows ! j\<rparr>"
      by (simp add: save_entry_Inl populate_failed)
  qed
  from run len at_i unchanged later_ok later_failed show ?thesis by blast
qed

theorem persistence_failure_isolated_witness:
  "\<exists>saved d3. bulk_save refuse_gizmo Null empty_db gizmo_widget_rows = Inr (saved, d3)
      \<and> length (sv_results saved) = 2
      \<and> sv_results saved ! 0 =
          \<lparr>sr_index = 0, sr_status = ''failed'', sr_reason = Some ''Product validation failed'',
           sr_product = gizmo_widget_rows ! 0\<rparr>
      \<and> sr_index (sv_results saved ! 1) = 1
      \<and> sr_status (sv_results saved ! 1) = ''success''
      \<and> length (collections d3 ''Product'') = 1"
proof -
  have i: "0 < length gizmo_widget_rows" and len: "length gizmo_widget_rows = 2"
    by (simp_all add: gizmo_widget_rows_def)
  have checks: "\<not> empty_row (gizmo_widget_rows ! 0)"
    "findOne_name_or_slug (store_after refuse_gizmo Null empty_db (take 0 gizmo_widget_rows))
       (get (gizmo_widget_rows ! 0) ''name'') (get (gizmo_widget_rows ! 0) ''slug'') = None"
    "truthy (get (gizmo_widget_rows ! 0) ''name'')"
    "truthy (get (gizmo_widget_rows ! 0) ''parentCategory'')"
    "slug_or_generate (get (gizmo_widget_rows ! 0) ''slug'') (get (gizmo_widget_rows ! 0) ''name'')
       = Inr (Str ''gizmo'')"
    by code_simp+
  have refused: "refuse_gizmo ''Product''
       (collections (store_after refuse_gizmo Null empty_db (take 0 gizmo_widget_rows)) ''Product'')
       (product_doc Null (gizmo_widget_rows ! 0) (Str ''gizmo'')) = Some ''Product validation failed''"
    by code_simp
  have "case fst (save_row refuse_gizmo Null
                (store_after refuse_gizmo Null empty_db (take 1 gizmo_widget_rows))
                (gizmo_widget_rows ! 1)) of
          Inl why \<Rightarrow> False | Inr doc \<Rightarrow> True"
    by code_simp
  then obtain doc where later:
    "fst (save_row refuse_gizmo Null
            (store_after refuse_gizmo Null empty_db (take 1 gizmo_widget_rows))
            (gizmo_widget_rows ! 1)) = Inr doc"
    by (auto split: sum.splits)
  have count: "case bulk_save refuse_gizmo Null empty_db gizmo_widget_rows of
      Inl msg \<Rightarrow> False | Inr (saved, d) \<Rightarrow> length (collections d ''Product'') = 1"
    by code_simp
  from persistence_failure_isolated [OF i checks refused] obtain saved d3 where
    run: "bulk_save refuse_gizmo Null empty_db gizmo_widget_rows = Inr (saved, d3)"
    and n: "length (sv_results saved) = length gizmo_widget_rows"
    and failed: "sv_results saved ! 0 =
          \<lparr>sr_index = 0, sr_status = ''failed'', sr_reason = Some ''Product validation failed'',
           sr_product = gizmo_widget_rows ! 0\<rparr>"
    and rest: "\<forall>j doc. 0 < j \<longrightarrow> j < length gizmo_widget_rows \<longrightarrow>
        fst (save_row refuse_gizmo Null
               (store_after refuse_gizmo Null empty_db (take j gizmo_widget_rows))
               (gizmo_widget_rows ! j)) = Inr doc \<longrightarrow>
        sr_index (sv_results saved ! j) = j \<and> sr_status (sv_results saved ! j) = ''success''
        \<and> doc \<in> set (collections d3 ''Product'')"
    by blast
  from rest later len have "sr_index (sv_results saved ! 1) = 1"
    "sr_status (sv_results saved ! 1) = ''success''"
    by auto
  moreover from count run have "length (collections d3 ''Product'') = 1" by simp
  ultimately show ?thesis
    using run n len failed
    by - (rule exI [where x = saved], rule exI [where x = d3], simp)
qed

text \<open>
  \<^bold>\<open>C10\<close>, as amended. Every product document that bulk-save adds to the store has
  its \<^verbatim>\<open>subCategory\<close> equal to its \<^verbatim>\<open>category\<close>. The document that the
  single-product route saves has the \<^verbatim>\<open>category\<close> of the request and, as
  \<^verbatim>\<open>subCategory\<close>, that same value when it is truthy (an identifier) and
  \<^verbatim>\<open>undefined\<close> otherwise: the two fields are equal when the category is an
  identifier or is absent, and differ when the category is another falsy value.
\<close>

theorem subCategory_mirrors_category:
  "(bulk_save refuse user d rows = Inr (saved, d3) \<longrightarrow>
      (\<forall>doc \<in> set (collections d3 ''Product'').
          doc \<in> set (collections d ''Product'')
          \<or> get doc ''subCategory'' = get doc ''category''))
   \<and> (create_product refuse user d body = Inr (created, d') \<longrightarrow>
      collections d' ''Product'' = collections d ''Product'' @ [created]
      \<and> get created ''category'' = get body ''category''
      \<and> get created ''subCategory'' =
          (if truthy (get body ''category'') then get body ''category'' else Undefined))"
proof (intro conjI impI ballI)
  fix doc
  assume run: "bulk_save refuse user d rows = Inr (saved, d3)"
    and doc: "doc \<in> set (collections d3 ''Product'')"
  from bulk_save_Inr [OF run] doc
  have "doc \<in> set (collections (store_after refuse user d rows) ''Product'')" by simp
  from store_after_new [OF this]
  show "doc \<in> set (collections d ''Product'') \<or> get doc ''subCategory'' = get doc ''category''"
    by (auto simp: product_doc_mirror)
next
  assume run: "create_product refuse user d body = Inr (created, d')"
  let ?data = "filter (\<lambda>(k, v). k \<noteq> ''parentCategory'' \<and> k \<noteq> ''category'') body"
  let ?doc = "put (put (put (put ?data ''parentCategory'' (get body ''parentCategory''))
                ''category'' (get body ''category''))
                ''subCategory'' (js_or (get body ''category'') Undefined))
                ''createdBy'' user"
  from run have c: "db_create refuse d ''Product'' ?doc = Inr (created, d')"
    by (simp add: create_product_def Let_def split: if_splits)
  from db_create_same [OF c]
  show "collections d' ''Product'' = collections d ''Product'' @ [created]" by simp
  from db_create_same [OF c]
  show "get created ''category'' = get body ''category''"
    by (simp add: get_Cons get_put)
  from db_create_same [OF c]
  show "get created ''subCategory'' =
          (if truthy (get body ''category'') then get body ''category'' else Undefined)"
    by (simp add: get_Cons get_put js_or_def)
qed

theorem subCategory_mirrors_category_witness:
  "(\<exists>saved d3. bulk_save accept_all Null gadgets_db [phone_product] = Inr (saved, d3)
       \<and> map (\<lambda>doc. get doc ''category'') (collections d3 ''Product'') = [ObjectId 5]
       \<and> list_all (\<lambda>doc. get doc ''subCategory'' = get doc ''category'') (collections d3 ''Product''))
   \<and> (\<exists>created d'. create_product accept_all Null gadgets_db phone_product = Inr (created, d')
       \<and> get created ''category'' = ObjectId 5
       \<and> get created ''subCategory'' = ObjectId 5)"
proof -
  have "case bulk_save accept_all Null gadgets_db [phone_product] of
          Inl msg \<Rightarrow> False
        | Inr (saved, d) \<Rightarrow>
            map (\<lambda>doc. get doc ''category'') (collections d ''Product'') = [ObjectId 5]"
    by code_simp
  then obtain saved d3 where
    save: "bulk_save accept_all Null gadgets_db [phone_product] = Inr (saved, d3)"
    and n: "map (\<lambda>doc. get doc ''category'') (collections d3 ''Product'') = [ObjectId 5]"
    by (auto split: sum.splits)
  have "case create_product accept_all Null gadgets_db phone_product of
          Inl msg \<Rightarrow> False | Inr (created, d) \<Rightarrow> True"
    by code_simp
  then obtain created d' where
    create: "create_product accept_all Null gadgets_db phone_product = Inr (created, d')"
    by (auto split: sum.splits)
  have old: "collections gadgets_db ''Product'' = []" by (simp add: gadgets_db_def)
  have cat: "get phone_product ''category'' = ObjectId 5"
    by (simp add: phone_product_def get_Cons)
  note all = subCategory_mirrors_category [where refuse = accept_all and user = Null
      and d = gadgets_db]
  from all [where rows = "[phone_product]" and saved = saved and ?d3.0 = d3] save old
  have 1: "list_all (\<lambda>doc. get doc ''subCategory'' = get doc ''category'') (collections d3 ''Product'')"
    by (simp add: list_all_iff)
  from all [where created = created and d' = d' and body = phone_product] create cat
  have 2: "get created ''category'' = ObjectId 5" "get created ''subCategory'' = ObjectId 5"
    by simp_all
  have c1: "\<exists>saved d3. bulk_save accept_all Null gadgets_db [phone_product] = Inr (saved, d3)
       \<and> map (\<lambda>doc. get doc ''category'') (collections d3 ''Product'') = [ObjectId 5]
       \<and> list_all (\<lambda>doc. get doc ''subCategory'' = get doc ''category'') (collections d3 ''Product'')"
    using save n 1 by - (rule exI [where x = saved], rule exI [where x = d3], simp)
  have c2: "\<exists>created d'. create_product accept_all Null gadgets_db phone_product = Inr (created, d')
       \<and> get created ''category'' = ObjectId 5
       \<and> get created ''subCategory'' = ObjectId 5"
    using create 2 by - (rule exI [where x = created], rule exI [where x = d'], simp)
  show ?thesis by (intro conjI c1 c2)
qed

text \<open>
  The claim as stated fails in the single-product route for a request whose category is
  \<^verbatim>\<open>null\<close>: the saved document has \<^verbatim>\<open>category: null\<close> and no \<^verbatim>\<open>subCategory\<close>.
\<close>

theorem subCategory_counterexample:
  "map_sum id fst (create_product accept_all Null gadgets_db
       [(''name'', Str ''Widget''), (''parentCategory'', ObjectId 0), (''category'', Null)]) =
     Inr [(''_id'', ObjectId 6), (''name'', Str ''Widget''), (''parentCategory'', ObjectId 0),
          (''category'', Null), (''subCategory'', Undefined), (''createdBy'', Null)]
   \<and> Null \<noteq> Undefined"
  by code_simp

end
